theory Spec2Isabelle
  imports Main "HOL-Library.AList"
begin

section \<open>JavaScript values\<close>

text \<open>
  The data that travels between localStorage, the sync engine and Firestore is JSON-like.
  Numbers are modelled as integers: the sync engine performs no arithmetic on stored numbers,
  it only tests them for truthiness and against zero. An object is an association list in
  insertion order. \<open>JUndef\<close> is what reading a missing property gives.
\<close>

datatype jv =
    JUndef
  | JNull
  | JBool bool
  | JNum int
  | JStr string
  | JArr "jv list"
  | JObj "(string \<times> jv) list"

datatype error = TransportError | StorageError | TypeError | InvalidArgument

type_synonym document = "(string \<times> jv) list"

text \<open>JavaScript truthiness: the condition of \<open>if (v)\<close>, \<open>!v\<close> and the left side of \<open>||\<close>.\<close>

fun truthy :: "jv \<Rightarrow> bool" where
  "truthy JUndef = False"
| "truthy JNull = False"
| "truthy (JBool b) = b"
| "truthy (JNum n) = (n \<noteq> 0)"
| "truthy (JStr s) = (s \<noteq> [])"
| "truthy (JArr xs) = True"
| "truthy (JObj kvs) = True"

text \<open>\<open>v == null\<close>: true of \<open>null\<close> and \<open>undefined\<close> only.\<close>

fun nullish :: "jv \<Rightarrow> bool" where
  "nullish JUndef = True"
| "nullish JNull = True"
| "nullish _ = False"

text \<open>\<open>a || b\<close> and \<open>a ?? b\<close> on values whose right operand has no effect.\<close>

definition or_else :: "jv \<Rightarrow> jv \<Rightarrow> jv" where
  "or_else a b = (if truthy a then a else b)"

definition coalesce :: "jv \<Rightarrow> jv \<Rightarrow> jv" where
  "coalesce a b = (if nullish a then b else a)"

text \<open>Reading a field of a document, or of the object \<open>snap.data()\<close> returns.\<close>

definition field :: "document \<Rightarrow> string \<Rightarrow> jv" where
  "field d k = (case map_of d k of None \<Rightarrow> JUndef | Some v \<Rightarrow> v)"

text \<open>
  Property access \<open>v.k\<close>. On \<open>null\<close> and \<open>undefined\<close> it throws a TypeError. Only own data
  properties and \<open>length\<close> are modelled; the keys the sync engine reads are fixed field names
  and ISO dates, never array indices.
\<close>

fun get_prop :: "jv \<Rightarrow> string \<Rightarrow> error + jv" where
  "get_prop JUndef k = Inl TypeError"
| "get_prop JNull k = Inl TypeError"
| "get_prop (JObj kvs) k = Inr (field kvs k)"
| "get_prop (JArr xs) k = Inr (if k = ''length'' then JNum (int (length xs)) else JUndef)"
| "get_prop (JStr s) k = Inr (if k = ''length'' then JNum (int (length s)) else JUndef)"
| "get_prop (JBool b) k = Inr JUndef"
| "get_prop (JNum n) k = Inr JUndef"

text \<open>Optional chaining \<open>v?.k\<close>.\<close>

definition get_prop_opt :: "jv \<Rightarrow> string \<Rightarrow> jv" where
  "get_prop_opt v k = (case get_prop v k of Inl e \<Rightarrow> JUndef | Inr x \<Rightarrow> x)"

text \<open>
  \<open>v > 0\<close>. Exact for numbers, booleans, \<open>null\<close> and \<open>undefined\<close>; a string, array or object
  operand (which JavaScript would first convert to a number) is taken as not greater. The
  operand is always a \<open>length\<close>, so this only concerns an object with a non-numeric field
  named \<open>length\<close>.
\<close>

fun gt_zero :: "jv \<Rightarrow> bool" where
  "gt_zero (JNum n) = (0 < n)"
| "gt_zero (JBool b) = b"
| "gt_zero _ = False"

definition digit :: "nat \<Rightarrow> char" where
  "digit n = ''0123456789'' ! (n mod 10)"

fun show_nat :: "nat \<Rightarrow> string" where
  "show_nat n = (if n < 10 then [digit n] else show_nat (n div 10) @ [digit n])"

declare show_nat.simps [simp del]

text \<open>The own enumerable properties an object spread \<open>{...v}\<close> copies.\<close>

fun own_props :: "jv \<Rightarrow> (string \<times> jv) list" where
  "own_props (JObj kvs) = kvs"
| "own_props (JArr xs) = zip (map show_nat [0..<length xs]) xs"
| "own_props (JStr s) = zip (map show_nat [0..<length s]) (map (\<lambda>c. JStr [c]) s)"
| "own_props JUndef = []"
| "own_props JNull = []"
| "own_props (JBool b) = []"
| "own_props (JNum n) = []"

text \<open>The values \<open>for (const x of v)\<close> visits; a value that is not iterable throws.\<close>

fun iterate :: "jv \<Rightarrow> error + jv list" where
  "iterate (JArr xs) = Inr xs"
| "iterate (JStr s) = Inr (map (\<lambda>c. JStr [c]) s)"
| "iterate _ = Inl TypeError"

text \<open>\<open>xs.filter(p)\<close> with a predicate that may throw.\<close>

fun filterM :: "('a \<Rightarrow> error + bool) \<Rightarrow> 'a list \<Rightarrow> error + 'a list" where
  "filterM p [] = Inr []"
| "filterM p (x # xs) =
     (case p x of
        Inl e \<Rightarrow> Inl e
      | Inr b \<Rightarrow>
          (case filterM p xs of
             Inl e \<Rightarrow> Inl e
           | Inr ys \<Rightarrow> Inr (if b then x # ys else ys)))"

text \<open>\<open>v.filter(p)\<close>: only arrays have the method.\<close>

fun js_filter :: "(jv \<Rightarrow> error + bool) \<Rightarrow> jv \<Rightarrow> error + jv list" where
  "js_filter p (JArr xs) = filterM p xs"
| "js_filter p _ = Inl TypeError"


section \<open>Dates\<close>

text \<open>
  A \<open>Date\<close> is kept as its UTC components (the month as printed, 1 to 12).
  \<open>toISOString\<close> prints \<open>YYYY-MM-DDTHH:mm:ss.sssZ\<close>, with a six-digit signed year beyond 9999.
\<close>

record date =
  utcFullYear :: nat
  utcMonth :: nat
  utcDate :: nat
  utcHours :: nat
  utcMinutes :: nat
  utcSeconds :: nat
  utcMilliseconds :: nat

definition pad2 :: "nat \<Rightarrow> string" where
  "pad2 n = [digit (n div 10), digit n]"

definition pad3 :: "nat \<Rightarrow> string" where
  "pad3 n = [digit (n div 100), digit (n div 10), digit n]"

definition pad4 :: "nat \<Rightarrow> string" where
  "pad4 n = [digit (n div 1000), digit (n div 100), digit (n div 10), digit n]"

definition year_string :: "nat \<Rightarrow> string" where
  "year_string y =
     (if y \<le> 9999 then pad4 y else CHR ''+'' # pad2 (y div 10000) @ pad4 y)"

definition iso_day :: "date \<Rightarrow> string" where
  "iso_day t = year_string (utcFullYear t) @ ''-'' @ pad2 (utcMonth t) @ ''-'' @ pad2 (utcDate t)"

definition toISOString :: "date \<Rightarrow> string" where
  "toISOString t =
     iso_day t @ ''T'' @ pad2 (utcHours t) @ '':'' @ pad2 (utcMinutes t) @ '':''
       @ pad2 (utcSeconds t) @ ''.'' @ pad3 (utcMilliseconds t) @ ''Z''"

text \<open>\<open>t.toISOString().split("T")[0]\<close>: the text before the first \<open>T\<close>.\<close>

definition today_key :: "date \<Rightarrow> string" where
  "today_key t = takeWhile (\<lambda>c. c \<noteq> CHR ''T'') (toISOString t)"


section \<open>The world the sync engine runs in\<close>

text \<open>
  The keys of \<open>STORAGE_KEYS\<close>. The table itself lives in \<open>utils/localStorage\<close>; its entries
  are taken to be distinct.
\<close>

datatype slot =
    USER_PROFILE | DAILY_TARGET | MACRO_GOALS | MICRONUTRIENT_GOALS | PREFERENCES
  | FOOD_LOG | EXERCISE_LOG | WATER_LOG | WEEKLY_HISTORY | FOOD_HISTORY
  | RECENT_FOODS | FAVORITE_FOODS | WEIGHT_LOG | STREAK_DATA
  | CURRENT_DATE | ONBOARDING | LAST_SYNC_TIME

text \<open>A Firestore document reference \<open>users/{userId}/data/{docId}\<close>.\<close>

type_synonym docref = "string \<times> string"

text \<open>What the engine does to the outside, in the order it does it.\<close>

datatype event =
    RGet docref
  | RSet docref document
  | RBatch "(docref \<times> document) list"
  | RDelete docref
  | GetAllRecipes
  | GetAllTemplates
  | SaveRecipe jv
  | SaveTemplate jv
  | SaveLastSyncTime date
  | SyncComplete date
  | ConsoleError string error

text \<open>
  \<^item> \<open>db\<close>, \<open>configured\<close>: whether the Firestore handle is non-null and what
    \<open>isFirebaseConfigured()\<close> answers (the shipped \<open>firebase.js\<close> fixes both to true);
  \<^item> \<open>remote\<close>: the Firestore documents; \<open>store\<close>: localStorage, each slot holding parsed
    JSON; \<open>defaults\<close>: what a loader of \<open>utils/localStorage\<close> returns for an absent slot;
  \<^item> \<open>recipes\<close>, \<open>templates\<close>: the local recipe and template collections;
  \<^item> \<open>faults\<close>: which calls to an asynchronous collaborator (Firestore, the recipe and
    template collections) reject, by the number of the call; \<open>calls\<close> counts them;
  \<^item> \<open>clock\<close>: what the n-th \<open>new Date()\<close> reads; \<open>ticks\<close> counts the readings;
  \<^item> \<open>random\<close>: what the n-th \<open>Date.now() + Math.random()\<close> yields; \<open>draws\<close> counts them;
  \<^item> \<open>trace\<close>: the events so far.
\<close>

record world =
  db :: bool
  configured :: bool
  remote :: "docref \<Rightarrow> document option"
  store :: "slot \<Rightarrow> jv option"
  defaults :: "slot \<Rightarrow> jv"
  recipes :: "jv list"
  templates :: "jv list"
  faults :: "nat \<Rightarrow> bool"
  calls :: nat
  clock :: "nat \<Rightarrow> date"
  ticks :: nat
  random :: "nat \<Rightarrow> nat"
  draws :: nat
  trace :: "event list"

text \<open>
  An operation takes the world and returns a value or the error it throws (for an
  \<open>async\<close> function: the rejection), with the world as it left it.
\<close>

type_synonym 'a io = "world \<Rightarrow> (error + 'a) \<times> world"

definition pure :: "'a \<Rightarrow> 'a io" where
  "pure x = (\<lambda>w. (Inr x, w))"

definition throw :: "error \<Rightarrow> 'a io" where
  "throw e = (\<lambda>w. (Inl e, w))"

definition andThen :: "'a io \<Rightarrow> ('a \<Rightarrow> 'b io) \<Rightarrow> 'b io" where
  "andThen m f = (\<lambda>w. case m w of (Inl e, w') \<Rightarrow> (Inl e, w') | (Inr x, w') \<Rightarrow> f x w')"

definition try_catch :: "'a io \<Rightarrow> (error \<Rightarrow> 'a io) \<Rightarrow> 'a io" where
  "try_catch m h = (\<lambda>w. case m w of (Inl e, w') \<Rightarrow> h e w' | (Inr x, w') \<Rightarrow> (Inr x, w'))"

definition lift :: "error + 'a \<Rightarrow> 'a io" where
  "lift r = (\<lambda>w. (r, w))"

definition emit :: "event \<Rightarrow> unit io" where
  "emit ev = (\<lambda>w. (Inr (), w\<lparr>trace := trace w @ [ev]\<rparr>))"

definition console_error :: "string \<Rightarrow> error \<Rightarrow> unit io" where
  "console_error msg e = emit (ConsoleError msg e)"

definition new_Date :: "date io" where
  "new_Date = (\<lambda>w. (Inr (clock w (ticks w)), w\<lparr>ticks := Suc (ticks w)\<rparr>))"

text \<open>\<open>Date.now() + Math.random()\<close>: some positive number.\<close>

definition generated_id :: "jv io" where
  "generated_id = (\<lambda>w. (Inr (JNum (1 + int (random w (draws w)))), w\<lparr>draws := Suc (draws w)\<rparr>))"

text \<open>
  One call to an asynchronous collaborator: it is recorded, takes the next fault flag, and
  rejects with \<open>e\<close> when the flag is set.
\<close>

definition external :: "error \<Rightarrow> event \<Rightarrow> unit io" where
  "external e ev =
     (\<lambda>w. let w' = w\<lparr>calls := Suc (calls w), trace := trace w @ [ev]\<rparr>
          in if faults w (calls w) then (Inl e, w') else (Inr (), w'))"


subsection \<open>Firestore\<close>

text \<open>
  \<open>doc(db, "users", userId, "data", docId)\<close>. With a null \<open>db\<close> the call throws. Firestore's
  validation of the path is not modelled: a user id is a uid issued by Firebase Auth.
\<close>

definition doc :: "string \<Rightarrow> string \<Rightarrow> docref io" where
  "doc userId docId = (\<lambda>w. if db w then (Inr (userId, docId), w) else (Inl InvalidArgument, w))"

text \<open>\<open>getDoc(ref)\<close>: the snapshot is \<open>None\<close> when \<open>snap.exists()\<close> is false.\<close>

definition getDoc :: "docref \<Rightarrow> document option io" where
  "getDoc ref = andThen (external TransportError (RGet ref)) (\<lambda>_ w. (Inr (remote w ref), w))"

text \<open>\<open>setDoc(ref, data)\<close> without merge options: the document becomes \<open>data\<close>.\<close>

definition setDoc :: "docref \<Rightarrow> document \<Rightarrow> unit io" where
  "setDoc ref d =
     andThen (external TransportError (RSet ref d))
       (\<lambda>_ w. (Inr (), w\<lparr>remote := (remote w)(ref \<mapsto> d)\<rparr>))"

definition deleteDoc :: "docref \<Rightarrow> unit io" where
  "deleteDoc ref =
     andThen (external TransportError (RDelete ref))
       (\<lambda>_ w. (Inr (), w\<lparr>remote := (remote w)(ref := None)\<rparr>))"

fun apply_writes :: "(docref \<times> document) list \<Rightarrow> (docref \<Rightarrow> document option) \<Rightarrow> (docref \<Rightarrow> document option)" where
  "apply_writes [] r = r"
| "apply_writes ((ref, d) # ws) r = apply_writes ws (r(ref \<mapsto> d))"

text \<open>\<open>batch.commit()\<close> of a batch of \<open>batch.set\<close> calls: all of them or none.\<close>

definition batch_commit :: "(docref \<times> document) list \<Rightarrow> unit io" where
  "batch_commit ws =
     andThen (external TransportError (RBatch ws))
       (\<lambda>_ w. (Inr (), w\<lparr>remote := apply_writes ws (remote w)\<rparr>))"


subsection \<open>localStorage\<close>

text \<open>
  \<open>loadFromLocalStorage\<close> and \<open>saveToLocalStorage\<close> of syncService.js. A slot holds what
  \<open>JSON.parse\<close> gives for its text; a failing \<open>setItem\<close> (quota) is not modelled.
\<close>

definition loadFromLocalStorage :: "slot \<Rightarrow> jv \<Rightarrow> world \<Rightarrow> jv" where
  "loadFromLocalStorage key defaultValue w =
     (case store w key of None \<Rightarrow> defaultValue | Some v \<Rightarrow> v)"

definition saveToLocalStorage :: "slot \<Rightarrow> jv \<Rightarrow> bool io" where
  "saveToLocalStorage key data = (\<lambda>w. (Inr True, w\<lparr>store := (store w)(key \<mapsto> data)\<rparr>))"

text \<open>
  Modelled from the spec: the loaders and savers of \<open>utils/localStorage\<close>, which is not among
  the sources. The spec's contract for the Local Store is: get and set per named slot,
  synchronous, a default value if absent, never throws. Each loader reads the slot its name
  says, each saver writes it.
\<close>

definition load_slot :: "slot \<Rightarrow> world \<Rightarrow> jv" where
  "load_slot key w = loadFromLocalStorage key (defaults w key) w"

definition save_slot :: "slot \<Rightarrow> jv \<Rightarrow> unit io" where
  "save_slot key data = (\<lambda>w. (Inr (), w\<lparr>store := (store w)(key \<mapsto> data)\<rparr>))"

definition loadUserProfile :: "world \<Rightarrow> jv" where
  "loadUserProfile = load_slot USER_PROFILE"

definition loadDailyTarget :: "world \<Rightarrow> jv" where
  "loadDailyTarget = load_slot DAILY_TARGET"

definition loadMacroGoals :: "world \<Rightarrow> jv" where
  "loadMacroGoals = load_slot MACRO_GOALS"

definition loadMicronutrientGoals :: "world \<Rightarrow> jv" where
  "loadMicronutrientGoals = load_slot MICRONUTRIENT_GOALS"

definition loadPreferences :: "world \<Rightarrow> jv" where
  "loadPreferences = load_slot PREFERENCES"

definition loadWeeklyHistory :: "world \<Rightarrow> jv" where
  "loadWeeklyHistory = load_slot WEEKLY_HISTORY"

definition loadRecentFoods :: "world \<Rightarrow> jv" where
  "loadRecentFoods = load_slot RECENT_FOODS"

definition loadFavoriteFoods :: "world \<Rightarrow> jv" where
  "loadFavoriteFoods = load_slot FAVORITE_FOODS"

definition loadWeightLog :: "world \<Rightarrow> jv" where
  "loadWeightLog = load_slot WEIGHT_LOG"

definition loadStreakData :: "world \<Rightarrow> jv" where
  "loadStreakData = load_slot STREAK_DATA"

definition saveUserProfile :: "jv \<Rightarrow> unit io" where
  "saveUserProfile = save_slot USER_PROFILE"

definition saveDailyTarget :: "jv \<Rightarrow> unit io" where
  "saveDailyTarget = save_slot DAILY_TARGET"

definition saveMacroGoals :: "jv \<Rightarrow> unit io" where
  "saveMacroGoals = save_slot MACRO_GOALS"

definition saveMicronutrientGoals :: "jv \<Rightarrow> unit io" where
  "saveMicronutrientGoals = save_slot MICRONUTRIENT_GOALS"

definition savePreferences :: "jv \<Rightarrow> unit io" where
  "savePreferences = save_slot PREFERENCES"

definition saveFoodLog :: "jv \<Rightarrow> unit io" where
  "saveFoodLog = save_slot FOOD_LOG"

definition saveExerciseLog :: "jv \<Rightarrow> unit io" where
  "saveExerciseLog = save_slot EXERCISE_LOG"

definition saveWaterLog :: "jv \<Rightarrow> unit io" where
  "saveWaterLog = save_slot WATER_LOG"

definition saveWeeklyHistory :: "jv \<Rightarrow> unit io" where
  "saveWeeklyHistory = save_slot WEEKLY_HISTORY"

definition markOnboardingComplete :: "unit io" where
  "markOnboardingComplete = save_slot ONBOARDING (JBool True)"

text \<open>
  Modelled from the spec: \<open>saveLastSyncTime\<close>, which persists the last-synced timestamp to the
  Local Store (the test of \<open>utils/localStorage\<close> reads it back as the same ISO string).
\<close>

definition saveLastSyncTime :: "date \<Rightarrow> unit io" where
  "saveLastSyncTime t =
     andThen (emit (SaveLastSyncTime t)) (\<lambda>_. save_slot LAST_SYNC_TIME (JStr (toISOString t)))"

text \<open>\<open>window.dispatchEvent(new CustomEvent("nutrinote-sync-complete", {detail: {time}}))\<close>.\<close>

definition dispatch_sync_complete :: "date \<Rightarrow> unit io" where
  "dispatch_sync_complete t = emit (SyncComplete t)"


subsection \<open>The recipe and template collections\<close>

text \<open>
  Modelled from the spec: \<open>recipeDatabase\<close> and \<open>templateDatabase\<close>, which are not among the
  sources. The spec gives them an asynchronous list read and a per-item upsert by id.
\<close>

fun id_of :: "jv \<Rightarrow> jv" where
  "id_of (JObj kvs) = field kvs ''id''"
| "id_of _ = JUndef"

fun upsert :: "jv \<Rightarrow> jv list \<Rightarrow> jv list" where
  "upsert r [] = [r]"
| "upsert r (x # xs) = (if id_of x = id_of r then r # xs else x # upsert r xs)"

definition getAllRecipes :: "jv io" where
  "getAllRecipes = andThen (external StorageError GetAllRecipes) (\<lambda>_ w. (Inr (JArr (recipes w)), w))"

definition getAllTemplates :: "jv io" where
  "getAllTemplates =
     andThen (external StorageError GetAllTemplates) (\<lambda>_ w. (Inr (JArr (templates w)), w))"

definition saveRecipe :: "jv \<Rightarrow> unit io" where
  "saveRecipe r =
     andThen (external StorageError (SaveRecipe r))
       (\<lambda>_ w. (Inr (), w\<lparr>recipes := upsert r (recipes w)\<rparr>))"

definition saveTemplate :: "jv \<Rightarrow> unit io" where
  "saveTemplate r =
     andThen (external StorageError (SaveTemplate r))
       (\<lambda>_ w. (Inr (), w\<lparr>templates := upsert r (templates w)\<rparr>))"


section \<open>syncService.js\<close>

text \<open>The two shapes of a remote document other than the food log's.\<close>

definition spread_doc :: "jv \<Rightarrow> string \<Rightarrow> document" where
  "spread_doc v updatedAt = AList.update ''updatedAt'' (JStr updatedAt) (own_props v)"

definition items_doc :: "jv \<Rightarrow> string \<Rightarrow> document" where
  "items_doc v updatedAt = [(''items'', v), (''updatedAt'', JStr updatedAt)]"

text \<open>
  In the functions below that return at once unless \<open>db\<close> is set, the reference
  \<open>doc(db, "users", userId, "data", docId)\<close> is written as the pair it denotes.
\<close>

subsection \<open>syncRecipesToCloud, syncTemplatesToCloud\<close>

definition syncRecipesToCloud :: "string \<Rightarrow> jv \<Rightarrow> unit io" where
  "syncRecipesToCloud userId rs =
     (\<lambda>w. if \<not> db w \<or> userId = [] \<or> \<not> configured w then (Inr (), w)
          else try_catch
                 (andThen new_Date (\<lambda>t.
                  setDoc (userId, ''recipes'') (items_doc rs (toISOString t))))
                 (\<lambda>err. console_error ''syncRecipesToCloud failed:'' err) w)"

definition not_prebuilt :: "jv \<Rightarrow> error + bool" where
  "not_prebuilt t = (case get_prop t ''isPrebuilt'' of Inl e \<Rightarrow> Inl e | Inr v \<Rightarrow> Inr (\<not> truthy v))"

definition syncTemplatesToCloud :: "string \<Rightarrow> jv \<Rightarrow> unit io" where
  "syncTemplatesToCloud userId ts =
     (\<lambda>w. if \<not> db w \<or> userId = [] \<or> \<not> configured w then (Inr (), w)
          else try_catch
                 (andThen (lift (js_filter not_prebuilt (or_else ts (JArr [])))) (\<lambda>userTemplates.
                  andThen new_Date (\<lambda>t.
                  setDoc (userId, ''templates'') (items_doc (JArr userTemplates) (toISOString t)))))
                 (\<lambda>err. console_error ''syncTemplatesToCloud failed:'' err) w)"


subsection \<open>uploadLocalToCloud\<close>

definition profileDoc :: "world \<Rightarrow> string \<Rightarrow> document" where
  "profileDoc w updatedAt =
     [(''userProfile'', loadUserProfile w),
      (''dailyTarget'', loadDailyTarget w),
      (''macroGoals'', loadMacroGoals w),
      (''micronutrientGoals'', loadMicronutrientGoals w),
      (''preferences'', loadPreferences w),
      (''onboarding'', loadFromLocalStorage ONBOARDING (JBool False) w),
      (''currentDate'', loadFromLocalStorage CURRENT_DATE JNull w),
      (''updatedAt'', JStr updatedAt)]"

definition day_entry :: "jv \<Rightarrow> jv \<Rightarrow> jv \<Rightarrow> jv" where
  "day_entry es xs wt = JObj [(''entries'', es), (''exercise'', xs), (''water'', wt)]"

definition foodLogDoc :: "world \<Rightarrow> string \<Rightarrow> string \<Rightarrow> document" where
  "foodLogDoc w today updatedAt =
     AList.update ''updatedAt'' (JStr updatedAt)
       [(today, day_entry (loadFromLocalStorage FOOD_LOG (JArr []) w)
                          (loadFromLocalStorage EXERCISE_LOG (JArr []) w)
                          (loadFromLocalStorage WATER_LOG (JNum 0) w))]"

text \<open>\<open>const now = new Date(); saveLastSyncTime(now); window.dispatchEvent(...)\<close>.\<close>

definition mark_synced :: "unit io" where
  "mark_synced =
     andThen new_Date (\<lambda>now.
     andThen (saveLastSyncTime now) (\<lambda>_.
     dispatch_sync_complete now))"

definition upload_recipes_templates :: "string \<Rightarrow> unit io" where
  "upload_recipes_templates userId =
     try_catch
       (andThen getAllRecipes (\<lambda>rs.
        andThen (syncRecipesToCloud userId rs) (\<lambda>_.
        andThen getAllTemplates (\<lambda>ts.
        syncTemplatesToCloud userId ts))))
       (\<lambda>err. console_error ''Recipe/template upload failed:'' err)"

text \<open>
  The eight documents of the batch, given the nine clock readings taken while they are
  built (the second one is the reading \<open>today\<close> comes from).
\<close>

definition upload_batch ::
  "string \<Rightarrow> world \<Rightarrow> date \<Rightarrow> date \<Rightarrow> date \<Rightarrow> date \<Rightarrow> date \<Rightarrow> date \<Rightarrow> date \<Rightarrow> date \<Rightarrow> date
     \<Rightarrow> (docref \<times> document) list" where
  "upload_batch userId w t1 t2 t3 t4 t5 t6 t7 t8 t9 =
     [((userId, ''profile''), profileDoc w (toISOString t1)),
      ((userId, ''foodLog''), foodLogDoc w (today_key t2) (toISOString t3)),
      ((userId, ''history''), spread_doc (loadWeeklyHistory w) (toISOString t4)),
      ((userId, ''foodHistory''),
         spread_doc (loadFromLocalStorage FOOD_HISTORY (JObj []) w) (toISOString t5)),
      ((userId, ''favorites''), items_doc (loadFavoriteFoods w) (toISOString t6)),
      ((userId, ''recentFoods''), items_doc (loadRecentFoods w) (toISOString t7)),
      ((userId, ''weightLog''), items_doc (loadWeightLog w) (toISOString t8)),
      ((userId, ''streakData''), spread_doc (loadStreakData w) (toISOString t9))]"

text \<open>Building the batch and committing it: \<open>writeBatch\<close>, eight \<open>batch.set\<close>, \<open>batch.commit\<close>.\<close>

definition commit_local :: "string \<Rightarrow> unit io" where
  "commit_local userId =
     (\<lambda>w. (andThen new_Date (\<lambda>t1.
            andThen new_Date (\<lambda>t2.
            andThen new_Date (\<lambda>t3.
            andThen new_Date (\<lambda>t4.
            andThen new_Date (\<lambda>t5.
            andThen new_Date (\<lambda>t6.
            andThen new_Date (\<lambda>t7.
            andThen new_Date (\<lambda>t8.
            andThen new_Date (\<lambda>t9.
            batch_commit (upload_batch userId w t1 t2 t3 t4 t5 t6 t7 t8 t9))))))))))) w)"

definition uploadLocalToCloud :: "string \<Rightarrow> unit io" where
  "uploadLocalToCloud userId =
     (\<lambda>w. if \<not> db w \<or> \<not> configured w then (Inr (), w)
          else (andThen (commit_local userId) (\<lambda>_.
                andThen mark_synced (\<lambda>_.
                upload_recipes_templates userId))) w)"


subsection \<open>syncFromCloud\<close>

definition only_if :: "bool \<Rightarrow> unit io \<Rightarrow> unit io" where
  "only_if b m = (if b then m else pure ())"

definition hydrate_profile :: "document \<Rightarrow> unit io" where
  "hydrate_profile d =
     andThen (only_if (truthy (field d ''userProfile'')) (saveUserProfile (field d ''userProfile''))) (\<lambda>_.
     andThen (only_if (\<not> nullish (field d ''dailyTarget'')) (saveDailyTarget (field d ''dailyTarget''))) (\<lambda>_.
     andThen (only_if (truthy (field d ''macroGoals'')) (saveMacroGoals (field d ''macroGoals''))) (\<lambda>_.
     andThen (only_if (truthy (field d ''micronutrientGoals''))
                (saveMicronutrientGoals (field d ''micronutrientGoals''))) (\<lambda>_.
     andThen (only_if (truthy (field d ''preferences'')) (savePreferences (field d ''preferences''))) (\<lambda>_.
     only_if (\<not> nullish (field d ''onboarding''))
       (only_if (truthy (field d ''onboarding'')) markOnboardingComplete))))))"

definition hydrate_today :: "jv \<Rightarrow> unit io" where
  "hydrate_today todayData =
     andThen (lift (get_prop todayData ''entries'')) (\<lambda>es.
     andThen (only_if (truthy es) (saveFoodLog es)) (\<lambda>_.
     andThen (lift (get_prop todayData ''exercise'')) (\<lambda>xs.
     andThen (only_if (truthy xs) (saveExerciseLog xs)) (\<lambda>_.
     andThen (lift (get_prop todayData ''water'')) (\<lambda>wt.
     only_if (\<not> nullish wt) (saveWaterLog wt))))))"

definition hydrate_foodLog :: "document \<Rightarrow> unit io" where
  "hydrate_foodLog d =
     andThen new_Date (\<lambda>t.
     only_if (truthy (field d (today_key t))) (hydrate_today (field d (today_key t))))"

text \<open>\<open>const { updatedAt, ...rest } = d\<close>.\<close>

definition without_updatedAt :: "document \<Rightarrow> jv" where
  "without_updatedAt d = JObj (AList.delete ''updatedAt'' d)"

definition hydrate_items :: "slot \<Rightarrow> document \<Rightarrow> unit io" where
  "hydrate_items key d =
     andThen (saveToLocalStorage key (or_else (field d ''items'') (JArr []))) (\<lambda>_. pure ())"

definition if_exists :: "document option \<Rightarrow> (document \<Rightarrow> unit io) \<Rightarrow> unit io" where
  "if_exists snap f = (case snap of None \<Rightarrow> pure () | Some d \<Rightarrow> f d)"

text \<open>\<open>{ ...item, id: item.id || Date.now() + Math.random() }\<close>.\<close>

definition with_id :: "jv \<Rightarrow> jv io" where
  "with_id item =
     andThen (lift (get_prop item ''id'')) (\<lambda>i.
     andThen (if truthy i then pure i else generated_id) (\<lambda>i'.
     pure (JObj (AList.update ''id'' i' (own_props item)))))"

fun save_each :: "(jv \<Rightarrow> unit io) \<Rightarrow> jv list \<Rightarrow> unit io" where
  "save_each save [] = pure ()"
| "save_each save (item # rest) =
     andThen (with_id item) (\<lambda>item'.
     andThen (save item') (\<lambda>_.
     save_each save rest))"

definition merge_items :: "(jv \<Rightarrow> unit io) \<Rightarrow> document option \<Rightarrow> unit io" where
  "merge_items save snap =
     if_exists snap (\<lambda>d.
       only_if (gt_zero (get_prop_opt (field d ''items'') ''length''))
         (andThen (lift (iterate (field d ''items''))) (save_each save)))"

definition hydrate_slots ::
  "document option \<Rightarrow> document option \<Rightarrow> document option \<Rightarrow> document option \<Rightarrow>
   document option \<Rightarrow> document option \<Rightarrow> document option \<Rightarrow> document option \<Rightarrow> unit io" where
  "hydrate_slots profileSnap foodLogSnap historySnap foodHistorySnap favoritesSnap recentSnap
     weightSnap streakSnap =
     andThen (if_exists profileSnap hydrate_profile) (\<lambda>_.
     andThen (if_exists foodLogSnap hydrate_foodLog) (\<lambda>_.
     andThen (if_exists historySnap (\<lambda>d. saveWeeklyHistory (without_updatedAt d))) (\<lambda>_.
     andThen (if_exists foodHistorySnap (\<lambda>d.
                andThen (saveToLocalStorage FOOD_HISTORY (without_updatedAt d)) (\<lambda>_. pure ()))) (\<lambda>_.
     andThen (if_exists favoritesSnap (hydrate_items FAVORITE_FOODS)) (\<lambda>_.
     andThen (if_exists recentSnap (hydrate_items RECENT_FOODS)) (\<lambda>_.
     andThen (if_exists weightSnap (hydrate_items WEIGHT_LOG)) (\<lambda>_.
     if_exists streakSnap (\<lambda>d.
       andThen (saveToLocalStorage STREAK_DATA (without_updatedAt d)) (\<lambda>_. pure ())))))))))"

text \<open>The body of the \<open>try\<close> block up to, and without, the final three statements.\<close>

definition download_pass :: "string \<Rightarrow> unit io" where
  "download_pass userId =
     andThen (getDoc (userId, ''profile'')) (\<lambda>profileSnap.
     andThen (getDoc (userId, ''foodLog'')) (\<lambda>foodLogSnap.
     andThen (getDoc (userId, ''history'')) (\<lambda>historySnap.
     andThen (getDoc (userId, ''foodHistory'')) (\<lambda>foodHistorySnap.
     andThen (getDoc (userId, ''favorites'')) (\<lambda>favoritesSnap.
     andThen (getDoc (userId, ''recentFoods'')) (\<lambda>recentSnap.
     andThen (getDoc (userId, ''weightLog'')) (\<lambda>weightSnap.
     andThen (getDoc (userId, ''streakData'')) (\<lambda>streakSnap.
     andThen (hydrate_slots profileSnap foodLogSnap historySnap foodHistorySnap favoritesSnap
                recentSnap weightSnap streakSnap) (\<lambda>_.
     andThen (getDoc (userId, ''recipes'')) (\<lambda>recipesSnap.
     andThen (merge_items saveRecipe recipesSnap) (\<lambda>_.
     andThen (getDoc (userId, ''templates'')) (\<lambda>templatesSnap.
     merge_items saveTemplate templatesSnap))))))))))))"

definition syncFromCloud :: "string \<Rightarrow> unit io" where
  "syncFromCloud userId =
     (\<lambda>w. if \<not> db w \<or> \<not> configured w then (Inr (), w)
          else try_catch
                 (andThen (download_pass userId) (\<lambda>_. mark_synced))
                 (\<lambda>err. console_error ''syncFromCloud failed:'' err) w)"


subsection \<open>syncOnSignIn\<close>

text \<open>\<open>loadUserProfile() || loadFromLocalStorage(STORAGE_KEYS.FOOD_LOG, []).length > 0\<close>, as
  the condition of the \<open>if\<close>.\<close>

definition hasLocalData :: "world \<Rightarrow> error + bool" where
  "hasLocalData w =
     (if truthy (loadUserProfile w) then Inr True
      else case get_prop (loadFromLocalStorage FOOD_LOG (JArr []) w) ''length'' of
             Inl e \<Rightarrow> Inl e
           | Inr n \<Rightarrow> Inr (gt_zero n))"

text \<open>The user is \<open>None\<close> for a null \<open>user\<close>, else its \<open>uid\<close>.\<close>

definition syncOnSignIn :: "string option \<Rightarrow> unit io" where
  "syncOnSignIn user =
     (\<lambda>w. case user of
            None \<Rightarrow> (Inr (), w)
          | Some userId \<Rightarrow>
              if \<not> configured w then (Inr (), w)
              else (andThen (doc userId ''profile'') (\<lambda>ref.
                    andThen (getDoc ref) (\<lambda>profileSnap.
                    case profileSnap of
                      Some d \<Rightarrow> syncFromCloud userId
                    | None \<Rightarrow>
                        andThen (\<lambda>w'. (hasLocalData w', w')) (\<lambda>has.
                        if has then uploadLocalToCloud userId else pure ())))) w)"


subsection \<open>syncToCloud\<close>

definition push_foodLog :: "string \<Rightarrow> jv \<Rightarrow> string \<Rightarrow> unit io" where
  "push_foodLog userId payload updatedAt =
     andThen new_Date (\<lambda>t.
     andThen (getDoc (userId, ''foodLog'')) (\<lambda>snap.
     andThen (lift (get_prop payload ''entries'')) (\<lambda>es.
     andThen (lift (get_prop payload ''exercise'')) (\<lambda>xs.
     andThen (lift (get_prop payload ''water'')) (\<lambda>wt.
     setDoc (userId, ''foodLog'')
       (AList.update ''updatedAt'' (JStr updatedAt)
          (AList.update (today_key t)
             (day_entry (or_else es (JArr [])) (or_else xs (JArr [])) (coalesce wt (JNum 0)))
             (case snap of Some d \<Rightarrow> d | None \<Rightarrow> []))))))))"

definition push_switch :: "string \<Rightarrow> string \<Rightarrow> jv \<Rightarrow> string \<Rightarrow> unit io" where
  "push_switch userId dataType payload updatedAt =
     (if dataType = ''profile'' then setDoc (userId, ''profile'') (spread_doc payload updatedAt)
      else if dataType = ''foodLog'' then push_foodLog userId payload updatedAt
      else if dataType = ''history'' then setDoc (userId, ''history'') (spread_doc payload updatedAt)
      else if dataType = ''foodHistory'' then
        setDoc (userId, ''foodHistory'') (spread_doc payload updatedAt)
      else if dataType = ''favorites'' then setDoc (userId, ''favorites'') (items_doc payload updatedAt)
      else if dataType = ''recentFoods'' then
        setDoc (userId, ''recentFoods'') (items_doc payload updatedAt)
      else if dataType = ''weightLog'' then setDoc (userId, ''weightLog'') (items_doc payload updatedAt)
      else if dataType = ''streakData'' then
        setDoc (userId, ''streakData'') (spread_doc payload updatedAt)
      else pure ())"

definition syncToCloud :: "string \<Rightarrow> string \<Rightarrow> jv \<Rightarrow> unit io" where
  "syncToCloud userId dataType payload =
     (\<lambda>w. if \<not> db w \<or> userId = [] \<or> \<not> configured w then (Inr (), w)
          else try_catch
                 (andThen new_Date (\<lambda>t. push_switch userId dataType payload (toISOString t)))
                 (\<lambda>err. andThen (console_error ''syncToCloud failed:'' err) (\<lambda>_. throw err)) w)"


subsection \<open>deleteUserCloudData\<close>

definition USER_DATA_DOCS :: "string list" where
  "USER_DATA_DOCS =
     [''profile'', ''foodLog'', ''history'', ''foodHistory'', ''favorites'', ''recentFoods'',
      ''weightLog'', ''streakData'', ''recipes'', ''templates'']"

text \<open>
  \<open>Promise.allSettled\<close>: every promise is awaited whatever the others do, and the result
  lists each outcome. The deletions are started in list order; each touches its own document,
  so they are run here one after the other.
\<close>

definition settled :: "'a io \<Rightarrow> (error + 'a) io" where
  "settled m = (\<lambda>w. case m w of (r, w') \<Rightarrow> (Inr r, w'))"

fun allSettled :: "'a io list \<Rightarrow> (error + 'a) list io" where
  "allSettled [] = pure []"
| "allSettled (m # ms) =
     andThen (settled m) (\<lambda>r.
     andThen (allSettled ms) (\<lambda>rs.
     pure (r # rs)))"

text \<open>\<open>Promise.allSettled(docIds.map((docId) => deleteDoc(doc(db, "users", userId, "data", docId))))\<close>.\<close>

definition delete_all :: "string \<Rightarrow> string list \<Rightarrow> (error + unit) list io" where
  "delete_all userId docIds = allSettled (map (\<lambda>docId. deleteDoc (userId, docId)) docIds)"

definition deleteUserCloudData :: "string \<Rightarrow> unit io" where
  "deleteUserCloudData userId =
     (\<lambda>w. if \<not> db w \<or> userId = [] \<or> \<not> configured w then (Inr (), w)
          else andThen (delete_all userId USER_DATA_DOCS) (\<lambda>_. pure ()) w)"


section \<open>AuthContext.js: the auth state-change handler\<close>

record auth =
  currentUser :: "string option"
  loading :: bool

text \<open>
  \<open>setUser(firebaseUser); if (firebaseUser) await syncOnSignIn(firebaseUser);
  setLoading(false)\<close>, with no \<open>try\<close> around it.
\<close>

definition authStateChanged :: "string option \<Rightarrow> auth \<Rightarrow> world \<Rightarrow> (error + unit) \<times> auth \<times> world" where
  "authStateChanged firebaseUser a w =
     (case (case firebaseUser of
              None \<Rightarrow> (Inr (), w)
            | Some uid \<Rightarrow> syncOnSignIn firebaseUser w) of
        (Inl e, w') \<Rightarrow> (Inl e, a\<lparr>currentUser := firebaseUser\<rparr>, w')
      | (Inr u, w') \<Rightarrow> (Inr (), a\<lparr>currentUser := firebaseUser, loading := False\<rparr>, w'))"


section \<open>Observing a run\<close>

text \<open>The events a run from \<open>w\<close> to \<open>w'\<close> added, and the documents it tried to write.\<close>

definition new_events :: "world \<Rightarrow> world \<Rightarrow> event list" where
  "new_events w w' = drop (length (trace w)) (trace w')"

fun writes_of :: "event \<Rightarrow> (docref \<times> document) list" where
  "writes_of (RSet ref d) = [(ref, d)]"
| "writes_of (RBatch ws) = ws"
| "writes_of _ = []"

definition written :: "event list \<Rightarrow> (docref \<times> document) list" where
  "written es = concat (map writes_of es)"

fun is_write :: "event \<Rightarrow> bool" where
  "is_write (RSet ref d) = True"
| "is_write (RBatch ws) = True"
| "is_write (RDelete ref) = True"
| "is_write _ = False"


fun is_read :: "event \<Rightarrow> bool" where
  "is_read (RGet ref) = True"
| "is_read _ = False"

fun is_batch :: "event \<Rightarrow> bool" where
  "is_batch (RBatch ws) = True"
| "is_batch _ = False"

text \<open>What the recipes and templates step of the upload may do for user \<open>u\<close>.\<close>

fun is_recipe_step :: "string \<Rightarrow> event \<Rightarrow> bool" where
  "is_recipe_step u GetAllRecipes = True"
| "is_recipe_step u GetAllTemplates = True"
| "is_recipe_step u (RSet ref d) = (ref = (u, ''recipes'') \<or> ref = (u, ''templates''))"
| "is_recipe_step u (ConsoleError msg e) = True"
| "is_recipe_step u _ = False"

text \<open>The batch \<open>uploadLocalToCloud\<close> builds when it starts in \<open>w\<close>.\<close>

definition local_batch :: "string \<Rightarrow> world \<Rightarrow> (docref \<times> document) list" where
  "local_batch userId w =
     upload_batch userId w (clock w (ticks w)) (clock w (ticks w + 1)) (clock w (ticks w + 2))
       (clock w (ticks w + 3)) (clock w (ticks w + 4)) (clock w (ticks w + 5))
       (clock w (ticks w + 6)) (clock w (ticks w + 7)) (clock w (ticks w + 8))"

text \<open>Whether the local data is worth migrating: a profile, or a food log with entries.\<close>

definition nontrivial_local :: "world \<Rightarrow> bool" where
  "nontrivial_local w =
     (truthy (loadUserProfile w) \<or>
      gt_zero (get_prop_opt (loadFromLocalStorage FOOD_LOG (JArr []) w) ''length''))"

text \<open>The world after the profile existence check of \<open>syncOnSignIn\<close> went through.\<close>

definition checked :: "string \<Rightarrow> world \<Rightarrow> world" where
  "checked userId w = w\<lparr>calls := Suc (calls w), trace := trace w @ [RGet (userId, ''profile'')]\<rparr>"

text \<open>
  \<open>always R m\<close>: whatever world \<open>m\<close> starts in, the world it leaves is related to it by \<open>R\<close>.
  The two relations used: the trace only grew, by events satisfying \<open>P\<close>; an observation of
  the world did not change.
\<close>

definition always :: "(world \<Rightarrow> world \<Rightarrow> bool) \<Rightarrow> 'a io \<Rightarrow> bool" where
  "always R m = (\<forall>w. R w (snd (m w)))"

definition extends_with :: "(event \<Rightarrow> bool) \<Rightarrow> world \<Rightarrow> world \<Rightarrow> bool" where
  "extends_with P w w' = (\<exists>es. trace w' = trace w @ es \<and> list_all P es)"

definition same :: "(world \<Rightarrow> 'b) \<Rightarrow> world \<Rightarrow> world \<Rightarrow> bool" where
  "same f w w' = (f w' = f w)"

text \<open>
  A document is stamped by a run from \<open>w\<close> to \<open>w'\<close> when its \<open>updatedAt\<close> is the ISO string of a
  clock reading taken during the run. \<open>stamps_writes\<close>: the run only added events and every
  document it tried to write is stamped. \<open>writes_land\<close>: if none of the run's calls failed, the
  remote store afterwards is the store before with every written document put, whole, in
  place of what its reference held. \<open>stamps_and_replaces\<close> says both of one operation.
\<close>

definition stamped :: "world \<Rightarrow> world \<Rightarrow> document \<Rightarrow> bool" where
  "stamped w w' d =
     (\<exists>k\<in>{ticks w..<ticks w'}. map_of d ''updatedAt'' = Some (JStr (toISOString (clock w k))))"

definition stamps_writes :: "world \<Rightarrow> world \<Rightarrow> bool" where
  "stamps_writes w w' =
     (clock w' = clock w \<and> ticks w \<le> ticks w' \<and>
      (\<exists>es. trace w' = trace w @ es \<and> (\<forall>(ref, d)\<in>set (written es). stamped w w' d)))"

definition writes_land :: "world \<Rightarrow> world \<Rightarrow> bool" where
  "writes_land w w' =
     (faults w' = faults w \<and> calls w \<le> calls w' \<and>
      (\<exists>es. trace w' = trace w @ es \<and>
         ((\<forall>k\<in>{calls w..<calls w'}. \<not> faults w k) \<longrightarrow>
            remote w' = apply_writes (written es) (remote w))))"

definition stamps_and_replaces :: "unit io \<Rightarrow> world \<Rightarrow> bool" where
  "stamps_and_replaces m w =
     (let w' = snd (m w); es = new_events w w'
      in (\<forall>(ref, d)\<in>set (written es). stamped w w' d) \<and>
         ((\<forall>k\<in>{calls w..<calls w'}. \<not> faults w k) \<longrightarrow>
            remote w' = apply_writes (written es) (remote w)))"

text \<open>
  What a slot reads as: its value, or its default when absent. The defaults of the six slots
  syncService.js loads itself are in the source; the others are those of the loaders of
  \<open>utils/localStorage\<close>.
\<close>

fun slot_default :: "world \<Rightarrow> slot \<Rightarrow> jv" where
  "slot_default w FOOD_LOG = JArr []"
| "slot_default w EXERCISE_LOG = JArr []"
| "slot_default w WATER_LOG = JNum 0"
| "slot_default w FOOD_HISTORY = JObj []"
| "slot_default w CURRENT_DATE = JNull"
| "slot_default w ONBOARDING = JBool False"
| "slot_default w s = defaults w s"

definition read_slot :: "slot \<Rightarrow> world \<Rightarrow> jv" where
  "read_slot s w = loadFromLocalStorage s (slot_default w s) w"

text \<open>An object with no field named \<open>updatedAt\<close>.\<close>

fun plain_object :: "jv \<Rightarrow> bool" where
  "plain_object (JObj kvs) = (''updatedAt'' \<notin> fst ` set kvs)"
| "plain_object _ = False"

text \<open>
  The local values have the shapes the remote documents are built for: history, foodHistory
  and streakData are objects without an \<open>updatedAt\<close> field; favorites, recentFoods and
  weightLog are truthy (lists); the onboarding flag, if truthy, is \<open>true\<close>.
\<close>

definition local_shapes_ok :: "world \<Rightarrow> bool" where
  "local_shapes_ok w =
     ((\<forall>s\<in>{WEEKLY_HISTORY, FOOD_HISTORY, STREAK_DATA}. plain_object (read_slot s w)) \<and>
      (\<forall>s\<in>{FAVORITE_FOODS, RECENT_FOODS, WEIGHT_LOG}. truthy (read_slot s w)) \<and>
      (truthy (read_slot ONBOARDING w) \<longrightarrow> read_slot ONBOARDING w = JBool True))"

text \<open>Bulk upload, then bulk download, for the same user.\<close>

definition upload_then_download :: "string \<Rightarrow> world \<Rightarrow> world" where
  "upload_then_download userId w = snd (syncFromCloud userId (snd (uploadLocalToCloud userId w)))"

text \<open>
  \<open>restored w a\<close>: in \<open>a\<close> every slot but the last-synced one reads as in \<open>w\<close>.
  \<open>mirrored userId w a\<close>: moreover the remote store of \<open>a\<close> holds the batch built from \<open>w\<close>.
\<close>

definition restored :: "world \<Rightarrow> world \<Rightarrow> bool" where
  "restored w a =
     (defaults a = defaults w \<and> clock a = clock w \<and>
      (\<forall>s. s \<noteq> LAST_SYNC_TIME \<longrightarrow> read_slot s a = read_slot s w))"

definition mirrored :: "string \<Rightarrow> world \<Rightarrow> world \<Rightarrow> bool" where
  "mirrored userId w a =
     (restored w a \<and> (\<forall>(ref, d)\<in>set (local_batch userId w). remote a ref = Some d))"

definition stays_mirrored :: "string \<Rightarrow> world \<Rightarrow> world \<Rightarrow> world \<Rightarrow> bool" where
  "stays_mirrored userId w a b = (mirrored userId w a \<longrightarrow> mirrored userId w b)"

text \<open>No id of the local recipe and template collections is lost.\<close>

definition ids_kept :: "world \<Rightarrow> world \<Rightarrow> bool" where
  "ids_kept a b =
     (id_of ` set (recipes a) \<subseteq> id_of ` set (recipes b) \<and>
      id_of ` set (templates a) \<subseteq> id_of ` set (templates b))"

text \<open>
  The items a run handed to \<open>saveRecipe\<close> and to \<open>saveTemplate\<close>, in the order of the calls.
\<close>

fun saved_recipe :: "event \<Rightarrow> jv list" where
  "saved_recipe (SaveRecipe r) = [r]"
| "saved_recipe _ = []"

fun saved_template :: "event \<Rightarrow> jv list" where
  "saved_template (SaveTemplate r) = [r]"
| "saved_template _ = []"

definition saved_recipes :: "event list \<Rightarrow> jv list" where
  "saved_recipes es = concat (map saved_recipe es)"

definition saved_templates :: "event list \<Rightarrow> jv list" where
  "saved_templates es = concat (map saved_template es)"

text \<open>
  An item with a truthy \<open>id\<close> (so an object), which the download saves as it is; and the
  templates the upload sends, those whose \<open>isPrebuilt\<close> is falsy.
\<close>

definition has_id :: "jv \<Rightarrow> bool" where
  "has_id item = truthy (id_of item)"

definition user_templates :: "jv list \<Rightarrow> jv list" where
  "user_templates ts = filter (\<lambda>t. \<not> truthy (get_prop_opt t ''isPrebuilt'')) ts"

text \<open>
  \<open>upserted a b\<close>: the run from \<open>a\<close> to \<open>b\<close> only added events, and the recipe and template
  collections of \<open>b\<close> are those of \<open>a\<close> with items the run handed to \<open>saveRecipe\<close> and
  \<open>saveTemplate\<close> upserted one after the other: nothing is replaced wholesale.
\<close>

definition upserted :: "world \<Rightarrow> world \<Rightarrow> bool" where
  "upserted a b =
     (\<exists>es rs ts. trace b = trace a @ es \<and>
        set rs \<subseteq> set (saved_recipes es) \<and> set ts \<subseteq> set (saved_templates es) \<and>
        recipes b = fold upsert rs (recipes a) \<and> templates b = fold upsert ts (templates a))"

text \<open>\<open>later a b\<close>: the same clock, read at least as often.\<close>

definition later :: "world \<Rightarrow> world \<Rightarrow> bool" where
  "later a b = (clock b = clock a \<and> ticks a \<le> ticks b)"

text \<open>\<open>succeeds m\<close>: whatever world \<open>m\<close> starts in, it returns a value.\<close>

definition succeeds :: "'a io \<Rightarrow> bool" where
  "succeeds m = (\<forall>w. \<exists>x. fst (m w) = Inr x)"

text \<open>What the merge of the downloaded recipes and templates depends on.\<close>

definition sync_view ::
  "world \<Rightarrow> bool \<times> bool \<times> (docref \<Rightarrow> document option) \<times> jv list \<times> jv list \<times> (nat \<Rightarrow> bool) \<times> event list" where
  "sync_view a = (db a, configured a, remote a, recipes a, templates a, faults a, trace a)"

text \<open>What the hydration of the slots depends on.\<close>

definition local_view :: "world \<Rightarrow> (slot \<Rightarrow> jv option) \<times> (slot \<Rightarrow> jv) \<times> (nat \<Rightarrow> date) \<times> (docref \<Rightarrow> document option)" where
  "local_view a = (store a, defaults a, clock a, remote a)"

text \<open>
  The entry a foodLog push stores under today's key, and the document it writes: the
  document read, with today's key and \<open>updatedAt\<close> set.
\<close>

definition pushed_entry :: "jv \<Rightarrow> jv" where
  "pushed_entry payload =
     day_entry (or_else (get_prop_opt payload ''entries'') (JArr []))
               (or_else (get_prop_opt payload ''exercise'') (JArr []))
               (coalesce (get_prop_opt payload ''water'') (JNum 0))"

definition pushed_foodLog :: "world \<Rightarrow> string \<Rightarrow> jv \<Rightarrow> document" where
  "pushed_foodLog w userId payload =
     AList.update ''updatedAt'' (JStr (toISOString (clock w (ticks w))))
       (AList.update (today_key (clock w (Suc (ticks w)))) (pushed_entry payload)
          (case remote w (userId, ''foodLog'') of Some d \<Rightarrow> d | None \<Rightarrow> []))"


section \<open>Concrete worlds\<close>

text \<open>Noon UTC on 23 February 2025, and a signed-in browser with nothing stored anywhere.\<close>

definition t0 :: date where
  "t0 = \<lparr>utcFullYear = 2025, utcMonth = 2, utcDate = 23, utcHours = 12, utcMinutes = 0,
          utcSeconds = 0, utcMilliseconds = 0\<rparr>"

definition w0 :: world where
  "w0 = \<lparr>db = True, configured = True, remote = Map.empty, store = Map.empty,
          defaults = (\<lambda>_. JNull), recipes = [], templates = [],
          faults = (\<lambda>_. False), calls = 0, clock = (\<lambda>_. t0), ticks = 0,
          random = (\<lambda>_. 0), draws = 0, trace = []\<rparr>"

text \<open>The next day.\<close>

definition t1 :: date where
  "t1 = t0\<lparr>utcDate := 24\<rparr>"

text \<open>A browser whose user already has a remote profile; one with a local food log only.\<close>

definition w_remote :: world where
  "w_remote =
     w0\<lparr>remote := [(''u1'', ''profile'') \<mapsto> [(''updatedAt'', JStr ''2025-02-22T08:00:00.000Z'')]]\<rparr>"

definition w_local :: world where
  "w_local =
     w0\<lparr>store := [FOOD_LOG \<mapsto> JArr [JObj [(''food'', JStr ''apple''), (''calories'', JNum 95)]]]\<rparr>"

text \<open>
  A browser in use: a profile, today's food log, onboarding done, one recipe, one prebuilt
  template. And the same with values of other shapes: a food history that has a field named
  \<open>updatedAt\<close>, \<open>null\<close> for the favorites, \<open>1\<close> for the onboarding flag.
\<close>

definition home_defaults :: "slot \<Rightarrow> jv" where
  "home_defaults s =
     (if s \<in> {WEEKLY_HISTORY, STREAK_DATA, PREFERENCES} then JObj []
      else if s \<in> {FAVORITE_FOODS, RECENT_FOODS, WEIGHT_LOG} then JArr []
      else JNull)"

definition w_home :: world where
  "w_home =
     w0\<lparr>defaults := home_defaults,
        store := [USER_PROFILE \<mapsto> JObj [(''age'', JNum 30)],
                  FOOD_LOG \<mapsto> JArr [JObj [(''food'', JStr ''apple''), (''calories'', JNum 95)]],
                  ONBOARDING \<mapsto> JBool True],
        recipes := [JObj [(''id'', JNum 1), (''name'', JStr ''soup'')]],
        templates := [JObj [(''id'', JNum 7), (''isPrebuilt'', JBool True)]]\<rparr>"

definition w_odd :: world where
  "w_odd =
     w_home\<lparr>store := (store w_home)
        (FOOD_HISTORY \<mapsto> JObj [(''apple'', JNum 3), (''updatedAt'', JStr ''yesterday'')],
         FAVORITE_FOODS \<mapsto> JNull,
         ONBOARDING \<mapsto> JNum 1)\<rparr>"

text \<open>The browser in use, with a template of the user's own next to the prebuilt one.\<close>

definition w_kitchen :: world where
  "w_kitchen =
     w_home\<lparr>templates := [JObj [(''id'', JNum 7), (''isPrebuilt'', JBool True)],
                           JObj [(''id'', JNum 8), (''name'', JStr ''lunch'')]]\<rparr>"

text \<open>A day's log with one apple, as a foodLog payload.\<close>

definition apple_day :: jv where
  "apple_day =
     JObj [(''entries'', JArr [JObj [(''food'', JStr ''apple''), (''calories'', JNum 95)]]),
           (''exercise'', JArr []), (''water'', JNum 500)]"


section \<open>Basic facts\<close>

lemmas io_defs = andThen_def try_catch_def lift_def pure_def throw_def emit_def console_error_def
  new_Date_def external_def setDoc_def getDoc_def

lemma iso_t0: "toISOString t0 = ''2025-02-23T12:00:00.000Z''"
  by (simp add: toISOString_def iso_day_def year_string_def pad2_def pad3_def pad4_def digit_def
      t0_def)

lemma get_prop_not_nullish: "\<not> nullish v \<Longrightarrow> get_prop v k = Inr (get_prop_opt v k)"
  by (cases v) (simp_all add: get_prop_opt_def)

lemma or_else_nullish: "nullish v \<Longrightarrow> or_else v d = d"
  by (cases v) (simp_all add: or_else_def)

lemma setDoc_apply:
  "setDoc ref d w =
     (if faults w (calls w)
      then (Inl TransportError, w\<lparr>calls := Suc (calls w), trace := trace w @ [RSet ref d]\<rparr>)
      else (Inr (), w\<lparr>calls := Suc (calls w), trace := trace w @ [RSet ref d],
                       remote := (remote w)(ref \<mapsto> d)\<rparr>))"
  by (simp add: io_defs Let_def)

lemma getDoc_apply:
  "getDoc ref w =
     (if faults w (calls w)
      then (Inl TransportError, w\<lparr>calls := Suc (calls w), trace := trace w @ [RGet ref]\<rparr>)
      else (Inr (remote w ref), w\<lparr>calls := Suc (calls w), trace := trace w @ [RGet ref]\<rparr>))"
  by (simp add: io_defs Let_def)

lemma digit_in: "digit n \<in> set ''0123456789''"
  unfolding digit_def by (rule nth_mem) simp

lemma digit_not_T: "digit n \<noteq> CHR ''T''"
  using digit_in [of n] by auto

lemma iso_day_no_T: "c \<in> set (iso_day t) \<Longrightarrow> c \<noteq> CHR ''T''"
  by (auto simp: iso_day_def year_string_def pad2_def pad4_def digit_not_T
      digit_not_T [THEN not_sym] split: if_splits)

lemma today_key_iso_day: "today_key t = iso_day t"
proof -
  have "takeWhile (\<lambda>c. c \<noteq> CHR ''T'') (iso_day t @ CHR ''T'' # rest) = iso_day t" for rest
    using iso_day_no_T [of _ t] by (simp add: takeWhile_append2)
  then show ?thesis
    by (simp add: today_key_def toISOString_def)
qed

lemma today_key_not_updatedAt: "today_key t \<noteq> ''updatedAt''"
proof
  assume "today_key t = ''updatedAt''"
  then have "length (iso_day t) = 9"
    by (simp add: today_key_iso_day)
  then show False
    by (simp add: iso_day_def year_string_def pad2_def pad4_def split: if_splits)
qed

lemma today_t0: "today_key t0 = ''2025-02-23''"
  by (simp add: today_key_iso_day iso_day_def year_string_def pad2_def pad4_def digit_def t0_def)

lemma today_t1: "today_key t1 = ''2025-02-24''"
  by (simp add: today_key_iso_day iso_day_def year_string_def pad2_def pad4_def digit_def t0_def
      t1_def)


section \<open>Composing facts about runs\<close>

lemma alwaysD: "always R m \<Longrightarrow> R w (snd (m w))"
  by (simp add: always_def)

lemma always_pure: "reflp R \<Longrightarrow> always R (pure x)"
  by (simp add: always_def pure_def reflpD)

lemma always_throw: "reflp R \<Longrightarrow> always R (throw e)"
  by (simp add: always_def throw_def reflpD)

lemma always_lift: "reflp R \<Longrightarrow> always R (lift r)"
  by (simp add: always_def lift_def reflpD)

lemma always_andThen:
  assumes "transp R" and "always R m" and "\<And>x. always R (f x)"
  shows "always R (andThen m f)"
  unfolding always_def
proof
  fix w
  show "R w (snd (andThen m f w))"
  proof (cases "m w")
    case (Pair r w1)
    have 1: "R w w1"
      using alwaysD [OF assms(2), of w] Pair by simp
    show ?thesis
    proof (cases r)
      case (Inl e)
      with Pair 1 show ?thesis by (simp add: andThen_def)
    next
      case (Inr x)
      have "R w1 (snd (f x w1))"
        using assms(3) by (rule alwaysD)
      with 1 have "R w (snd (f x w1))"
        using assms(1) by (blast dest: transpD)
      with Pair Inr show ?thesis by (simp add: andThen_def)
    qed
  qed
qed

lemma always_try_catch:
  assumes "transp R" and "always R m" and "\<And>e. always R (h e)"
  shows "always R (try_catch m h)"
  unfolding always_def
proof
  fix w
  show "R w (snd (try_catch m h w))"
  proof (cases "m w")
    case (Pair r w1)
    have 1: "R w w1"
      using alwaysD [OF assms(2), of w] Pair by simp
    show ?thesis
    proof (cases r)
      case (Inr x)
      with Pair 1 show ?thesis by (simp add: try_catch_def)
    next
      case (Inl e)
      have "R w1 (snd (h e w1))"
        using assms(3) by (rule alwaysD)
      with 1 have "R w (snd (h e w1))"
        using assms(1) by (blast dest: transpD)
      with Pair Inl show ?thesis by (simp add: try_catch_def)
    qed
  qed
qed

lemma always_if: "always R a \<Longrightarrow> always R b \<Longrightarrow> always R (if c then a else b)"
  by simp

lemma always_only_if: "reflp R \<Longrightarrow> always R m \<Longrightarrow> always R (only_if b m)"
  by (simp add: only_if_def always_pure)

lemma always_if_exists: "reflp R \<Longrightarrow> (\<And>d. always R (f d)) \<Longrightarrow> always R (if_exists snap f)"
  by (cases snap) (simp_all add: if_exists_def always_pure)

lemma always_guard:
  "reflp R \<Longrightarrow> always R m \<Longrightarrow> always R (\<lambda>w. if c w then (Inr x, w) else m w)"
  by (simp add: always_def reflpD)

subsection \<open>The two relations\<close>

lemma reflp_extends_with: "reflp (extends_with P)"
  by (rule reflpI) (simp add: extends_with_def)

lemma transp_extends_with: "transp (extends_with P)"
  by (rule transpI) (auto simp: extends_with_def)

lemma reflp_same: "reflp (same f)"
  by (rule reflpI) (simp add: same_def)

lemma transp_same: "transp (same f)"
  by (rule transpI) (simp add: same_def)

lemmas rel_props = reflp_extends_with transp_extends_with reflp_same transp_same

lemma extends_with_leaf:
  "trace (snd (m w)) = trace w \<Longrightarrow> extends_with P w (snd (m w))"
  by (simp add: extends_with_def)

lemma emits_new_Date: "always (extends_with P) new_Date"
  by (simp add: always_def extends_with_def new_Date_def)

lemma emits_generated_id: "always (extends_with P) generated_id"
  by (simp add: always_def extends_with_def generated_id_def)

lemma emits_save_slot: "always (extends_with P) (save_slot k v)"
  by (simp add: always_def extends_with_def save_slot_def)

lemma emits_saveToLocalStorage: "always (extends_with P) (saveToLocalStorage k v)"
  by (simp add: always_def extends_with_def saveToLocalStorage_def)

lemma emits_emit: "P ev \<Longrightarrow> always (extends_with P) (emit ev)"
  by (simp add: always_def extends_with_def emit_def)

lemma emits_external: "P ev \<Longrightarrow> always (extends_with P) (external e ev)"
  by (simp add: always_def extends_with_def external_def Let_def)

lemma emits_getDoc: "P (RGet ref) \<Longrightarrow> always (extends_with P) (getDoc ref)"
  by (simp add: always_def extends_with_def getDoc_apply)

lemma emits_setDoc: "P (RSet ref d) \<Longrightarrow> always (extends_with P) (setDoc ref d)"
  by (simp add: always_def extends_with_def setDoc_apply)

lemmas always_intros = always_andThen always_try_catch always_pure always_throw always_lift
  always_if always_only_if always_if_exists

lemma emits_saveRecipe: "P (SaveRecipe r) \<Longrightarrow> always (extends_with P) (saveRecipe r)"
  by (simp add: always_def extends_with_def saveRecipe_def external_def andThen_def Let_def)

lemma emits_saveTemplate: "P (SaveTemplate r) \<Longrightarrow> always (extends_with P) (saveTemplate r)"
  by (simp add: always_def extends_with_def saveTemplate_def external_def andThen_def Let_def)

lemmas emits_leaves = emits_new_Date emits_generated_id emits_save_slot emits_saveToLocalStorage
  emits_emit emits_external emits_getDoc emits_setDoc emits_saveRecipe emits_saveTemplate

lemmas saver_defs = saveUserProfile_def saveDailyTarget_def saveMacroGoals_def
  saveMicronutrientGoals_def savePreferences_def saveFoodLog_def saveExerciseLog_def
  saveWaterLog_def saveWeeklyHistory_def markOnboardingComplete_def

lemmas hydrate_defs = hydrate_slots_def hydrate_profile_def hydrate_foodLog_def hydrate_today_def
  hydrate_items_def merge_items_def with_id_def


section \<open>Templates: prebuilt ones stay local\<close>

lemma filterM_not_prebuilt:
  "\<forall>x\<in>set xs. \<not> nullish x \<Longrightarrow>
   filterM not_prebuilt xs = Inr (filter (\<lambda>t. \<not> truthy (get_prop_opt t ''isPrebuilt'')) xs)"
  by (induction xs) (simp_all add: not_prebuilt_def get_prop_not_nullish)

text \<open>
  Claim C9. Given a list of templates (or \<open>null\<close>/\<open>undefined\<close>, which counts as the empty list),
  \<open>syncTemplatesToCloud\<close> writes the \<open>templates\<close> document with \<open>items\<close> holding exactly the
  templates whose \<open>isPrebuilt\<close> is falsy, in their order; prebuilt templates are never sent.
  The function resolves whether or not the write fails.
\<close>

theorem syncTemplatesToCloud_uploads_only_user_templates:
  assumes "db w" and "configured w" and "userId \<noteq> []"
    and "ts = JArr xs \<and> (\<forall>x\<in>set xs. \<not> nullish x) \<or> nullish ts \<and> xs = []"
  shows "let w' = snd (syncTemplatesToCloud userId ts w);
             d = items_doc (JArr (filter (\<lambda>t. \<not> truthy (get_prop_opt t ''isPrebuilt'')) xs))
                   (toISOString (clock w (ticks w)))
         in fst (syncTemplatesToCloud userId ts w) = Inr () \<and>
            trace w' = trace w @ RSet (userId, ''templates'') d #
              (if faults w (calls w)
               then [ConsoleError ''syncTemplatesToCloud failed:'' TransportError] else []) \<and>
            (\<not> faults w (calls w) \<longrightarrow> remote w' (userId, ''templates'') = Some d)"
proof -
  have "js_filter not_prebuilt (or_else ts (JArr [])) =
          Inr (filter (\<lambda>t. \<not> truthy (get_prop_opt t ''isPrebuilt'')) xs)"
  proof (rule disjE [OF assms(4)])
    assume "ts = JArr xs \<and> (\<forall>x\<in>set xs. \<not> nullish x)"
    then show ?thesis by (simp add: or_else_def filterM_not_prebuilt)
  next
    assume "nullish ts \<and> xs = []"
    then show ?thesis by (simp add: or_else_nullish)
  qed
  then show ?thesis
    using assms(1-3) by (simp add: syncTemplatesToCloud_def io_defs Let_def)
qed

theorem syncTemplatesToCloud_uploads_only_user_templates_witness:
  "remote (snd (syncTemplatesToCloud ''u1''
       (JArr [JObj [(''id'', JNum 1), (''isPrebuilt'', JBool True)], JObj [(''id'', JNum 2)]]) w0))
     (''u1'', ''templates'')
   = Some [(''items'', JArr [JObj [(''id'', JNum 2)]]),
           (''updatedAt'', JStr ''2025-02-23T12:00:00.000Z'')]"
  using syncTemplatesToCloud_uploads_only_user_templates
    [of w0 "''u1''"
        "JArr [JObj [(''id'', JNum 1), (''isPrebuilt'', JBool True)], JObj [(''id'', JNum 2)]]"
        "[JObj [(''id'', JNum 1), (''isPrebuilt'', JBool True)], JObj [(''id'', JNum 2)]]"]
  by (simp add: w0_def Let_def items_doc_def get_prop_opt_def field_def iso_t0)


section \<open>Account erasure\<close>

lemma deleteDoc_apply:
  "deleteDoc ref w =
     (if faults w (calls w)
      then (Inl TransportError, w\<lparr>calls := Suc (calls w), trace := trace w @ [RDelete ref]\<rparr>)
      else (Inr (), w\<lparr>calls := Suc (calls w), trace := trace w @ [RDelete ref],
                       remote := (remote w)(ref := None)\<rparr>))"
  by (simp add: deleteDoc_def io_defs Let_def)

lemma delete_all_Nil: "delete_all u [] w = (Inr [], w)"
  by (simp add: delete_all_def pure_def)

lemma delete_all_Cons:
  "delete_all u (d # ds) w =
     (case delete_all u ds (snd (deleteDoc (u, d) w)) of
        (Inl e, w') \<Rightarrow> (Inl e, w')
      | (Inr rs, w') \<Rightarrow> (Inr (fst (deleteDoc (u, d) w) # rs), w'))"
  by (simp add: delete_all_def settled_def andThen_def pure_def split: prod.splits sum.splits)

lemma delete_all_snd_Cons:
  "snd (delete_all u (d # ds) w) = snd (delete_all u ds (snd (deleteDoc (u, d) w)))"
  by (auto simp: delete_all_Cons split: prod.splits sum.splits)

lemma delete_all_resolves: "\<exists>rs. fst (delete_all u ds w) = Inr rs"
proof (induction ds arbitrary: w)
  case Nil
  show ?case by (simp add: delete_all_Nil)
next
  case (Cons d ds)
  from Cons.IH [of "snd (deleteDoc (u, d) w)"] show ?case
    by (auto simp: delete_all_Cons split: prod.splits sum.splits)
qed

lemma delete_all_trace:
  "trace (snd (delete_all u ds w)) = trace w @ map (\<lambda>d. RDelete (u, d)) ds"
proof (induction ds arbitrary: w)
  case Nil
  show ?case by (simp add: delete_all_Nil)
next
  case (Cons d ds)
  from Cons.IH [of "snd (deleteDoc (u, d) w)"] show ?case
    by (simp add: delete_all_snd_Cons deleteDoc_apply)
qed

lemma delete_all_keeps_absent:
  "remote w ref = None \<Longrightarrow> remote (snd (delete_all u ds w)) ref = None"
proof (induction ds arbitrary: w)
  case Nil
  then show ?case by (simp add: delete_all_Nil)
next
  case (Cons d ds)
  have "remote (snd (deleteDoc (u, d) w)) ref = None"
    using Cons.prems by (simp add: deleteDoc_apply)
  from Cons.IH [OF this] show ?case
    by (simp add: delete_all_snd_Cons)
qed

lemma delete_all_removes:
  "i < length ds \<Longrightarrow> \<not> faults w (calls w + i) \<Longrightarrow>
   remote (snd (delete_all u ds w)) (u, ds ! i) = None"
proof (induction ds arbitrary: w i)
  case Nil
  then show ?case by simp
next
  case (Cons d ds)
  let ?w1 = "snd (deleteDoc (u, d) w)"
  show ?case
  proof (cases i)
    case 0
    then have "remote ?w1 (u, d) = None"
      using Cons.prems by (simp add: deleteDoc_apply)
    then show ?thesis
      using 0 by (simp add: delete_all_snd_Cons delete_all_keeps_absent)
  next
    case (Suc j)
    have "calls ?w1 = Suc (calls w)" and "faults ?w1 = faults w"
      by (simp_all add: deleteDoc_apply)
    then have "\<not> faults ?w1 (calls ?w1 + j)"
      using Cons.prems Suc by simp
    moreover have "j < length ds"
      using Cons.prems Suc by simp
    ultimately show ?thesis
      using Cons.IH [of j ?w1] Suc by (simp add: delete_all_snd_Cons)
  qed
qed

text \<open>
  Claim C6. With the backend configured and a user id given, \<open>deleteUserCloudData\<close> attempts
  the deletion of all ten documents, in the order of \<open>USER_DATA_DOCS\<close>, whichever of the
  attempts fail; it never rejects; and every document whose deletion did not fail is gone.
\<close>

theorem deleteUserCloudData_attempts_all_ten:
  assumes "db w" and "configured w" and "userId \<noteq> []"
  shows "fst (deleteUserCloudData userId w) = Inr () \<and>
         trace (snd (deleteUserCloudData userId w)) =
           trace w @ map (\<lambda>docId. RDelete (userId, docId))
             [''profile'', ''foodLog'', ''history'', ''foodHistory'', ''favorites'',
              ''recentFoods'', ''weightLog'', ''streakData'', ''recipes'', ''templates''] \<and>
         (\<forall>i<10. \<not> faults w (calls w + i) \<longrightarrow>
            remote (snd (deleteUserCloudData userId w)) (userId, USER_DATA_DOCS ! i) = None)"
proof -
  have run: "deleteUserCloudData userId w = (Inr (), snd (delete_all userId USER_DATA_DOCS w))"
    using assms delete_all_resolves [of userId USER_DATA_DOCS w]
    by (auto simp: deleteUserCloudData_def andThen_def pure_def split: prod.splits sum.splits)
  have len: "length USER_DATA_DOCS = 10"
    by (simp add: USER_DATA_DOCS_def)
  show ?thesis
    using delete_all_removes [of _ USER_DATA_DOCS w userId]
    by (simp add: run delete_all_trace len) (simp add: USER_DATA_DOCS_def)
qed

theorem deleteUserCloudData_attempts_all_ten_witness:
  "fst (deleteUserCloudData ''u1'' (w0\<lparr>remote := (\<lambda>ref. Some []), faults := (\<lambda>n. n < 9)\<rparr>)) = Inr () \<and>
   trace (snd (deleteUserCloudData ''u1'' (w0\<lparr>remote := (\<lambda>ref. Some []), faults := (\<lambda>n. n < 9)\<rparr>))) =
     [RDelete (''u1'', ''profile''), RDelete (''u1'', ''foodLog''), RDelete (''u1'', ''history''),
      RDelete (''u1'', ''foodHistory''), RDelete (''u1'', ''favorites''),
      RDelete (''u1'', ''recentFoods''), RDelete (''u1'', ''weightLog''),
      RDelete (''u1'', ''streakData''), RDelete (''u1'', ''recipes''),
      RDelete (''u1'', ''templates'')] \<and>
   remote (snd (deleteUserCloudData ''u1'' (w0\<lparr>remote := (\<lambda>ref. Some []), faults := (\<lambda>n. n < 9)\<rparr>)))
     (''u1'', ''templates'') = None"
proof -
  let ?w = "w0\<lparr>remote := (\<lambda>ref. Some []), faults := (\<lambda>n. n < 9)\<rparr>"
  have guard: "db ?w" "configured ?w" "''u1'' \<noteq> []"
    by (simp_all add: w0_def)
  note all_ten = deleteUserCloudData_attempts_all_ten [OF guard]
  from all_ten have
    "\<forall>i<10. \<not> faults ?w (calls ?w + i) \<longrightarrow>
       remote (snd (deleteUserCloudData ''u1'' ?w)) (''u1'', USER_DATA_DOCS ! i) = None"
    by blast
  then have
    "\<not> faults ?w (calls ?w + 9) \<longrightarrow>
       remote (snd (deleteUserCloudData ''u1'' ?w)) (''u1'', USER_DATA_DOCS ! 9) = None"
    by simp
  then have "remote (snd (deleteUserCloudData ''u1'' ?w)) (''u1'', ''templates'') = None"
    by (simp add: w0_def USER_DATA_DOCS_def)
  with all_ten show ?thesis
    by (simp add: w0_def)
qed


section \<open>Single-record push\<close>

lemma syncToCloud_apply:
  "db w \<Longrightarrow> configured w \<Longrightarrow> userId \<noteq> [] \<Longrightarrow>
   syncToCloud userId dataType payload w =
     (case push_switch userId dataType payload (toISOString (clock w (ticks w)))
             (w\<lparr>ticks := Suc (ticks w)\<rparr>) of
        (Inl e, w') \<Rightarrow> (Inl e, w'\<lparr>trace := trace w' @ [ConsoleError ''syncToCloud failed:'' e]\<rparr>)
      | (Inr x, w') \<Rightarrow> (Inr x, w'))"
  by (simp add: syncToCloud_def io_defs split: prod.splits sum.splits)

lemma push_foodLog_ok:
  assumes "db w" and "configured w" and "userId \<noteq> []" and "\<not> nullish payload"
    and "\<not> faults w (calls w)" and "\<not> faults w (Suc (calls w))"
  shows "syncToCloud userId ''foodLog'' payload w =
     (Inr (), w\<lparr>ticks := Suc (Suc (ticks w)), calls := Suc (Suc (calls w)),
                 trace := trace w @ [RGet (userId, ''foodLog''),
                                     RSet (userId, ''foodLog'') (pushed_foodLog w userId payload)],
                 remote := (remote w)((userId, ''foodLog'') \<mapsto> pushed_foodLog w userId payload)\<rparr>)"
  using assms
  by (simp add: syncToCloud_apply push_switch_def push_foodLog_def andThen_def new_Date_def lift_def
      getDoc_apply setDoc_apply get_prop_not_nullish pushed_foodLog_def pushed_entry_def)

lemma pushed_foodLog_today:
  "map_of (pushed_foodLog w userId payload) (today_key (clock w (Suc (ticks w)))) =
     Some (pushed_entry payload)"
  by (simp add: pushed_foodLog_def update_conv' today_key_not_updatedAt)

lemma pushed_foodLog_frame:
  "k \<noteq> today_key (clock w (Suc (ticks w))) \<Longrightarrow> k \<noteq> ''updatedAt'' \<Longrightarrow>
   map_of (pushed_foodLog w userId payload) k =
     map_of (case remote w (userId, ''foodLog'') of Some d \<Rightarrow> d | None \<Rightarrow> []) k"
  by (simp add: pushed_foodLog_def update_conv')

text \<open>
  Claim C2. A foodLog push reads the remote foodLog document, sets today's key to the
  payload's entries, exercise and water, sets \<open>updatedAt\<close>, and writes the whole document
  back: every other date key keeps the entry it had. So after a push on day D1 and a push
  on another day D2 the document still holds D1's entry. (The payload is an object and the
  four transport calls succeed.)
\<close>

theorem syncToCloud_foodLog_read_modify_write:
  assumes "db w" and "configured w" and "userId \<noteq> []"
    and "\<not> nullish p1" and "\<not> nullish p2"
    and "\<forall>k<4. \<not> faults w (calls w + k)"
  shows "let ref = (userId, ''foodLog'');
             d0 = (case remote w ref of Some d \<Rightarrow> d | None \<Rightarrow> []);
             D1 = today_key (clock w (ticks w + 1));
             D2 = today_key (clock w (ticks w + 3));
             r1 = syncToCloud userId ''foodLog'' p1 w;
             r2 = syncToCloud userId ''foodLog'' p2 (snd r1)
         in fst r1 = Inr () \<and> fst r2 = Inr () \<and>
            (\<exists>d1 d2. remote (snd r1) ref = Some d1 \<and> remote (snd r2) ref = Some d2 \<and>
               trace (snd r1) = trace w @ [RGet ref, RSet ref d1] \<and>
               trace (snd r2) = trace (snd r1) @ [RGet ref, RSet ref d2] \<and>
               map_of d1 D1 = Some (pushed_entry p1) \<and>
               (\<forall>k. k \<noteq> D1 \<and> k \<noteq> ''updatedAt'' \<longrightarrow> map_of d1 k = map_of d0 k) \<and>
               map_of d2 D2 = Some (pushed_entry p2) \<and>
               (\<forall>k. k \<noteq> D2 \<and> k \<noteq> ''updatedAt'' \<longrightarrow> map_of d2 k = map_of d1 k) \<and>
               (D1 \<noteq> D2 \<longrightarrow> map_of d2 D1 = Some (pushed_entry p1)))"
proof -
  let ?ref = "(userId, ''foodLog'')"
  let ?d1 = "pushed_foodLog w userId p1"
  let ?w1 = "w\<lparr>ticks := Suc (Suc (ticks w)), calls := Suc (Suc (calls w)),
                trace := trace w @ [RGet ?ref, RSet ?ref ?d1],
                remote := (remote w)(?ref \<mapsto> ?d1)\<rparr>"
  let ?d2 = "pushed_foodLog ?w1 userId p2"
  have f: "\<not> faults w (calls w)" "\<not> faults w (Suc (calls w))"
    "\<not> faults w (Suc (Suc (calls w)))" "\<not> faults w (Suc (Suc (Suc (calls w))))"
    using assms(6) [rule_format, of 0] assms(6) [rule_format, of 1]
      assms(6) [rule_format, of 2] assms(6) [rule_format, of 3]
    by (simp_all add: numeral_2_eq_2 numeral_3_eq_3)
  have r1: "syncToCloud userId ''foodLog'' p1 w = (Inr (), ?w1)"
    using assms(1-4) f(1,2) by (rule push_foodLog_ok)
  have r2: "syncToCloud userId ''foodLog'' p2 ?w1 =
      (Inr (), ?w1\<lparr>ticks := Suc (Suc (ticks ?w1)), calls := Suc (Suc (calls ?w1)),
                   trace := trace ?w1 @ [RGet ?ref, RSet ?ref ?d2],
                   remote := (remote ?w1)(?ref \<mapsto> ?d2)\<rparr>)"
    using assms(1-3,5) f(3,4) by (intro push_foodLog_ok) simp_all
  have today1: "map_of ?d1 (today_key (clock w (Suc (ticks w)))) = Some (pushed_entry p1)"
    by (rule pushed_foodLog_today)
  have today2: "map_of ?d2 (today_key (clock w (Suc (Suc (Suc (ticks w)))))) = Some (pushed_entry p2)"
    using pushed_foodLog_today [of ?w1 userId p2] by simp
  have frame1: "k \<noteq> today_key (clock w (Suc (ticks w))) \<Longrightarrow> k \<noteq> ''updatedAt'' \<Longrightarrow>
      map_of ?d1 k = map_of (case remote w ?ref of Some d \<Rightarrow> d | None \<Rightarrow> []) k" for k
    by (rule pushed_foodLog_frame)
  have frame2: "k \<noteq> today_key (clock w (Suc (Suc (Suc (ticks w))))) \<Longrightarrow> k \<noteq> ''updatedAt'' \<Longrightarrow>
      map_of ?d2 k = map_of ?d1 k" for k
    using pushed_foodLog_frame [of k ?w1 userId p2] by simp
  have keep: "today_key (clock w (Suc (ticks w))) \<noteq> today_key (clock w (Suc (Suc (Suc (ticks w)))))
      \<Longrightarrow> map_of ?d2 (today_key (clock w (Suc (ticks w)))) = Some (pushed_entry p1)"
    using frame2 [of "today_key (clock w (Suc (ticks w)))"] today1
    by (simp add: today_key_not_updatedAt)
  show ?thesis
    unfolding Let_def r1 snd_conv fst_conv r2
    using today1 today2 frame1 frame2 keep
    by (simp add: numeral_3_eq_3)
qed

theorem syncToCloud_foodLog_read_modify_write_witness:
  "\<exists>d. remote (snd (syncToCloud ''u1'' ''foodLog'' (JObj [(''water'', JNum 7)])
              (snd (syncToCloud ''u1'' ''foodLog'' apple_day (w0\<lparr>clock := (\<lambda>n. if n < 2 then t0 else t1)\<rparr>)))))
          (''u1'', ''foodLog'') = Some d \<and>
       map_of d ''2025-02-23'' = Some apple_day \<and>
       map_of d ''2025-02-24'' = Some (JObj [(''entries'', JArr []), (''exercise'', JArr []), (''water'', JNum 7)])"
  using syncToCloud_foodLog_read_modify_write
    [of "w0\<lparr>clock := (\<lambda>n. if n < 2 then t0 else t1)\<rparr>" "''u1''" apple_day "JObj [(''water'', JNum 7)]"]
  by (simp add: Let_def w0_def apple_day_def today_t0 today_t1 pushed_entry_def day_entry_def
      get_prop_opt_def field_def or_else_def coalesce_def) blast

text \<open>
  Claim C8. A push whose type tag is none of the eight handled ones resolves without touching
  the remote store or the trace. For a handled tag, if any transport call the push makes
  fails, the push rejects with that failure.
\<close>

theorem syncToCloud_unknown_type_and_transport_failure:
  "let r = syncToCloud userId dataType payload w;
       handled = [''profile'', ''foodLog'', ''history'', ''foodHistory'', ''favorites'',
                  ''recentFoods'', ''weightLog'', ''streakData'']
   in (dataType \<notin> set handled \<longrightarrow>
         fst r = Inr () \<and> trace (snd r) = trace w \<and> calls (snd r) = calls w \<and>
         remote (snd r) = remote w \<and> store (snd r) = store w) \<and>
      (dataType \<in> set handled \<and> (\<exists>k. calls w \<le> k \<and> k < calls (snd r) \<and> faults w k) \<longrightarrow>
         fst r = Inl TransportError)"
proof (cases "db w \<and> configured w \<and> userId \<noteq> []")
  case False
  then have "syncToCloud userId dataType payload w = (Inr (), w)"
    by (auto simp: syncToCloud_def)
  then show ?thesis
    by (simp add: Let_def)
next
  case True
  have one: "calls w \<le> k \<Longrightarrow> k < Suc (calls w) \<Longrightarrow> k = calls w" for k
    by simp
  have two: "calls w \<le> k \<Longrightarrow> k < Suc (Suc (calls w)) \<Longrightarrow> k = calls w \<or> k = Suc (calls w)" for k
    by arith
  let ?r = "syncToCloud userId dataType payload w"
  have unknown: "fst ?r = Inr () \<and> trace (snd ?r) = trace w \<and> calls (snd ?r) = calls w \<and>
      remote (snd ?r) = remote w \<and> store (snd ?r) = store w"
    if "dataType \<notin> set [''profile'', ''foodLog'', ''history'', ''foodHistory'', ''favorites'',
          ''recentFoods'', ''weightLog'', ''streakData'']"
    using True that by (simp add: syncToCloud_apply push_switch_def pure_def)
  have failing: "fst ?r = Inl TransportError"
    if "dataType \<in> set [''profile'', ''foodLog'', ''history'', ''foodHistory'', ''favorites'',
          ''recentFoods'', ''weightLog'', ''streakData'']"
      and "calls w \<le> k" and "k < calls (snd ?r)" and "faults w k" for k
    using True that
    by (auto simp: syncToCloud_apply push_switch_def setDoc_apply push_foodLog_def andThen_def
        new_Date_def lift_def getDoc_apply split: if_splits sum.splits prod.splits dest: one two)
  show ?thesis
    unfolding Let_def using unknown failing by blast
qed

theorem syncToCloud_unknown_type_and_transport_failure_witness:
  "fst (syncToCloud ''u1'' ''recipes'' (JArr []) w0) = Inr () \<and>
   trace (snd (syncToCloud ''u1'' ''recipes'' (JArr []) w0)) = [] \<and>
   fst (syncToCloud ''u1'' ''profile'' (JObj []) (w0\<lparr>faults := (\<lambda>n. True)\<rparr>)) = Inl TransportError"
  using syncToCloud_unknown_type_and_transport_failure [of "''u1''" "''recipes''" "JArr []" w0]
    syncToCloud_unknown_type_and_transport_failure
      [of "''u1''" "''profile''" "JObj []" "w0\<lparr>faults := (\<lambda>n. True)\<rparr>"]
  by (simp add: Let_def w0_def syncToCloud_apply push_switch_def setDoc_apply)


section \<open>Bulk download\<close>

lemma emits_save_each:
  assumes "\<And>r. always (extends_with P) (save r)"
  shows "always (extends_with P) (save_each save xs)"
proof (induction xs)
  case Nil
  show ?case by (simp add: always_pure rel_props)
next
  case (Cons x xs)
  show ?case
    unfolding save_each.simps with_id_def
    by (intro always_intros rel_props emits_leaves assms Cons.IH)
qed

lemma emits_download_pass:
  assumes "\<And>ref. P (RGet ref)" and "\<And>r. P (SaveRecipe r)" and "\<And>r. P (SaveTemplate r)"
  shows "always (extends_with P) (download_pass userId)"
  unfolding download_pass_def hydrate_defs saver_defs
  by (intro always_intros rel_props emits_leaves emits_save_each assms)

lemma keeps_leaf: "(\<And>w. f (snd (m w)) = f w) \<Longrightarrow> always (same f) m"
  by (simp add: always_def same_def)

lemma keeps_slot_save_slot: "k \<noteq> s \<Longrightarrow> always (same (\<lambda>w. store w s)) (save_slot k v)"
  by (simp add: always_def same_def save_slot_def)

lemma keeps_slot_saveToLocalStorage:
  "k \<noteq> s \<Longrightarrow> always (same (\<lambda>w. store w s)) (saveToLocalStorage k v)"
  by (simp add: always_def same_def saveToLocalStorage_def)

lemma keeps_store_leaves:
  "always (same (\<lambda>w. store w s)) new_Date"
  "always (same (\<lambda>w. store w s)) generated_id"
  "always (same (\<lambda>w. store w s)) (getDoc ref)"
  "always (same (\<lambda>w. store w s)) (external e ev)"
  "always (same (\<lambda>w. store w s)) (saveRecipe r)"
  "always (same (\<lambda>w. store w s)) (saveTemplate r)"
  by (simp_all add: always_def same_def new_Date_def generated_id_def getDoc_apply external_def
      saveRecipe_def saveTemplate_def andThen_def Let_def)

lemma keeps_slot_save_each:
  assumes "\<And>r. always (same (\<lambda>w. store w s)) (save r)"
  shows "always (same (\<lambda>w. store w s)) (save_each save xs)"
proof (induction xs)
  case Nil
  show ?case by (simp add: always_pure rel_props)
next
  case (Cons x xs)
  show ?case
    unfolding save_each.simps with_id_def
    by (intro always_intros rel_props keeps_store_leaves assms Cons.IH)
qed

lemma keeps_last_sync_download_pass:
  "always (same (\<lambda>w. store w LAST_SYNC_TIME)) (download_pass userId)"
  unfolding download_pass_def hydrate_defs saver_defs
  by (intro always_intros rel_props keeps_store_leaves keeps_slot_save_each
      keeps_slot_save_slot keeps_slot_saveToLocalStorage) simp_all

lemma mark_synced_apply:
  "mark_synced w =
     (Inr (), w\<lparr>ticks := Suc (ticks w),
                 trace := trace w @ [SaveLastSyncTime (clock w (ticks w)), SyncComplete (clock w (ticks w))],
                 store := (store w)(LAST_SYNC_TIME \<mapsto> JStr (toISOString (clock w (ticks w))))\<rparr>)"
  by (simp add: mark_synced_def saveLastSyncTime_def dispatch_sync_complete_def save_slot_def
      io_defs)

lemma syncFromCloud_apply:
  "db w \<Longrightarrow> configured w \<Longrightarrow>
   syncFromCloud userId w =
     (case download_pass userId w of
        (Inl e, w') \<Rightarrow> (Inr (), w'\<lparr>trace := trace w' @ [ConsoleError ''syncFromCloud failed:'' e]\<rparr>)
      | (Inr u, w') \<Rightarrow> mark_synced w')"
  by (simp add: syncFromCloud_def try_catch_def andThen_def console_error_def emit_def
      mark_synced_apply split: prod.splits sum.splits)






section \<open>Bulk upload\<close>

lemma commit_local_apply:
  "commit_local userId w =
     (if faults w (calls w)
      then (Inl TransportError,
            w\<lparr>ticks := ticks w + 9, calls := Suc (calls w),
               trace := trace w @ [RBatch (local_batch userId w)]\<rparr>)
      else (Inr (),
            w\<lparr>ticks := ticks w + 9, calls := Suc (calls w),
               trace := trace w @ [RBatch (local_batch userId w)],
               remote := apply_writes (local_batch userId w) (remote w)\<rparr>))"
  by (simp add: commit_local_def batch_commit_def local_batch_def andThen_def new_Date_def
      external_def Let_def eval_nat_numeral)

lemma try_catch_logged:
  "fst (try_catch m (\<lambda>err. console_error msg err) w) = Inr ()"
  by (simp add: try_catch_def console_error_def emit_def split: prod.splits sum.splits)

lemma upload_recipes_templates_resolves: "fst (upload_recipes_templates userId w) = Inr ()"
  unfolding upload_recipes_templates_def by (rule try_catch_logged)

lemma emits_syncRecipesToCloud:
  assumes "\<And>d. P (RSet (userId, ''recipes'') d)" and "\<And>msg e. P (ConsoleError msg e)"
  shows "always (extends_with P) (syncRecipesToCloud userId rs)"
  unfolding syncRecipesToCloud_def console_error_def
  by (intro always_guard always_intros rel_props emits_leaves assms)

lemma emits_syncTemplatesToCloud:
  assumes "\<And>d. P (RSet (userId, ''templates'') d)" and "\<And>msg e. P (ConsoleError msg e)"
  shows "always (extends_with P) (syncTemplatesToCloud userId ts)"
  unfolding syncTemplatesToCloud_def console_error_def
  by (intro always_guard always_intros rel_props emits_leaves assms)

lemma emits_getAll:
  "P GetAllRecipes \<Longrightarrow> always (extends_with P) getAllRecipes"
  "P GetAllTemplates \<Longrightarrow> always (extends_with P) getAllTemplates"
  by (simp_all add: always_def extends_with_def getAllRecipes_def getAllTemplates_def
      external_def andThen_def Let_def)

lemma emits_upload_recipes_templates:
  assumes "P GetAllRecipes" and "P GetAllTemplates"
    and "\<And>d. P (RSet (userId, ''recipes'') d)" and "\<And>d. P (RSet (userId, ''templates'') d)"
    and "\<And>msg e. P (ConsoleError msg e)"
  shows "always (extends_with P) (upload_recipes_templates userId)"
  unfolding upload_recipes_templates_def console_error_def
  by (intro always_intros rel_props emits_leaves emits_getAll emits_syncRecipesToCloud
      emits_syncTemplatesToCloud assms)

lemma keeps_store_setDoc: "always (same store) (setDoc ref d)"
  by (simp add: always_def same_def setDoc_apply)

lemma keeps_store_basic:
  "always (same store) new_Date"
  "always (same store) (external e ev)"
  "always (same store) (emit ev)"
  "always (same store) getAllRecipes"
  "always (same store) getAllTemplates"
  by (simp_all add: always_def same_def new_Date_def external_def emit_def Let_def
      getAllRecipes_def getAllTemplates_def andThen_def)

lemma keeps_store_upload_recipes_templates:
  "always (same store) (upload_recipes_templates userId)"
  unfolding upload_recipes_templates_def console_error_def
    syncRecipesToCloud_def syncTemplatesToCloud_def
  by (intro always_guard always_intros rel_props keeps_store_setDoc keeps_store_basic)

lemma uploadLocalToCloud_run:
  assumes "db w" and "configured w"
  shows "let r = uploadLocalToCloud userId w; now = clock w (ticks w + 9)
         in (\<not> faults w (calls w) \<longrightarrow>
               fst r = Inr () \<and>
               (\<exists>es. trace (snd r) =
                       trace w @ [RBatch (local_batch userId w), SaveLastSyncTime now,
                                  SyncComplete now] @ es \<and>
                     list_all (is_recipe_step userId) es) \<and>
               store (snd r) LAST_SYNC_TIME = Some (JStr (toISOString now))) \<and>
            (faults w (calls w) \<longrightarrow>
               fst r = Inl TransportError \<and>
               trace (snd r) = trace w @ [RBatch (local_batch userId w)] \<and>
               store (snd r) = store w \<and> remote (snd r) = remote w)"
proof (cases "faults w (calls w)")
  case True
  with assms show ?thesis
    by (simp add: Let_def uploadLocalToCloud_def andThen_def commit_local_apply)
next
  case False
  let ?now = "clock w (ticks w + 9)"
  let ?w1 = "snd (commit_local userId w)"
  let ?w2 = "snd (mark_synced ?w1)"
  have committed: "fst (commit_local userId w) = Inr ()"
    using False by (simp add: commit_local_apply)
  have run: "uploadLocalToCloud userId w = upload_recipes_templates userId ?w2"
    using assms committed
    by (cases "commit_local userId w")
      (simp add: uploadLocalToCloud_def andThen_def mark_synced_apply)
  have w2: "trace ?w2 = trace w @ [RBatch (local_batch userId w), SaveLastSyncTime ?now,
                                   SyncComplete ?now]"
      "store ?w2 LAST_SYNC_TIME = Some (JStr (toISOString ?now))"
    using False by (simp_all add: commit_local_apply mark_synced_apply)
  have "extends_with (is_recipe_step userId) ?w2 (snd (upload_recipes_templates userId ?w2))"
    by (rule alwaysD [OF emits_upload_recipes_templates]) simp_all
  then obtain es where es: "trace (snd (upload_recipes_templates userId ?w2)) = trace ?w2 @ es"
      "list_all (is_recipe_step userId) es"
    by (auto simp: extends_with_def)
  have "store (snd (upload_recipes_templates userId ?w2)) = store ?w2"
    using alwaysD [OF keeps_store_upload_recipes_templates [of userId], of ?w2]
    by (simp add: same_def)
  with False es w2 show ?thesis
    by (simp add: Let_def run upload_recipes_templates_resolves)
qed

text \<open>
  Claim C4. With the backend configured: if the batch commit succeeds, \<open>uploadLocalToCloud\<close>
  resolves, and right after the commit it saves the last-synced timestamp and dispatches the
  sync-complete event, before anything of the recipes and templates step, and whatever that
  step runs into; the saved timestamp is still there at the end. If the commit fails, the
  failure is thrown to the caller and nothing is saved or written.
\<close>

theorem uploadLocalToCloud_marks_sync_before_recipes:
  assumes "db w" and "configured w"
  shows "let r = uploadLocalToCloud userId w; now = clock w (ticks w + 9)
         in (\<not> faults w (calls w) \<longrightarrow>
               fst r = Inr () \<and>
               (\<exists>es. trace (snd r) =
                       trace w @ [RBatch (local_batch userId w), SaveLastSyncTime now,
                                  SyncComplete now] @ es \<and>
                     list_all (is_recipe_step userId) es) \<and>
               store (snd r) LAST_SYNC_TIME = Some (JStr (toISOString now))) \<and>
            (faults w (calls w) \<longrightarrow>
               fst r = Inl TransportError \<and>
               trace (snd r) = trace w @ [RBatch (local_batch userId w)] \<and>
               store (snd r) = store w \<and> remote (snd r) = remote w)"
  using assms by (rule uploadLocalToCloud_run)

theorem uploadLocalToCloud_marks_sync_before_recipes_witness:
  "fst (uploadLocalToCloud ''u1'' (w0\<lparr>faults := (\<lambda>n. 0 < n)\<rparr>)) = Inr () \<and>
   store (snd (uploadLocalToCloud ''u1'' (w0\<lparr>faults := (\<lambda>n. 0 < n)\<rparr>))) LAST_SYNC_TIME =
     Some (JStr ''2025-02-23T12:00:00.000Z'') \<and>
   fst (uploadLocalToCloud ''u1'' (w0\<lparr>faults := (\<lambda>n. True)\<rparr>)) = Inl TransportError"
  using uploadLocalToCloud_marks_sync_before_recipes [of "w0\<lparr>faults := (\<lambda>n. 0 < n)\<rparr>" "''u1''"]
    uploadLocalToCloud_marks_sync_before_recipes [of "w0\<lparr>faults := (\<lambda>n. True)\<rparr>" "''u1''"]
  by (simp add: Let_def w0_def iso_t0)



section \<open>Sign-in reconciliation\<close>

lemma hasLocalData_nontrivial: "hasLocalData w = Inr True \<longleftrightarrow> nontrivial_local w"
  by (cases "loadFromLocalStorage FOOD_LOG (JArr []) w")
    (auto simp: hasLocalData_def nontrivial_local_def get_prop_opt_def)

lemma hasLocalData_trivial:
  "\<not> nontrivial_local w \<Longrightarrow> hasLocalData w = Inr False \<or> hasLocalData w = Inl TypeError"
  by (cases "loadFromLocalStorage FOOD_LOG (JArr []) w")
    (auto simp: hasLocalData_def nontrivial_local_def get_prop_opt_def)

lemma hasLocalData_checked: "hasLocalData (checked userId w) = hasLocalData w"
  by (simp add: hasLocalData_def checked_def loadUserProfile_def load_slot_def
      loadFromLocalStorage_def)

lemma syncOnSignIn_apply:
  assumes "configured w" and "db w"
  shows "syncOnSignIn (Some userId) w =
     (if faults w (calls w) then (Inl TransportError, checked userId w)
      else case remote w (userId, ''profile'') of
             Some d \<Rightarrow> syncFromCloud userId (checked userId w)
           | None \<Rightarrow>
               (case hasLocalData w of
                  Inl e \<Rightarrow> (Inl e, checked userId w)
                | Inr has \<Rightarrow>
                    if has then uploadLocalToCloud userId (checked userId w)
                    else (Inr (), checked userId w)))"
  using assms hasLocalData_checked [of userId w]
  by (simp add: syncOnSignIn_def doc_def andThen_def getDoc_apply pure_def checked_def
      split: option.splits sum.splits)

lemma emits_mark_synced:
  "(\<And>t. P (SaveLastSyncTime t)) \<Longrightarrow> (\<And>t. P (SyncComplete t)) \<Longrightarrow>
   always (extends_with P) mark_synced"
  by (simp add: always_def extends_with_def mark_synced_apply)

lemma emits_syncFromCloud:
  assumes "\<And>ref. P (RGet ref)" and "\<And>r. P (SaveRecipe r)" and "\<And>r. P (SaveTemplate r)"
    and "\<And>t. P (SaveLastSyncTime t)" and "\<And>t. P (SyncComplete t)"
    and "\<And>msg e. P (ConsoleError msg e)"
  shows "always (extends_with P) (syncFromCloud userId)"
  unfolding syncFromCloud_def console_error_def
  by (intro always_guard always_intros rel_props emits_leaves emits_download_pass
      emits_mark_synced assms)

lemma recipe_step_not_batch: "is_recipe_step u e \<Longrightarrow> \<not> is_batch e \<and> \<not> is_read e"
  by (cases e) simp_all

lemma new_events_append: "trace w' = trace w @ es \<Longrightarrow> new_events w w' = es"
  by (simp add: new_events_def)

lemma syncFromCloud_resolves: "fst (syncFromCloud userId w) = Inr ()"
  by (simp add: syncFromCloud_def try_catch_logged)

text \<open>
  Claim C1. Without a user, or with the backend not configured, \<open>syncOnSignIn\<close> returns at once
  and leaves the world as it is. Otherwise, once the profile existence check has gone
  through: if the remote profile exists, the rest of the run is one \<open>syncFromCloud\<close> and nothing
  is written remotely; if it does not exist and there is a local profile or a non-empty local
  food log, the rest is one \<open>uploadLocalToCloud\<close>, with exactly one batch and no further read; if
  it does not exist and there is neither, the existence check is the only remote access.
\<close>

theorem syncOnSignIn_outcomes:
  "let r = syncOnSignIn user w
   in (user = None \<or> \<not> configured w \<longrightarrow> r = (Inr (), w)) \<and>
      (\<forall>userId. user = Some userId \<and> configured w \<and> db w \<and> \<not> faults w (calls w) \<longrightarrow>
         (remote w (userId, ''profile'') \<noteq> None \<longrightarrow>
            r = syncFromCloud userId (checked userId w) \<and>
            \<not> list_ex is_write (new_events w (snd r))) \<and>
         (remote w (userId, ''profile'') = None \<and> nontrivial_local w \<longrightarrow>
            r = uploadLocalToCloud userId (checked userId w) \<and>
            (\<exists>es. new_events w (snd r) =
                    RGet (userId, ''profile'') # RBatch (local_batch userId (checked userId w)) # es \<and>
                  \<not> list_ex is_batch es \<and> \<not> list_ex is_read es)) \<and>
         (remote w (userId, ''profile'') = None \<and> \<not> nontrivial_local w \<longrightarrow>
            new_events w (snd r) = [RGet (userId, ''profile'')] \<and> remote (snd r) = remote w))"
proof -
  have none: "syncOnSignIn user w = (Inr (), w)" if "user = None \<or> \<not> configured w"
    using that by (auto simp: syncOnSignIn_def split: option.splits)
  have download: "syncOnSignIn (Some userId) w = syncFromCloud userId (checked userId w) \<and>
      \<not> list_ex is_write (new_events w (snd (syncOnSignIn (Some userId) w)))"
    if "configured w" "db w" "\<not> faults w (calls w)" "remote w (userId, ''profile'') \<noteq> None"
    for userId
  proof -
    have run: "syncOnSignIn (Some userId) w = syncFromCloud userId (checked userId w)"
      using that by (auto simp: syncOnSignIn_apply)
    have "extends_with (\<lambda>e. \<not> is_write e) (checked userId w)
            (snd (syncFromCloud userId (checked userId w)))"
      by (rule alwaysD [OF emits_syncFromCloud]) simp_all
    then obtain es where "trace (snd (syncFromCloud userId (checked userId w))) =
        trace w @ RGet (userId, ''profile'') # es" and "list_all (\<lambda>e. \<not> is_write e) es"
      by (auto simp: extends_with_def checked_def)
    then show ?thesis
      by (simp add: run new_events_def list_all_iff list_ex_iff)
  qed
  have upload: "syncOnSignIn (Some userId) w = uploadLocalToCloud userId (checked userId w) \<and>
      (\<exists>es. new_events w (snd (syncOnSignIn (Some userId) w)) =
              RGet (userId, ''profile'') # RBatch (local_batch userId (checked userId w)) # es \<and>
            \<not> list_ex is_batch es \<and> \<not> list_ex is_read es)"
    if "configured w" "db w" "\<not> faults w (calls w)" "remote w (userId, ''profile'') = None"
      "nontrivial_local w" for userId
  proof -
    have run: "syncOnSignIn (Some userId) w = uploadLocalToCloud userId (checked userId w)"
      using that hasLocalData_nontrivial [of w] by (simp add: syncOnSignIn_apply)
    have guard: "db (checked userId w)" "configured (checked userId w)"
      using that by (simp_all add: checked_def)
    note up = uploadLocalToCloud_run [OF guard, of userId, unfolded Let_def]
    show ?thesis
    proof (cases "faults (checked userId w) (calls (checked userId w))")
      case True
      with up have "trace (snd (uploadLocalToCloud userId (checked userId w))) =
          trace (checked userId w) @ [RBatch (local_batch userId (checked userId w))]"
        by simp
      then show ?thesis
        by (simp add: run new_events_def checked_def)
    next
      case False
      with up obtain es where es:
        "trace (snd (uploadLocalToCloud userId (checked userId w))) =
           trace (checked userId w) @
             [RBatch (local_batch userId (checked userId w)),
              SaveLastSyncTime (clock (checked userId w) (ticks (checked userId w) + 9)),
              SyncComplete (clock (checked userId w) (ticks (checked userId w) + 9))] @ es"
        "list_all (is_recipe_step userId) es"
        by auto
      from es(2) have "\<not> list_ex is_batch es \<and> \<not> list_ex is_read es"
        by (auto simp: list_all_iff list_ex_iff dest: recipe_step_not_batch)
      with es(1) show ?thesis
        by (simp add: run new_events_def checked_def)
    qed
  qed
  have idle: "new_events w (snd (syncOnSignIn (Some userId) w)) = [RGet (userId, ''profile'')] \<and>
      remote (snd (syncOnSignIn (Some userId) w)) = remote w"
    if "configured w" "db w" "\<not> faults w (calls w)" "remote w (userId, ''profile'') = None"
      "\<not> nontrivial_local w" for userId
    using that hasLocalData_trivial [of w]
    by (auto simp: syncOnSignIn_apply new_events_def checked_def)
  have main:
    "(remote w (userId, ''profile'') \<noteq> None \<longrightarrow>
        syncOnSignIn user w = syncFromCloud userId (checked userId w) \<and>
        \<not> list_ex is_write (new_events w (snd (syncOnSignIn user w)))) \<and>
     (remote w (userId, ''profile'') = None \<and> nontrivial_local w \<longrightarrow>
        syncOnSignIn user w = uploadLocalToCloud userId (checked userId w) \<and>
        (\<exists>es. new_events w (snd (syncOnSignIn user w)) =
                RGet (userId, ''profile'') # RBatch (local_batch userId (checked userId w)) # es \<and>
              \<not> list_ex is_batch es \<and> \<not> list_ex is_read es)) \<and>
     (remote w (userId, ''profile'') = None \<and> \<not> nontrivial_local w \<longrightarrow>
        new_events w (snd (syncOnSignIn user w)) = [RGet (userId, ''profile'')] \<and>
        remote (snd (syncOnSignIn user w)) = remote w)"
    if "user = Some userId" and "configured w" and "db w" and "\<not> faults w (calls w)" for userId
  proof (intro conjI impI)
    assume "remote w (userId, ''profile'') \<noteq> None"
    note d = download [OF that(2-4) this]
    show "syncOnSignIn user w = syncFromCloud userId (checked userId w)"
      unfolding that(1) using d by (rule conjunct1)
    show "\<not> list_ex is_write (new_events w (snd (syncOnSignIn user w)))"
      unfolding that(1) using d by (rule conjunct2)
  next
    assume "remote w (userId, ''profile'') = None \<and> nontrivial_local w"
    then have "remote w (userId, ''profile'') = None" and "nontrivial_local w"
      by simp_all
    note u = upload [OF that(2-4) this]
    show "syncOnSignIn user w = uploadLocalToCloud userId (checked userId w)"
      unfolding that(1) using u by (rule conjunct1)
    show "\<exists>es. new_events w (snd (syncOnSignIn user w)) =
                RGet (userId, ''profile'') # RBatch (local_batch userId (checked userId w)) # es \<and>
              \<not> list_ex is_batch es \<and> \<not> list_ex is_read es"
      unfolding that(1) using u by (rule conjunct2)
  next
    assume "remote w (userId, ''profile'') = None \<and> \<not> nontrivial_local w"
    then have "remote w (userId, ''profile'') = None" and "\<not> nontrivial_local w"
      by simp_all
    note n = idle [OF that(2-4) this]
    from n show "new_events w (snd (syncOnSignIn user w)) = [RGet (userId, ''profile'')]"
      unfolding that(1) by (rule conjunct1)
    from n show "remote (snd (syncOnSignIn user w)) = remote w"
      unfolding that(1) by (rule conjunct2)
  qed
  show ?thesis
    unfolding Let_def
    apply (rule conjI)
    using none apply blast
    apply (intro allI impI)
    apply (elim conjE)
    apply (rule main)
       apply assumption+
    done
qed

theorem syncOnSignIn_outcomes_witness:
  "syncOnSignIn None w0 = (Inr (), w0) \<and>
   new_events w0 (snd (syncOnSignIn (Some ''u1'') w0)) = [RGet (''u1'', ''profile'')] \<and>
   \<not> list_ex is_write (new_events w_remote (snd (syncOnSignIn (Some ''u1'') w_remote))) \<and>
   (\<exists>es. new_events w_local (snd (syncOnSignIn (Some ''u1'') w_local)) =
           RGet (''u1'', ''profile'') # RBatch (local_batch ''u1'' (checked ''u1'' w_local)) # es \<and>
         \<not> list_ex is_batch es \<and> \<not> list_ex is_read es)"
proof -
  have a: "syncOnSignIn None w0 = (Inr (), w0)"
    using syncOnSignIn_outcomes [of None w0] by (simp add: Let_def)
  have b: "new_events w0 (snd (syncOnSignIn (Some ''u1'') w0)) = [RGet (''u1'', ''profile'')]"
    using syncOnSignIn_outcomes [of "Some ''u1''" w0]
    by (simp add: Let_def w0_def nontrivial_local_def loadUserProfile_def load_slot_def
        loadFromLocalStorage_def get_prop_opt_def)
  have c: "\<not> list_ex is_write (new_events w_remote (snd (syncOnSignIn (Some ''u1'') w_remote)))"
  proof -
    note outcomes = syncOnSignIn_outcomes [of "Some ''u1''" w_remote, unfolded Let_def,
        THEN conjunct2, rule_format, of "''u1''"]
    have "Some ''u1'' = Some ''u1'' \<and> configured w_remote \<and> db w_remote \<and>
        \<not> faults w_remote (calls w_remote)"
      and "remote w_remote (''u1'', ''profile'') \<noteq> None"
      by (simp_all add: w_remote_def w0_def)
    with outcomes show ?thesis by blast
  qed
  have d: "\<exists>es. new_events w_local (snd (syncOnSignIn (Some ''u1'') w_local)) =
           RGet (''u1'', ''profile'') # RBatch (local_batch ''u1'' (checked ''u1'' w_local)) # es \<and>
         \<not> list_ex is_batch es \<and> \<not> list_ex is_read es"
  proof -
    note outcomes = syncOnSignIn_outcomes [of "Some ''u1''" w_local, unfolded Let_def,
        THEN conjunct2, rule_format, of "''u1''"]
    have "Some ''u1'' = Some ''u1'' \<and> configured w_local \<and> db w_local \<and>
        \<not> faults w_local (calls w_local)"
      and "remote w_local (''u1'', ''profile'') = None \<and> nontrivial_local w_local"
      by (simp_all add: w_local_def w0_def nontrivial_local_def loadFromLocalStorage_def
          get_prop_opt_def)
    with outcomes show ?thesis by blast
  qed
  from a b c d show ?thesis by blast
qed

text \<open>
  Claim C10. \<open>syncOnSignIn\<close> catches nothing itself: it rejects when the existence check fails
  and when the upload's batch commit fails, and then the auth state-change handler rejects
  too, before it clears its loading flag. When the profile exists, whatever goes wrong in the
  download is absorbed and \<open>syncOnSignIn\<close> resolves.
\<close>

theorem syncOnSignIn_rejections:
  assumes "configured w" and "db w"
  shows "let r = syncOnSignIn (Some userId) w
         in (faults w (calls w) \<longrightarrow> fst r = Inl TransportError) \<and>
            (\<not> faults w (calls w) \<and> remote w (userId, ''profile'') = None \<and> nontrivial_local w \<and>
               faults w (Suc (calls w)) \<longrightarrow> fst r = Inl TransportError) \<and>
            (\<not> faults w (calls w) \<and> remote w (userId, ''profile'') \<noteq> None \<longrightarrow> fst r = Inr ()) \<and>
            (\<forall>e a. fst r = Inl e \<longrightarrow>
               authStateChanged (Some userId) a w = (Inl e, a\<lparr>currentUser := Some userId\<rparr>, snd r))"
proof -
  let ?r = "syncOnSignIn (Some userId) w"
  have check: "fst ?r = Inl TransportError" if "faults w (calls w)"
    using assms that by (simp add: syncOnSignIn_apply)
  have commit: "fst ?r = Inl TransportError"
    if "\<not> faults w (calls w)" "remote w (userId, ''profile'') = None" "nontrivial_local w"
      "faults w (Suc (calls w))"
  proof -
    have run: "?r = uploadLocalToCloud userId (checked userId w)"
      using assms that hasLocalData_nontrivial [of w] by (simp add: syncOnSignIn_apply)
    have guard: "db (checked userId w)" "configured (checked userId w)"
      using assms by (simp_all add: checked_def)
    have "faults (checked userId w) (calls (checked userId w))"
      using that(4) by (simp add: checked_def)
    with uploadLocalToCloud_run [OF guard, of userId] show ?thesis
      by (simp add: run Let_def)
  qed
  have download: "fst ?r = Inr ()"
    if "\<not> faults w (calls w)" "remote w (userId, ''profile'') \<noteq> None"
    using assms that by (auto simp: syncOnSignIn_apply syncFromCloud_resolves)
  have handler: "authStateChanged (Some userId) a w = (Inl e, a\<lparr>currentUser := Some userId\<rparr>, snd ?r)"
    if "fst ?r = Inl e" for e a
    using that by (cases ?r) (simp add: authStateChanged_def)
  show ?thesis
    unfolding Let_def
  proof (intro conjI impI allI)
    assume "faults w (calls w)"
    then show "fst ?r = Inl TransportError" by (rule check)
  next
    assume "\<not> faults w (calls w) \<and> remote w (userId, ''profile'') = None \<and> nontrivial_local w \<and>
      faults w (Suc (calls w))"
    then show "fst ?r = Inl TransportError" using commit by blast
  next
    assume "\<not> faults w (calls w) \<and> remote w (userId, ''profile'') \<noteq> None"
    then show "fst ?r = Inr ()" using download by blast
  next
    fix e a
    assume "fst ?r = Inl e"
    then show "authStateChanged (Some userId) a w = (Inl e, a\<lparr>currentUser := Some userId\<rparr>, snd ?r)"
      by (rule handler)
  qed
qed

theorem syncOnSignIn_rejections_witness:
  "fst (syncOnSignIn (Some ''u1'') (w0\<lparr>faults := (\<lambda>n. True)\<rparr>)) = Inl TransportError \<and>
   fst (syncOnSignIn (Some ''u1'') (w_local\<lparr>faults := (\<lambda>n. 0 < n)\<rparr>)) = Inl TransportError \<and>
   fst (syncOnSignIn (Some ''u1'') (w_remote\<lparr>faults := (\<lambda>n. 0 < n)\<rparr>)) = Inr () \<and>
   authStateChanged (Some ''u1'') \<lparr>currentUser = None, loading = True\<rparr> (w0\<lparr>faults := (\<lambda>n. True)\<rparr>) =
     (Inl TransportError, \<lparr>currentUser = Some ''u1'', loading = True\<rparr>,
      snd (syncOnSignIn (Some ''u1'') (w0\<lparr>faults := (\<lambda>n. True)\<rparr>)))"
proof -
  have a: "fst (syncOnSignIn (Some ''u1'') (w0\<lparr>faults := (\<lambda>n. True)\<rparr>)) = Inl TransportError"
    using syncOnSignIn_rejections [of "w0\<lparr>faults := (\<lambda>n. True)\<rparr>" "''u1''"]
    by (simp add: Let_def w0_def)
  have b: "fst (syncOnSignIn (Some ''u1'') (w_local\<lparr>faults := (\<lambda>n. 0 < n)\<rparr>)) = Inl TransportError"
    using syncOnSignIn_rejections [of "w_local\<lparr>faults := (\<lambda>n. 0 < n)\<rparr>" "''u1''"]
    by (simp add: Let_def w0_def w_local_def nontrivial_local_def loadUserProfile_def load_slot_def
        loadFromLocalStorage_def get_prop_opt_def)
  have c: "fst (syncOnSignIn (Some ''u1'') (w_remote\<lparr>faults := (\<lambda>n. 0 < n)\<rparr>)) = Inr ()"
    using syncOnSignIn_rejections [of "w_remote\<lparr>faults := (\<lambda>n. 0 < n)\<rparr>" "''u1''"]
    by (simp add: Let_def w0_def w_remote_def)
  have d: "authStateChanged (Some ''u1'') \<lparr>currentUser = None, loading = True\<rparr> (w0\<lparr>faults := (\<lambda>n. True)\<rparr>) =
     (Inl TransportError, \<lparr>currentUser = Some ''u1'', loading = True\<rparr>,
      snd (syncOnSignIn (Some ''u1'') (w0\<lparr>faults := (\<lambda>n. True)\<rparr>)))"
    using syncOnSignIn_rejections [of "w0\<lparr>faults := (\<lambda>n. True)\<rparr>" "''u1''"] a
    by (simp add: Let_def w0_def)
  from a b c d show ?thesis by blast
qed


section \<open>Every remote write is stamped and whole\<close>

lemma written_append: "written (es @ es') = written es @ written es'"
  by (simp add: written_def)

lemma apply_writes_append: "apply_writes (ws @ ws') r = apply_writes ws' (apply_writes ws r)"
  by (induction ws arbitrary: r) auto

lemma stamped_widen:
  "stamped w w1 d \<Longrightarrow> ticks w1 \<le> ticks w2 \<Longrightarrow> stamped w w2 d"
  by (auto simp: stamped_def)

lemma stamped_later:
  "stamped w1 w2 d \<Longrightarrow> clock w1 = clock w \<Longrightarrow> ticks w \<le> ticks w1 \<Longrightarrow> stamped w w2 d"
  by (auto simp: stamped_def)

lemma reflp_stamps_writes: "reflp stamps_writes"
  by (rule reflpI) (simp add: stamps_writes_def written_def)

lemma transp_stamps_writes: "transp stamps_writes"
proof (rule transpI)
  fix w w1 w2
  assume a: "stamps_writes w w1" and b: "stamps_writes w1 w2"
  from a obtain es1 where 1: "clock w1 = clock w" "ticks w \<le> ticks w1" "trace w1 = trace w @ es1"
      "\<forall>(ref, d)\<in>set (written es1). stamped w w1 d"
    by (auto simp: stamps_writes_def)
  from b obtain es2 where 2: "clock w2 = clock w1" "ticks w1 \<le> ticks w2" "trace w2 = trace w1 @ es2"
      "\<forall>(ref, d)\<in>set (written es2). stamped w1 w2 d"
    by (auto simp: stamps_writes_def)
  have "\<forall>(ref, d)\<in>set (written (es1 @ es2)). stamped w w2 d"
    using 1 2 by (auto simp: written_append intro: stamped_widen stamped_later)
  moreover have "trace w2 = trace w @ (es1 @ es2)"
    using 1 2 by simp
  ultimately show "stamps_writes w w2"
    unfolding stamps_writes_def using 1 2 by (intro conjI exI [of _ "es1 @ es2"]) simp_all
qed

lemma reflp_writes_land: "reflp writes_land"
  by (rule reflpI) (simp add: writes_land_def written_def)

lemma transp_writes_land: "transp writes_land"
proof (rule transpI)
  fix w w1 w2
  assume a: "writes_land w w1" and b: "writes_land w1 w2"
  from a obtain es1 where 1: "faults w1 = faults w" "calls w \<le> calls w1" "trace w1 = trace w @ es1"
      "(\<forall>k\<in>{calls w..<calls w1}. \<not> faults w k) \<longrightarrow> remote w1 = apply_writes (written es1) (remote w)"
    by (auto simp: writes_land_def)
  from b obtain es2 where 2: "faults w2 = faults w1" "calls w1 \<le> calls w2" "trace w2 = trace w1 @ es2"
      "(\<forall>k\<in>{calls w1..<calls w2}. \<not> faults w1 k) \<longrightarrow> remote w2 = apply_writes (written es2) (remote w1)"
    by (auto simp: writes_land_def)
  have "remote w2 = apply_writes (written (es1 @ es2)) (remote w)"
    if "\<forall>k\<in>{calls w..<calls w2}. \<not> faults w k"
  proof -
    have "\<forall>k\<in>{calls w..<calls w1}. \<not> faults w k" and "\<forall>k\<in>{calls w1..<calls w2}. \<not> faults w1 k"
      using that 1(1,2) 2(2) by auto
    with 1(4) 2(4) show ?thesis
      by (simp add: written_append apply_writes_append)
  qed
  moreover have "trace w2 = trace w @ (es1 @ es2)"
    using 1 2 by simp
  ultimately show "writes_land w w2"
    unfolding writes_land_def using 1 2 by (intro conjI exI [of _ "es1 @ es2"]) simp_all
qed

lemmas rel_props2 = reflp_stamps_writes transp_stamps_writes reflp_writes_land transp_writes_land

lemma quiet_leaf_stamps:
  assumes "\<And>w. clock (snd (m w)) = clock w" and "\<And>w. ticks w \<le> ticks (snd (m w))"
    and "\<And>w. \<exists>es. trace (snd (m w)) = trace w @ es \<and> written es = []"
  shows "always stamps_writes m"
  unfolding always_def stamps_writes_def
proof (intro allI conjI)
  fix w
  from assms(3) [of w] obtain es where "trace (snd (m w)) = trace w @ es" "written es = []"
    by blast
  then show "\<exists>es. trace (snd (m w)) = trace w @ es \<and> (\<forall>(ref, d)\<in>set (written es). stamped w (snd (m w)) d)"
    by (intro exI [of _ es]) simp
qed (simp_all add: assms)

lemma stamps_leaves:
  "always stamps_writes new_Date"
  "always stamps_writes (emit (ConsoleError msg e))"
  "always stamps_writes (emit (SaveLastSyncTime t))"
  "always stamps_writes (emit (SyncComplete t))"
  "always stamps_writes (save_slot key v)"
  "always stamps_writes getAllRecipes"
  "always stamps_writes getAllTemplates"
  "always stamps_writes (getDoc ref)"
  by (rule quiet_leaf_stamps;
      simp add: new_Date_def emit_def save_slot_def getAllRecipes_def getAllTemplates_def
        getDoc_apply external_def andThen_def Let_def written_def)+

lemma stampedI:
  "ticks w \<le> k \<Longrightarrow> k < ticks w' \<Longrightarrow>
   map_of d ''updatedAt'' = Some (JStr (toISOString (clock w k))) \<Longrightarrow> stamped w w' d"
  by (auto simp: stamped_def)

lemma updatedAt_items_doc: "map_of (items_doc v s) ''updatedAt'' = Some (JStr s)"
  by (simp add: items_doc_def)

lemma updatedAt_spread_doc: "map_of (spread_doc v s) ''updatedAt'' = Some (JStr s)"
  by (simp add: spread_doc_def update_conv')

lemma updatedAt_profileDoc: "map_of (profileDoc w s) ''updatedAt'' = Some (JStr s)"
  by (simp add: profileDoc_def)

lemma updatedAt_foodLogDoc: "map_of (foodLogDoc w today s) ''updatedAt'' = Some (JStr s)"
  by (simp add: foodLogDoc_def update_conv')

lemmas updatedAt_docs = updatedAt_items_doc updatedAt_spread_doc updatedAt_profileDoc
  updatedAt_foodLogDoc

lemma stamps_stamped_setDoc:
  assumes "\<And>s. map_of (mk s) ''updatedAt'' = Some (JStr s)"
  shows "always stamps_writes (andThen new_Date (\<lambda>t. setDoc ref (mk (toISOString t))))"
  unfolding always_def stamps_writes_def
proof (intro allI conjI)
  fix w
  let ?w' = "snd (andThen new_Date (\<lambda>t. setDoc ref (mk (toISOString t))) w)"
  let ?d = "mk (toISOString (clock w (ticks w)))"
  have t: "trace ?w' = trace w @ [RSet ref ?d]" and k: "ticks ?w' = Suc (ticks w)"
    by (simp_all add: andThen_def new_Date_def setDoc_apply)
  have "stamped w ?w' ?d"
    by (rule stampedI [of _ "ticks w"]) (simp_all add: k assms)
  with t show "\<exists>es. trace ?w' = trace w @ es \<and> (\<forall>(ref, d)\<in>set (written es). stamped w ?w' d)"
    by (intro exI [of _ "[RSet ref ?d]"]) (simp add: written_def)
qed (simp_all add: andThen_def new_Date_def setDoc_apply)

lemma stamps_syncRecipesToCloud: "always stamps_writes (syncRecipesToCloud userId rs)"
  unfolding syncRecipesToCloud_def console_error_def
  by (intro always_guard always_intros rel_props2 stamps_leaves stamps_stamped_setDoc
      updatedAt_docs)

lemma stamps_syncTemplatesToCloud: "always stamps_writes (syncTemplatesToCloud userId ts)"
  unfolding syncTemplatesToCloud_def console_error_def
  by (intro always_guard always_intros rel_props2 stamps_leaves stamps_stamped_setDoc
      updatedAt_docs)

lemma get_prop_nullish: "nullish v \<Longrightarrow> get_prop v k = Inl TypeError"
  by (cases v) simp_all

lemma local_batch_stamped:
  "(ref, d) \<in> set (local_batch userId w) \<Longrightarrow>
   \<exists>k\<in>{ticks w..<ticks w + 9}. map_of d ''updatedAt'' = Some (JStr (toISOString (clock w k)))"
  unfolding local_batch_def upload_batch_def
  by (auto simp: updatedAt_docs)

lemma stamps_commit_local: "always stamps_writes (commit_local userId)"
  unfolding always_def stamps_writes_def
proof (intro allI conjI)
  fix w
  let ?w' = "snd (commit_local userId w)"
  have t: "trace ?w' = trace w @ [RBatch (local_batch userId w)]" and k: "ticks ?w' = ticks w + 9"
    by (simp_all add: commit_local_apply)
  have "\<forall>(ref, d)\<in>set (local_batch userId w). stamped w ?w' d"
    using local_batch_stamped [of _ _ userId w] by (auto simp: stamped_def k)
  with t show "\<exists>es. trace ?w' = trace w @ es \<and> (\<forall>(ref, d)\<in>set (written es). stamped w ?w' d)"
    by (intro exI [of _ "[RBatch (local_batch userId w)]"]) (simp add: written_def)
qed (simp_all add: commit_local_apply)

lemma stamps_mark_synced: "always stamps_writes mark_synced"
  by (rule quiet_leaf_stamps) (simp_all add: mark_synced_apply written_def)

lemma stamps_upload_recipes_templates: "always stamps_writes (upload_recipes_templates userId)"
  unfolding upload_recipes_templates_def console_error_def
  by (intro always_intros rel_props2 stamps_leaves stamps_syncRecipesToCloud
      stamps_syncTemplatesToCloud)

lemma stamps_uploadLocalToCloud: "always stamps_writes (uploadLocalToCloud userId)"
  unfolding uploadLocalToCloud_def
  by (intro always_guard always_intros rel_props2 stamps_commit_local stamps_mark_synced
      stamps_upload_recipes_templates)

lemma stamps_push_foodLog:
  "always stamps_writes (andThen new_Date (\<lambda>t. push_foodLog userId payload (toISOString t)))"
  unfolding always_def stamps_writes_def
proof (intro allI conjI)
  fix w
  let ?m = "andThen new_Date (\<lambda>t. push_foodLog userId payload (toISOString t))"
  let ?w' = "snd (?m w)"
  let ?ref = "(userId, ''foodLog'')"
  let ?w1 = "w\<lparr>ticks := Suc (ticks w)\<rparr>"
  have k: "ticks ?w' = Suc (Suc (ticks w))" and c: "clock ?w' = clock w"
    by (simp_all add: andThen_def new_Date_def push_foodLog_def getDoc_apply setDoc_apply lift_def
        split: sum.splits)
  then show "clock ?w' = clock w" and "ticks w \<le> ticks ?w'"
    by simp_all
  have "trace ?w' = trace w @ [RGet ?ref] \<or>
        trace ?w' = trace w @ [RGet ?ref, RSet ?ref (pushed_foodLog w userId payload)]"
  proof (cases "nullish payload")
    case True
    then show ?thesis
      by (simp add: andThen_def new_Date_def push_foodLog_def getDoc_apply lift_def
          get_prop_nullish)
  next
    case False
    then show ?thesis
      by (simp add: andThen_def new_Date_def push_foodLog_def getDoc_apply setDoc_apply lift_def
          get_prop_not_nullish pushed_foodLog_def pushed_entry_def)
  qed
  moreover have "stamped w ?w' (pushed_foodLog w userId payload)"
    by (rule stampedI [of _ "ticks w"]) (simp_all add: k pushed_foodLog_def update_conv')
  ultimately show "\<exists>es. trace ?w' = trace w @ es \<and> (\<forall>(ref, d)\<in>set (written es). stamped w ?w' d)"
    by (auto simp: written_def)
qed

lemma push_switch_cases:
  "andThen new_Date (\<lambda>t. push_switch userId dataType payload (toISOString t)) =
     (if dataType = ''profile'' then
        andThen new_Date (\<lambda>t. setDoc (userId, ''profile'') (spread_doc payload (toISOString t)))
      else if dataType = ''foodLog'' then
        andThen new_Date (\<lambda>t. push_foodLog userId payload (toISOString t))
      else if dataType = ''history'' then
        andThen new_Date (\<lambda>t. setDoc (userId, ''history'') (spread_doc payload (toISOString t)))
      else if dataType = ''foodHistory'' then
        andThen new_Date (\<lambda>t. setDoc (userId, ''foodHistory'') (spread_doc payload (toISOString t)))
      else if dataType = ''favorites'' then
        andThen new_Date (\<lambda>t. setDoc (userId, ''favorites'') (items_doc payload (toISOString t)))
      else if dataType = ''recentFoods'' then
        andThen new_Date (\<lambda>t. setDoc (userId, ''recentFoods'') (items_doc payload (toISOString t)))
      else if dataType = ''weightLog'' then
        andThen new_Date (\<lambda>t. setDoc (userId, ''weightLog'') (items_doc payload (toISOString t)))
      else if dataType = ''streakData'' then
        andThen new_Date (\<lambda>t. setDoc (userId, ''streakData'') (spread_doc payload (toISOString t)))
      else andThen new_Date (\<lambda>t. pure ()))"
  by (simp add: push_switch_def)

lemma stamps_syncToCloud: "always stamps_writes (syncToCloud userId dataType payload)"
  unfolding syncToCloud_def console_error_def push_switch_cases
  by (intro always_guard always_intros rel_props2 stamps_leaves stamps_stamped_setDoc
      stamps_push_foodLog updatedAt_docs)

subsection \<open>Written documents replace what was there\<close>

lemma land_leaves:
  "always writes_land new_Date"
  "always writes_land (emit (ConsoleError msg e))"
  "always writes_land getAllRecipes"
  "always writes_land getAllTemplates"
  "always writes_land (getDoc ref)"
  "always writes_land (setDoc ref d)"
  "always writes_land mark_synced"
  "always writes_land (commit_local userId)"
  by (simp_all add: always_def writes_land_def new_Date_def emit_def getAllRecipes_def
      getAllTemplates_def getDoc_apply setDoc_apply mark_synced_apply commit_local_apply
      external_def andThen_def Let_def written_def)

lemma land_syncRecipesToCloud: "always writes_land (syncRecipesToCloud userId rs)"
  unfolding syncRecipesToCloud_def console_error_def
  by (intro always_guard always_intros rel_props2 land_leaves)

lemma land_syncTemplatesToCloud: "always writes_land (syncTemplatesToCloud userId ts)"
  unfolding syncTemplatesToCloud_def console_error_def
  by (intro always_guard always_intros rel_props2 land_leaves)

lemma land_uploadLocalToCloud: "always writes_land (uploadLocalToCloud userId)"
  unfolding uploadLocalToCloud_def upload_recipes_templates_def console_error_def
  by (intro always_guard always_intros rel_props2 land_leaves land_syncRecipesToCloud
      land_syncTemplatesToCloud)

lemma land_syncToCloud: "always writes_land (syncToCloud userId dataType payload)"
  unfolding syncToCloud_def console_error_def push_switch_def push_foodLog_def
  by (intro always_guard always_intros rel_props2 land_leaves)

lemma stamps_and_replacesI:
  assumes "always stamps_writes m" and "always writes_land m"
  shows "stamps_and_replaces m w"
proof -
  let ?w' = "snd (m w)"
  from alwaysD [OF assms(1), of w] obtain es where
    es: "trace ?w' = trace w @ es" "\<forall>(ref, d)\<in>set (written es). stamped w ?w' d"
    by (auto simp: stamps_writes_def)
  from alwaysD [OF assms(2), of w] obtain es' where
    es': "trace ?w' = trace w @ es'"
      "(\<forall>k\<in>{calls w..<calls ?w'}. \<not> faults w k) \<longrightarrow> remote ?w' = apply_writes (written es') (remote w)"
    by (auto simp: writes_land_def)
  from es(1) es'(1) have "es' = es" by simp
  with es es' show ?thesis
    by (simp add: stamps_and_replaces_def Let_def new_events_def)
qed

text \<open>
  Claim C7. In a bulk upload, in a single-record push of any type, and in the recipes and
  templates writes, every document handed to Firestore carries in \<open>updatedAt\<close> the ISO string
  of a clock reading the operation took, and is written with a plain \<open>set\<close>: when no call of
  the operation fails, the remote store afterwards holds each written document as it was
  written, in place of the document that was there.
\<close>

theorem remote_writes_stamp_and_replace:
  "stamps_and_replaces (uploadLocalToCloud userId) w \<and>
   stamps_and_replaces (syncToCloud userId dataType payload) w \<and>
   stamps_and_replaces (syncRecipesToCloud userId rs) w \<and>
   stamps_and_replaces (syncTemplatesToCloud userId ts) w"
  by (intro conjI stamps_and_replacesI stamps_uploadLocalToCloud stamps_syncToCloud
      stamps_syncRecipesToCloud stamps_syncTemplatesToCloud land_uploadLocalToCloud
      land_syncToCloud land_syncRecipesToCloud land_syncTemplatesToCloud)

theorem remote_writes_stamp_and_replace_witness:
  "written (new_events w0 (snd (syncToCloud ''u1'' ''favorites'' (JArr []) w0))) =
     [((''u1'', ''favorites''),
       [(''items'', JArr []), (''updatedAt'', JStr ''2025-02-23T12:00:00.000Z'')])] \<and>
   stamped w0 (snd (syncToCloud ''u1'' ''favorites'' (JArr []) w0))
     [(''items'', JArr []), (''updatedAt'', JStr ''2025-02-23T12:00:00.000Z'')] \<and>
   remote (snd (syncToCloud ''u1'' ''favorites'' (JArr []) w0)) (''u1'', ''favorites'') =
     Some [(''items'', JArr []), (''updatedAt'', JStr ''2025-02-23T12:00:00.000Z'')]"
proof -
  let ?w' = "snd (syncToCloud ''u1'' ''favorites'' (JArr []) w0)"
  let ?d = "[(''items'', JArr []), (''updatedAt'', JStr ''2025-02-23T12:00:00.000Z'')]"
  have run: "?w' = w0\<lparr>ticks := 1, calls := 1, trace := [RSet (''u1'', ''favorites'') ?d],
                        remote := [(''u1'', ''favorites'') \<mapsto> ?d]\<rparr>"
    by (simp add: syncToCloud_apply push_switch_def setDoc_apply items_doc_def iso_t0 w0_def)
  have written: "written (new_events w0 ?w') = [((''u1'', ''favorites''), ?d)]"
    by (simp add: run new_events_def written_def) (simp add: w0_def)
  have quiet: "\<forall>k\<in>{calls w0..<calls ?w'}. \<not> faults w0 k"
    by (simp add: w0_def)
  from remote_writes_stamp_and_replace [of "''u1''" w0 "''favorites''" "JArr []"]
  have "stamps_and_replaces (syncToCloud ''u1'' ''favorites'' (JArr [])) w0"
    by blast
  then have "(\<forall>(ref, d)\<in>set (written (new_events w0 ?w')). stamped w0 ?w' d) \<and>
      ((\<forall>k\<in>{calls w0..<calls ?w'}. \<not> faults w0 k) \<longrightarrow>
         remote ?w' = apply_writes (written (new_events w0 ?w')) (remote w0))"
    by (simp add: stamps_and_replaces_def Let_def)
  with quiet have "stamped w0 ?w' ?d" and "remote ?w' = apply_writes [((''u1'', ''favorites''), ?d)] (remote w0)"
    unfolding written by simp_all
  then show ?thesis
    using written by simp
qed


section \<open>Upload, then download\<close>

lemma reflp_stays_mirrored: "reflp (stays_mirrored u w)"
  by (rule reflpI) (simp add: stays_mirrored_def)

lemma transp_stays_mirrored: "transp (stays_mirrored u w)"
  by (rule transpI) (simp add: stays_mirrored_def)

lemma slot_default_same: "defaults b = defaults a \<Longrightarrow> slot_default b s = slot_default a s"
  by (cases s) simp_all

lemma read_slot_same:
  "store b = store a \<Longrightarrow> defaults b = defaults a \<Longrightarrow> read_slot s b = read_slot s a"
  by (simp add: read_slot_def loadFromLocalStorage_def slot_default_same [of b a])

lemma read_slot_saved:
  "read_slot s' (a\<lparr>store := (store a)(s \<mapsto> v)\<rparr>) = (if s' = s then v else read_slot s' a)"
  by (simp add: read_slot_def loadFromLocalStorage_def slot_default_same [of "a\<lparr>store := (store a)(s \<mapsto> v)\<rparr>" a])

lemma mirrored_local_view: "local_view b = local_view a \<Longrightarrow> mirrored u w a \<Longrightarrow> mirrored u w b"
  by (simp add: local_view_def mirrored_def restored_def read_slot_same [of b a])

lemma stays_of_same: "always (same local_view) m \<Longrightarrow> always (stays_mirrored u w) m"
  by (auto simp: always_def same_def stays_mirrored_def intro: mirrored_local_view)

lemma view_leaves:
  "always (same local_view) new_Date"
  "always (same local_view) generated_id"
  "always (same local_view) (getDoc ref)"
  "always (same local_view) (external e ev)"
  "always (same local_view) (emit ev)"
  "always (same local_view) (saveRecipe r)"
  "always (same local_view) (saveTemplate r)"
  by (simp_all add: always_def same_def local_view_def new_Date_def generated_id_def getDoc_apply
      external_def emit_def saveRecipe_def saveTemplate_def andThen_def Let_def)

lemma view_save_each:
  assumes "\<And>r. always (same local_view) (save r)"
  shows "always (same local_view) (save_each save xs)"
proof (induction xs)
  case Nil
  show ?case by (simp add: always_pure rel_props)
next
  case (Cons x xs)
  show ?case
    unfolding save_each.simps with_id_def
    by (intro always_intros rel_props view_leaves assms Cons.IH)
qed

lemma view_merge_items:
  assumes "\<And>r. always (same local_view) (save r)"
  shows "always (same local_view) (merge_items save snap)"
  unfolding merge_items_def
  by (intro always_intros rel_props view_save_each assms)

lemma restored_save:
  assumes "restored w a" and "s \<noteq> LAST_SYNC_TIME" and "v = read_slot s w"
  shows "restored w (a\<lparr>store := (store a)(s \<mapsto> v)\<rparr>)"
  using assms by (simp add: restored_def read_slot_saved)

lemma stays_save_slot:
  "s \<noteq> LAST_SYNC_TIME \<Longrightarrow> v = read_slot s w \<Longrightarrow> always (stays_mirrored u w) (save_slot s v)"
  by (simp add: always_def stays_mirrored_def mirrored_def save_slot_def restored_save)

lemma stays_saveToLocalStorage:
  "s \<noteq> LAST_SYNC_TIME \<Longrightarrow> v = read_slot s w \<Longrightarrow>
   always (stays_mirrored u w) (saveToLocalStorage s v)"
  by (simp add: always_def stays_mirrored_def mirrored_def saveToLocalStorage_def restored_save)

lemma always_only_if_cond: "reflp R \<Longrightarrow> (b \<Longrightarrow> always R m) \<Longrightarrow> always R (only_if b m)"
  by (cases b) (simp_all add: only_if_def always_pure)

lemma andThen_pure: "andThen (pure x) f = f x"
  by (simp add: andThen_def pure_def)

lemma field_profileDoc:
  "field (profileDoc w s) ''userProfile'' = read_slot USER_PROFILE w"
  "field (profileDoc w s) ''dailyTarget'' = read_slot DAILY_TARGET w"
  "field (profileDoc w s) ''macroGoals'' = read_slot MACRO_GOALS w"
  "field (profileDoc w s) ''micronutrientGoals'' = read_slot MICRONUTRIENT_GOALS w"
  "field (profileDoc w s) ''preferences'' = read_slot PREFERENCES w"
  "field (profileDoc w s) ''onboarding'' = read_slot ONBOARDING w"
  by (simp_all add: field_def profileDoc_def read_slot_def loadUserProfile_def loadDailyTarget_def
      loadMacroGoals_def loadMicronutrientGoals_def loadPreferences_def load_slot_def)

lemma stays_hydrate_profile:
  assumes "truthy (read_slot ONBOARDING w) \<longrightarrow> read_slot ONBOARDING w = JBool True"
  shows "always (stays_mirrored u w) (hydrate_profile (profileDoc w s))"
  unfolding hydrate_profile_def field_profileDoc saver_defs
  using assms
  by (intro always_andThen always_only_if_cond stays_save_slot reflp_stays_mirrored
      transp_stays_mirrored) simp_all

lemma stays_hydrate_today:
  "always (stays_mirrored u w)
     (hydrate_today (day_entry (read_slot FOOD_LOG w) (read_slot EXERCISE_LOG w)
        (read_slot WATER_LOG w)))"
proof -
  have props: "lift (get_prop (day_entry es xs wt) ''entries'') = pure es"
    "lift (get_prop (day_entry es xs wt) ''exercise'') = pure xs"
    "lift (get_prop (day_entry es xs wt) ''water'') = pure wt" for es xs wt
    by (simp_all add: day_entry_def field_def lift_def pure_def)
  show ?thesis
    unfolding hydrate_today_def props andThen_pure saver_defs
    by (intro always_andThen always_only_if_cond stays_save_slot reflp_stays_mirrored
        transp_stays_mirrored) simp_all
qed

lemma field_foodLogDoc:
  "today \<noteq> ''updatedAt'' \<Longrightarrow>
   field (foodLogDoc w today s) today =
     day_entry (read_slot FOOD_LOG w) (read_slot EXERCISE_LOG w) (read_slot WATER_LOG w)"
  by (simp add: field_def foodLogDoc_def update_conv' read_slot_def)

lemma stays_hydrate_foodLog:
  assumes "\<forall>m n. today_key (clock w m) = today_key (clock w n)"
  shows "always (stays_mirrored u w) (hydrate_foodLog (foodLogDoc w (today_key (clock w k)) s))"
  unfolding always_def stays_mirrored_def
proof (intro allI impI)
  fix a
  assume m: "mirrored u w a"
  let ?a1 = "a\<lparr>ticks := Suc (ticks a)\<rparr>"
  let ?entry = "day_entry (read_slot FOOD_LOG w) (read_slot EXERCISE_LOG w) (read_slot WATER_LOG w)"
  have "clock a = clock w"
    using m by (simp add: mirrored_def restored_def)
  then have today: "today_key (clock a (ticks a)) = today_key (clock w k)"
    using assms by simp
  have "field (foodLogDoc w (today_key (clock w k)) s) (today_key (clock w k)) = ?entry"
    by (rule field_foodLogDoc) (rule today_key_not_updatedAt)
  then have run: "hydrate_foodLog (foodLogDoc w (today_key (clock w k)) s) a = hydrate_today ?entry ?a1"
    by (simp add: hydrate_foodLog_def andThen_def new_Date_def today only_if_def day_entry_def)
  have "local_view ?a1 = local_view a"
    by (simp add: local_view_def)
  then have "mirrored u w ?a1"
    using m by (rule mirrored_local_view)
  with alwaysD [OF stays_hydrate_today, of u w ?a1]
  show "mirrored u w (snd (hydrate_foodLog (foodLogDoc w (today_key (clock w k)) s) a))"
    by (simp add: run stays_mirrored_def)
qed

lemma strip_spread: "plain_object h \<Longrightarrow> without_updatedAt (spread_doc h s) = h"
  by (cases h) (simp_all add: without_updatedAt_def spread_doc_def delete_update_same)

lemma items_back: "truthy v \<Longrightarrow> or_else (field (items_doc v s) ''items'') (JArr []) = v"
  by (simp add: or_else_def field_def items_doc_def)

lemma stays_hydrate_items:
  "s \<noteq> LAST_SYNC_TIME \<Longrightarrow> truthy (read_slot s w) \<Longrightarrow>
   always (stays_mirrored u w) (hydrate_items s (items_doc (read_slot s w) t))"
  unfolding hydrate_items_def
  by (intro always_andThen always_pure stays_saveToLocalStorage reflp_stays_mirrored
      transp_stays_mirrored) (simp_all add: items_back)

lemma loaders_read:
  "loadWeeklyHistory w = read_slot WEEKLY_HISTORY w"
  "loadFromLocalStorage FOOD_HISTORY (JObj []) w = read_slot FOOD_HISTORY w"
  "loadStreakData w = read_slot STREAK_DATA w"
  "loadFavoriteFoods w = read_slot FAVORITE_FOODS w"
  "loadRecentFoods w = read_slot RECENT_FOODS w"
  "loadWeightLog w = read_slot WEIGHT_LOG w"
  by (simp_all add: read_slot_def loadWeeklyHistory_def loadStreakData_def loadFavoriteFoods_def
      loadRecentFoods_def loadWeightLog_def load_slot_def)

lemma stays_hydrate_slots:
  assumes "local_shapes_ok w" and "\<forall>m n. today_key (clock w m) = today_key (clock w n)"
  shows "always (stays_mirrored u w)
     (hydrate_slots (Some (profileDoc w s1))
        (Some (foodLogDoc w (today_key (clock w k)) s3))
        (Some (spread_doc (read_slot WEEKLY_HISTORY w) s4))
        (Some (spread_doc (read_slot FOOD_HISTORY w) s5))
        (Some (items_doc (read_slot FAVORITE_FOODS w) s6))
        (Some (items_doc (read_slot RECENT_FOODS w) s7))
        (Some (items_doc (read_slot WEIGHT_LOG w) s8))
        (Some (spread_doc (read_slot STREAK_DATA w) s9)))"
proof -
  have plain: "plain_object (read_slot WEEKLY_HISTORY w)" "plain_object (read_slot FOOD_HISTORY w)"
      "plain_object (read_slot STREAK_DATA w)"
    and lists: "truthy (read_slot FAVORITE_FOODS w)" "truthy (read_slot RECENT_FOODS w)"
      "truthy (read_slot WEIGHT_LOG w)"
    and flag: "truthy (read_slot ONBOARDING w) \<longrightarrow> read_slot ONBOARDING w = JBool True"
    using assms(1) by (simp_all add: local_shapes_ok_def)
  show ?thesis
    unfolding hydrate_slots_def if_exists_def option.case strip_spread [OF plain(1)]
      strip_spread [OF plain(2)] strip_spread [OF plain(3)] saveWeeklyHistory_def
    by (intro always_andThen always_pure stays_hydrate_profile [OF flag]
        stays_hydrate_foodLog [OF assms(2)] stays_hydrate_items stays_save_slot
        stays_saveToLocalStorage lists reflp_stays_mirrored transp_stays_mirrored) simp_all
qed

lemma mirrored_batch:
  assumes "mirrored u w a"
  shows "remote a (u, ''profile'') = Some (profileDoc w (toISOString (clock w (ticks w))))"
    "remote a (u, ''foodLog'') =
       Some (foodLogDoc w (today_key (clock w (ticks w + 1))) (toISOString (clock w (ticks w + 2))))"
    "remote a (u, ''history'') =
       Some (spread_doc (read_slot WEEKLY_HISTORY w) (toISOString (clock w (ticks w + 3))))"
    "remote a (u, ''foodHistory'') =
       Some (spread_doc (read_slot FOOD_HISTORY w) (toISOString (clock w (ticks w + 4))))"
    "remote a (u, ''favorites'') =
       Some (items_doc (read_slot FAVORITE_FOODS w) (toISOString (clock w (ticks w + 5))))"
    "remote a (u, ''recentFoods'') =
       Some (items_doc (read_slot RECENT_FOODS w) (toISOString (clock w (ticks w + 6))))"
    "remote a (u, ''weightLog'') =
       Some (items_doc (read_slot WEIGHT_LOG w) (toISOString (clock w (ticks w + 7))))"
    "remote a (u, ''streakData'') =
       Some (spread_doc (read_slot STREAK_DATA w) (toISOString (clock w (ticks w + 8))))"
  using assms
  by (simp_all add: mirrored_def local_batch_def upload_batch_def loaders_read)

lemma stays_getDoc_known:
  assumes "\<And>a. mirrored u w a \<Longrightarrow> remote a ref = snap"
    and "always (stays_mirrored u w) (f snap)"
  shows "always (stays_mirrored u w) (andThen (getDoc ref) f)"
  unfolding always_def stays_mirrored_def
proof (intro allI impI)
  fix a
  assume m: "mirrored u w a"
  let ?a1 = "a\<lparr>calls := Suc (calls a), trace := trace a @ [RGet ref]\<rparr>"
  have "local_view ?a1 = local_view a"
    by (simp add: local_view_def)
  then have m1: "mirrored u w ?a1"
    using m by (rule mirrored_local_view)
  show "mirrored u w (snd (andThen (getDoc ref) f a))"
  proof (cases "faults a (calls a)")
    case True
    with m1 show ?thesis
      by (simp add: andThen_def getDoc_apply)
  next
    case False
    have "mirrored u w (snd (f snap ?a1))"
      using alwaysD [OF assms(2), of ?a1] m1 by (simp add: stays_mirrored_def)
    with False assms(1) [OF m] show ?thesis
      by (simp add: andThen_def getDoc_apply)
  qed
qed

lemma stays_download_pass:
  assumes "local_shapes_ok w" and "\<forall>m n. today_key (clock w m) = today_key (clock w n)"
  shows "always (stays_mirrored u w) (download_pass u)"
  unfolding download_pass_def
  apply (rule stays_getDoc_known, erule mirrored_batch(1))
  apply (rule stays_getDoc_known, erule mirrored_batch(2))
  apply (rule stays_getDoc_known, erule mirrored_batch(3))
  apply (rule stays_getDoc_known, erule mirrored_batch(4))
  apply (rule stays_getDoc_known, erule mirrored_batch(5))
  apply (rule stays_getDoc_known, erule mirrored_batch(6))
  apply (rule stays_getDoc_known, erule mirrored_batch(7))
  apply (rule stays_getDoc_known, erule mirrored_batch(8))
  apply (intro always_andThen reflp_stays_mirrored transp_stays_mirrored
      stays_hydrate_slots [OF assms] stays_of_same view_leaves view_merge_items)
  done

lemma read_slot_updated:
  "store b = (store a)(s \<mapsto> v) \<Longrightarrow> defaults b = defaults a \<Longrightarrow>
   read_slot s' b = (if s' = s then v else read_slot s' a)"
  by (simp add: read_slot_def loadFromLocalStorage_def slot_default_same [of b a])

lemma stays_mark_synced: "always (stays_mirrored u w) mark_synced"
  unfolding always_def stays_mirrored_def
proof (intro allI impI)
  fix a
  assume m: "mirrored u w a"
  let ?b = "snd (mark_synced a)"
  have b: "store ?b = (store a)(LAST_SYNC_TIME \<mapsto> JStr (toISOString (clock a (ticks a))))"
      "defaults ?b = defaults a" "clock ?b = clock a" "remote ?b = remote a"
    by (simp_all add: mark_synced_apply)
  have "read_slot s ?b = read_slot s a" if "s \<noteq> LAST_SYNC_TIME" for s
    using read_slot_updated [OF b(1,2), of s] that by simp
  with m b show "mirrored u w ?b"
    by (simp add: mirrored_def restored_def)
qed

lemma stays_syncFromCloud:
  assumes "local_shapes_ok w" and "\<forall>m n. today_key (clock w m) = today_key (clock w n)"
  shows "always (stays_mirrored u w) (syncFromCloud u)"
  unfolding syncFromCloud_def console_error_def
  by (intro always_guard always_andThen always_try_catch reflp_stays_mirrored
      transp_stays_mirrored stays_download_pass [OF assms] stays_mark_synced stays_of_same
      view_leaves)

lemma stays_setDoc_other:
  "ref \<notin> fst ` set (local_batch u w) \<Longrightarrow> always (stays_mirrored u w) (setDoc ref d)"
  unfolding always_def stays_mirrored_def
proof (intro allI impI)
  fix a
  assume other: "ref \<notin> fst ` set (local_batch u w)" and m: "mirrored u w a"
  let ?b = "snd (setDoc ref d a)"
  have b: "store ?b = store a" "defaults ?b = defaults a" "clock ?b = clock a"
    and r: "remote ?b = remote a \<or> remote ?b = (remote a)(ref \<mapsto> d)"
    by (simp_all add: setDoc_apply)
  have "remote ?b ref' = remote a ref'" if "(ref', d') \<in> set (local_batch u w)" for ref' d'
  proof -
    from that other have "ref' \<noteq> ref" by force
    with r show ?thesis by auto
  qed
  with m b show "mirrored u w ?b"
    by (auto simp: mirrored_def restored_def read_slot_same [of ?b a])
qed

lemma batch_refs:
  "fst ` set (local_batch u w) =
     {(u, ''profile''), (u, ''foodLog''), (u, ''history''), (u, ''foodHistory''),
      (u, ''favorites''), (u, ''recentFoods''), (u, ''weightLog''), (u, ''streakData'')}"
  by (simp add: local_batch_def upload_batch_def)

lemma stays_upload_recipes_templates:
  "always (stays_mirrored u w) (upload_recipes_templates u)"
  unfolding upload_recipes_templates_def syncRecipesToCloud_def syncTemplatesToCloud_def
    console_error_def getAllRecipes_def getAllTemplates_def
  by (intro always_guard always_andThen always_try_catch always_lift reflp_stays_mirrored
      transp_stays_mirrored stays_setDoc_other stays_of_same view_leaves)
    (simp_all add: batch_refs always_def same_def)

lemma committed_mirrors:
  assumes "\<not> faults w (calls w)"
  shows "mirrored u w (snd (commit_local u w))"
proof -
  let ?b = "snd (commit_local u w)"
  have b: "store ?b = store w" "defaults ?b = defaults w" "clock ?b = clock w"
    and r: "remote ?b = apply_writes (local_batch u w) (remote w)"
    using assms by (simp_all add: commit_local_apply)
  have "\<forall>(ref, d)\<in>set (local_batch u w). remote ?b ref = Some d"
    unfolding r by (simp add: local_batch_def upload_batch_def)
  with b show ?thesis
    by (simp add: mirrored_def restored_def read_slot_same [of ?b w])
qed

lemma upload_mirrors:
  assumes "db w" and "configured w" and "\<not> faults w (calls w)"
  shows "mirrored u w (snd (uploadLocalToCloud u w))"
proof -
  let ?w1 = "snd (commit_local u w)"
  let ?w2 = "snd (mark_synced ?w1)"
  have committed: "fst (commit_local u w) = Inr ()"
    using assms(3) by (simp add: commit_local_apply)
  have run: "uploadLocalToCloud u w = upload_recipes_templates u ?w2"
    using assms(1,2) committed
    by (cases "commit_local u w") (simp add: uploadLocalToCloud_def andThen_def mark_synced_apply)
  have "mirrored u w ?w1"
    using assms(3) by (rule committed_mirrors)
  then have "mirrored u w ?w2"
    using alwaysD [OF stays_mark_synced, of u w ?w1] by (simp add: stays_mirrored_def)
  then show ?thesis
    using alwaysD [OF stays_upload_recipes_templates, of u w ?w2]
    by (simp add: run stays_mirrored_def)
qed

lemma cycle_restores:
  assumes "db w" and "configured w" and "\<not> faults w (calls w)"
    and "\<forall>m n. today_key (clock w m) = today_key (clock w n)" and "local_shapes_ok w"
  shows "restored w (upload_then_download u w)"
proof -
  have "mirrored u w (snd (uploadLocalToCloud u w))"
    using assms(1-3) by (rule upload_mirrors)
  then have "mirrored u w (upload_then_download u w)"
    using alwaysD [OF stays_syncFromCloud [OF assms(5,4)], of u "snd (uploadLocalToCloud u w)"]
    by (simp add: stays_mirrored_def upload_then_download_def)
  then show ?thesis
    by (simp add: mirrored_def)
qed

subsection \<open>The last-synced timestamp\<close>

lemma reflp_later: "reflp later"
  by (rule reflpI) (simp add: later_def)

lemma transp_later: "transp later"
  by (rule transpI) (simp add: later_def)

lemma later_leaves:
  "always later new_Date"
  "always later generated_id"
  "always later (getDoc ref)"
  "always later (external e ev)"
  "always later (emit ev)"
  "always later (save_slot s v)"
  "always later (saveToLocalStorage s v)"
  "always later (saveRecipe r)"
  "always later (saveTemplate r)"
  by (simp_all add: always_def later_def new_Date_def generated_id_def getDoc_apply external_def
      emit_def save_slot_def saveToLocalStorage_def saveRecipe_def saveTemplate_def andThen_def
      Let_def)

lemma later_save_each:
  assumes "\<And>r. always later (save r)"
  shows "always later (save_each save xs)"
proof (induction xs)
  case Nil
  show ?case by (simp add: always_pure reflp_later)
next
  case (Cons x xs)
  show ?case
    unfolding save_each.simps with_id_def
    by (intro always_intros reflp_later transp_later later_leaves assms Cons.IH)
qed

lemma later_download_pass: "always later (download_pass u)"
  unfolding download_pass_def hydrate_defs saver_defs
  by (intro always_intros reflp_later transp_later later_leaves later_save_each)

lemma later_of_stamps: "stamps_writes a b \<Longrightarrow> later a b"
  by (simp add: stamps_writes_def later_def)

lemma cycle_timestamp:
  assumes "db w" and "configured w" and "\<not> faults w (calls w)"
  shows "\<exists>k. ticks w + 9 \<le> k \<and> k < ticks (upload_then_download u w) \<and>
           store (upload_then_download u w) LAST_SYNC_TIME =
             Some (JStr (toISOString (clock w k)))"
proof -
  let ?w1 = "snd (commit_local u w)"
  let ?w2 = "snd (mark_synced ?w1)"
  let ?w3 = "snd (uploadLocalToCloud u w)"
  have committed: "fst (commit_local u w) = Inr ()"
    using assms(3) by (simp add: commit_local_apply)
  have run: "uploadLocalToCloud u w = upload_recipes_templates u ?w2"
    using assms(1,2) committed
    by (cases "commit_local u w") (simp add: uploadLocalToCloud_def andThen_def mark_synced_apply)
  have w2: "clock ?w2 = clock w" "ticks ?w2 = ticks w + 10"
    by (simp_all add: commit_local_apply mark_synced_apply)
  have "later ?w2 ?w3"
    unfolding run by (rule later_of_stamps [OF alwaysD [OF stamps_upload_recipes_templates]])
  with w2 have w3: "clock ?w3 = clock w" "ticks w + 10 \<le> ticks ?w3"
    by (simp_all add: later_def)
  have mark: "store ?w3 LAST_SYNC_TIME = Some (JStr (toISOString (clock w (ticks w + 9))))"
    using uploadLocalToCloud_run [OF assms(1,2), of u] assms(3) by (simp add: Let_def)
  show ?thesis
  proof (cases "db ?w3 \<and> configured ?w3")
    case False
    then have "syncFromCloud u ?w3 = (Inr (), ?w3)"
      by (auto simp: syncFromCloud_def)
    with mark w3 show ?thesis
      by (intro exI [of _ "ticks w + 9"]) (simp add: upload_then_download_def)
  next
    case True
    obtain r b where pass: "download_pass u ?w3 = (r, b)"
      by (cases "download_pass u ?w3")
    have keep: "store b LAST_SYNC_TIME = store ?w3 LAST_SYNC_TIME"
      using alwaysD [OF keeps_last_sync_download_pass [of u], of ?w3] pass by (simp add: same_def)
    have "later ?w3 b"
      using alwaysD [OF later_download_pass [of u], of ?w3] pass by simp
    with w3 have b: "clock b = clock w" "ticks w + 10 \<le> ticks b"
      by (simp_all add: later_def)
    show ?thesis
    proof (cases r)
      case (Inl e)
      with True pass keep mark b show ?thesis
        by (intro exI [of _ "ticks w + 9"])
          (simp add: upload_then_download_def syncFromCloud_apply)
    next
      case (Inr x)
      with True pass b show ?thesis
        by (intro exI [of _ "ticks b"])
          (simp add: upload_then_download_def syncFromCloud_apply mark_synced_apply)
    qed
  qed
qed

subsection \<open>Recipes and templates are merged\<close>

lemma upsert_ids: "id_of ` set (upsert r xs) = insert (id_of r) (id_of ` set xs)"
  by (induction xs) auto

lemma reflp_ids_kept: "reflp ids_kept"
  by (rule reflpI) (simp add: ids_kept_def)

lemma transp_ids_kept: "transp ids_kept"
proof (rule transpI)
  fix x y z
  assume "ids_kept x y" and "ids_kept y z"
  then have r: "id_of ` set (recipes x) \<subseteq> id_of ` set (recipes y)"
      "id_of ` set (recipes y) \<subseteq> id_of ` set (recipes z)"
    and t: "id_of ` set (templates x) \<subseteq> id_of ` set (templates y)"
      "id_of ` set (templates y) \<subseteq> id_of ` set (templates z)"
    by (simp_all add: ids_kept_def)
  from order_trans [OF r] order_trans [OF t] show "ids_kept x z"
    by (simp add: ids_kept_def)
qed

lemma ids_leaves:
  "always ids_kept new_Date"
  "always ids_kept generated_id"
  "always ids_kept (getDoc ref)"
  "always ids_kept (setDoc ref d)"
  "always ids_kept (external e ev)"
  "always ids_kept (emit ev)"
  "always ids_kept (save_slot s v)"
  "always ids_kept (saveToLocalStorage s v)"
  "always ids_kept getAllRecipes"
  "always ids_kept getAllTemplates"
  "always ids_kept (saveRecipe r)"
  "always ids_kept (saveTemplate r)"
  "always ids_kept mark_synced"
  "always ids_kept (commit_local u)"
  by (auto simp: always_def ids_kept_def new_Date_def generated_id_def getDoc_apply setDoc_apply
      external_def emit_def save_slot_def saveToLocalStorage_def getAllRecipes_def
      getAllTemplates_def saveRecipe_def saveTemplate_def mark_synced_apply commit_local_apply
      andThen_def Let_def upsert_ids)

lemma ids_save_each:
  assumes "\<And>r. always ids_kept (save r)"
  shows "always ids_kept (save_each save xs)"
proof (induction xs)
  case Nil
  show ?case by (simp add: always_pure reflp_ids_kept)
next
  case (Cons x xs)
  show ?case
    unfolding save_each.simps with_id_def
    by (intro always_intros reflp_ids_kept transp_ids_kept ids_leaves assms Cons.IH)
qed

lemma ids_uploadLocalToCloud: "always ids_kept (uploadLocalToCloud u)"
  unfolding uploadLocalToCloud_def upload_recipes_templates_def syncRecipesToCloud_def
    syncTemplatesToCloud_def console_error_def
  by (intro always_guard always_intros reflp_ids_kept transp_ids_kept ids_leaves)

lemma ids_syncFromCloud: "always ids_kept (syncFromCloud u)"
  unfolding syncFromCloud_def download_pass_def hydrate_defs saver_defs console_error_def
  by (intro always_guard always_intros reflp_ids_kept transp_ids_kept ids_leaves ids_save_each)

lemma cycle_keeps_ids: "ids_kept w (upload_then_download u w)"
proof -
  have "ids_kept w (snd (uploadLocalToCloud u w))"
    by (rule alwaysD [OF ids_uploadLocalToCloud])
  moreover have "ids_kept (snd (uploadLocalToCloud u w)) (upload_then_download u w)"
    unfolding upload_then_download_def by (rule alwaysD [OF ids_syncFromCloud])
  ultimately show ?thesis
    using transp_ids_kept by (blast dest: transpD)
qed

lemma saved_append:
  "saved_recipes (es @ es') = saved_recipes es @ saved_recipes es'"
  "saved_templates (es @ es') = saved_templates es @ saved_templates es'"
  by (simp_all add: saved_recipes_def saved_templates_def)

lemma upserted_refl: "upserted a a"
  unfolding upserted_def
  by (rule exI [of _ "[]"], rule exI [of _ "[]"], rule exI [of _ "[]"]) simp

lemma reflp_upserted: "reflp upserted"
  by (rule reflpI) (simp add: upserted_refl)

lemma transp_upserted: "transp upserted"
proof (rule transpI)
  fix a b c
  assume "upserted a b" and "upserted b c"
  then obtain es rs ts es' rs' ts' where
    1: "trace b = trace a @ es" "set rs \<subseteq> set (saved_recipes es)"
       "set ts \<subseteq> set (saved_templates es)" "recipes b = fold upsert rs (recipes a)"
       "templates b = fold upsert ts (templates a)"
    and 2: "trace c = trace b @ es'" "set rs' \<subseteq> set (saved_recipes es')"
       "set ts' \<subseteq> set (saved_templates es')" "recipes c = fold upsert rs' (recipes b)"
       "templates c = fold upsert ts' (templates b)"
    unfolding upserted_def by blast
  show "upserted a c"
    unfolding upserted_def
  proof (rule exI [of _ "es @ es'"], rule exI [of _ "rs @ rs'"], rule exI [of _ "ts @ ts'"],
      intro conjI)
    show "trace c = trace a @ es @ es'"
      using 1(1) 2(1) by simp
    show "set (rs @ rs') \<subseteq> set (saved_recipes (es @ es'))"
      using 1(2) 2(2) by (auto simp: saved_append)
    show "set (ts @ ts') \<subseteq> set (saved_templates (es @ es'))"
      using 1(3) 2(3) by (auto simp: saved_append)
    show "recipes c = fold upsert (rs @ rs') (recipes a)"
      using 1(4) 2(4) by simp
    show "templates c = fold upsert (ts @ ts') (templates a)"
      using 1(5) 2(5) by simp
  qed
qed

lemma upserted_quiet:
  assumes "\<And>w. recipes (snd (m w)) = recipes w" and "\<And>w. templates (snd (m w)) = templates w"
    and "\<And>w. \<exists>es. trace (snd (m w)) = trace w @ es"
  shows "always upserted m"
  unfolding always_def upserted_def
proof
  fix w
  from assms(3) [of w] obtain es where "trace (snd (m w)) = trace w @ es"
    by blast
  then show "\<exists>es rs ts. trace (snd (m w)) = trace w @ es \<and>
        set rs \<subseteq> set (saved_recipes es) \<and> set ts \<subseteq> set (saved_templates es) \<and>
        recipes (snd (m w)) = fold upsert rs (recipes w) \<and>
        templates (snd (m w)) = fold upsert ts (templates w)"
    by (intro exI [of _ es], intro exI [of _ "[]"]) (simp add: assms)
qed

lemma upserted_leaves:
  "always upserted new_Date"
  "always upserted generated_id"
  "always upserted (getDoc ref)"
  "always upserted (setDoc ref d)"
  "always upserted (emit ev)"
  "always upserted (save_slot s v)"
  "always upserted (saveToLocalStorage s v)"
  "always upserted getAllRecipes"
  "always upserted getAllTemplates"
  "always upserted mark_synced"
  "always upserted (commit_local u)"
  by (rule upserted_quiet;
      simp add: new_Date_def generated_id_def getDoc_apply setDoc_apply emit_def save_slot_def
        saveToLocalStorage_def getAllRecipes_def getAllTemplates_def mark_synced_apply
        commit_local_apply external_def andThen_def Let_def)+

lemma upserted_saveRecipe: "always upserted (saveRecipe r)"
  unfolding always_def upserted_def
proof
  fix w
  show "\<exists>es rs ts. trace (snd (saveRecipe r w)) = trace w @ es \<and>
        set rs \<subseteq> set (saved_recipes es) \<and> set ts \<subseteq> set (saved_templates es) \<and>
        recipes (snd (saveRecipe r w)) = fold upsert rs (recipes w) \<and>
        templates (snd (saveRecipe r w)) = fold upsert ts (templates w)"
    by (rule exI [of _ "[SaveRecipe r]"], rule exI [of _ "if faults w (calls w) then [] else [r]"],
        rule exI [of _ "[]"])
      (simp add: saveRecipe_def external_def andThen_def Let_def saved_recipes_def)
qed

lemma upserted_saveTemplate: "always upserted (saveTemplate r)"
  unfolding always_def upserted_def
proof
  fix w
  show "\<exists>es rs ts. trace (snd (saveTemplate r w)) = trace w @ es \<and>
        set rs \<subseteq> set (saved_recipes es) \<and> set ts \<subseteq> set (saved_templates es) \<and>
        recipes (snd (saveTemplate r w)) = fold upsert rs (recipes w) \<and>
        templates (snd (saveTemplate r w)) = fold upsert ts (templates w)"
    by (rule exI [of _ "[SaveTemplate r]"], rule exI [of _ "[]"],
        rule exI [of _ "if faults w (calls w) then [] else [r]"])
      (simp add: saveTemplate_def external_def andThen_def Let_def saved_templates_def)
qed

lemma upserted_save_each:
  assumes "\<And>r. always upserted (save r)"
  shows "always upserted (save_each save xs)"
proof (induction xs)
  case Nil
  show ?case by (simp add: always_pure reflp_upserted)
next
  case (Cons x xs)
  show ?case
    unfolding save_each.simps with_id_def
    by (intro always_intros reflp_upserted transp_upserted upserted_leaves assms Cons.IH)
qed

lemma upserted_uploadLocalToCloud: "always upserted (uploadLocalToCloud u)"
  unfolding uploadLocalToCloud_def upload_recipes_templates_def syncRecipesToCloud_def
    syncTemplatesToCloud_def console_error_def
  by (intro always_guard always_intros reflp_upserted transp_upserted upserted_leaves)

lemma upserted_syncFromCloud: "always upserted (syncFromCloud u)"
  unfolding syncFromCloud_def download_pass_def hydrate_defs saver_defs console_error_def
  by (intro always_guard always_intros reflp_upserted transp_upserted upserted_leaves
      upserted_saveRecipe upserted_saveTemplate upserted_save_each)

lemma cycle_upserts: "upserted w (upload_then_download u w)"
proof -
  have "upserted w (snd (uploadLocalToCloud u w))"
    by (rule alwaysD [OF upserted_uploadLocalToCloud])
  moreover have "upserted (snd (uploadLocalToCloud u w)) (upload_then_download u w)"
    unfolding upload_then_download_def by (rule alwaysD [OF upserted_syncFromCloud])
  ultimately show ?thesis
    using transp_upserted by (blast dest: transpD)
qed

lemma with_id_has_id: "has_id item \<Longrightarrow> with_id item = pure item"
proof (cases item)
  case (JObj kvs)
  assume "has_id item"
  with JObj have "map_of kvs ''id'' = Some (field kvs ''id'')" and "truthy (field kvs ''id'')"
    by (auto simp: has_id_def field_def split: option.splits)
  then show ?thesis
    using JObj by (simp add: with_id_def lift_def andThen_def pure_def update_triv)
qed (simp_all add: has_id_def)

lemma save_each_saveRecipe:
  assumes "\<forall>k. \<not> faults a k" and "list_all has_id xs"
  shows "save_each saveRecipe xs a =
     (Inr (), a\<lparr>calls := calls a + length xs, trace := trace a @ map SaveRecipe xs,
                 recipes := fold upsert xs (recipes a)\<rparr>)"
  using assms
proof (induction xs arbitrary: a)
  case Nil
  show ?case by (simp add: pure_def)
next
  case (Cons x xs)
  let ?a1 = "a\<lparr>calls := Suc (calls a), trace := trace a @ [SaveRecipe x],
                recipes := upsert x (recipes a)\<rparr>"
  have step: "save_each saveRecipe (x # xs) a = save_each saveRecipe xs ?a1"
    using Cons.prems
    by (simp add: with_id_has_id saveRecipe_def external_def andThen_def pure_def Let_def)
  have "\<forall>k. \<not> faults ?a1 k" and "list_all has_id xs"
    using Cons.prems by simp_all
  from Cons.IH [OF this] show ?case
    unfolding step by simp
qed

lemma save_each_saveTemplate:
  assumes "\<forall>k. \<not> faults a k" and "list_all has_id xs"
  shows "save_each saveTemplate xs a =
     (Inr (), a\<lparr>calls := calls a + length xs, trace := trace a @ map SaveTemplate xs,
                 templates := fold upsert xs (templates a)\<rparr>)"
  using assms
proof (induction xs arbitrary: a)
  case Nil
  show ?case by (simp add: pure_def)
next
  case (Cons x xs)
  let ?a1 = "a\<lparr>calls := Suc (calls a), trace := trace a @ [SaveTemplate x],
                templates := upsert x (templates a)\<rparr>"
  have step: "save_each saveTemplate (x # xs) a = save_each saveTemplate xs ?a1"
    using Cons.prems
    by (simp add: with_id_has_id saveTemplate_def external_def andThen_def pure_def Let_def)
  have "\<forall>k. \<not> faults ?a1 k" and "list_all has_id xs"
    using Cons.prems by simp_all
  from Cons.IH [OF this] show ?case
    unfolding step by simp
qed

lemma merge_items_doc: "merge_items save (Some (items_doc (JArr xs) t)) = save_each save xs"
  by (cases xs)
    (simp_all add: merge_items_def if_exists_def only_if_def field_def items_doc_def
      get_prop_opt_def andThen_def lift_def)

lemma succeeds_pure: "succeeds (pure x)"
  by (simp add: succeeds_def pure_def)

lemma succeeds_andThen: "succeeds m \<Longrightarrow> (\<And>x. succeeds (f x)) \<Longrightarrow> succeeds (andThen m f)"
  unfolding succeeds_def andThen_def
proof
  fix w
  assume m: "\<forall>w. \<exists>x. fst (m w) = Inr x" and f: "\<And>x. \<forall>w. \<exists>y. fst (f x w) = Inr y"
  from m obtain x where "fst (m w) = Inr x"
    by blast
  then obtain w' where "m w = (Inr x, w')"
    by (cases "m w") simp
  with f [of x] show "\<exists>x. fst (case m w of (Inl e, w') \<Rightarrow> (Inl e, w') | (Inr x, w') \<Rightarrow> f x w') = Inr x"
    by simp
qed

lemma succeeds_only_if: "(b \<Longrightarrow> succeeds m) \<Longrightarrow> succeeds (only_if b m)"
  by (cases b) (simp_all add: only_if_def succeeds_pure)

lemma succeeds_if_exists: "(\<And>d. succeeds (f d)) \<Longrightarrow> succeeds (if_exists snap f)"
  by (cases snap) (simp_all add: if_exists_def succeeds_pure)

lemma succeeds_leaves:
  "succeeds new_Date"
  "succeeds (save_slot s v)"
  "succeeds (saveToLocalStorage s v)"
  by (auto simp: succeeds_def new_Date_def save_slot_def saveToLocalStorage_def)

lemma truthy_not_nullish: "truthy v \<Longrightarrow> \<not> nullish v"
  by (cases v) simp_all

lemma succeeds_get_prop: "truthy v \<Longrightarrow> succeeds (lift (get_prop v k))"
  by (simp add: succeeds_def lift_def get_prop_not_nullish truthy_not_nullish)

lemma succeeds_hydrate_slots: "succeeds (hydrate_slots s1 s2 s3 s4 s5 s6 s7 s8)"
  unfolding hydrate_defs saver_defs
  by (intro succeeds_andThen succeeds_only_if succeeds_if_exists succeeds_leaves succeeds_pure
      succeeds_get_prop)

lemma view_quiet_leaves:
  "always (same sync_view) new_Date"
  "always (same sync_view) (save_slot s v)"
  "always (same sync_view) (saveToLocalStorage s v)"
  by (simp_all add: always_def same_def sync_view_def new_Date_def save_slot_def
      saveToLocalStorage_def)

lemma view_hydrate_slots: "always (same sync_view) (hydrate_slots s1 s2 s3 s4 s5 s6 s7 s8)"
  unfolding hydrate_defs saver_defs
  by (intro always_intros rel_props view_quiet_leaves)

lemma hydrate_slots_run:
  "\<exists>b. hydrate_slots s1 s2 s3 s4 s5 s6 s7 s8 a = (Inr (), b) \<and> sync_view b = sync_view a"
proof -
  obtain r b where run: "hydrate_slots s1 s2 s3 s4 s5 s6 s7 s8 a = (r, b)"
    by (cases "hydrate_slots s1 s2 s3 s4 s5 s6 s7 s8 a")
  have "\<exists>x. fst (hydrate_slots s1 s2 s3 s4 s5 s6 s7 s8 a) = Inr x"
    using succeeds_hydrate_slots unfolding succeeds_def by blast
  then have "r = Inr ()"
    using run by simp
  moreover have "sync_view b = sync_view a"
    using alwaysD [OF view_hydrate_slots [of s1 s2 s3 s4 s5 s6 s7 s8], of a] run
    by (simp add: same_def)
  ultimately show ?thesis
    using run by simp
qed

lemma saved_map:
  "saved_recipes (map SaveRecipe xs) = xs"
  "saved_templates (map SaveTemplate xs) = xs"
  "saved_recipes (map SaveTemplate xs) = []"
  "saved_templates (map SaveRecipe xs) = []"
  by (induction xs) (simp_all add: saved_recipes_def saved_templates_def)

lemma saved_Cons:
  "saved_recipes (e # es) = saved_recipe e @ saved_recipes es"
  "saved_templates (e # es) = saved_template e @ saved_templates es"
  "saved_recipes [] = []"
  "saved_templates [] = []"
  by (simp_all add: saved_recipes_def saved_templates_def)

lemma andThen_run: "m w = (Inr x, w') \<Longrightarrow> f x w' = r \<Longrightarrow> andThen m f w = r"
  by (simp add: andThen_def)

lemma download_pass_run:
  assumes nf: "\<forall>k. \<not> faults a k"
    and rdoc: "remote a (u, ''recipes'') = Some (items_doc (JArr xs) sr)"
    and tdoc: "remote a (u, ''templates'') = Some (items_doc (JArr ys) st)"
    and ids: "list_all has_id xs" "list_all has_id ys"
  shows "\<exists>b es. download_pass u a = (Inr (), b) \<and>
           recipes b = fold upsert xs (recipes a) \<and>
           templates b = fold upsert ys (templates a) \<and>
           trace b = trace a @ es \<and> saved_recipes es = xs \<and> saved_templates es = ys"
proof -
  let ?a1 = "a\<lparr>calls := Suc (Suc (Suc (Suc (Suc (Suc (Suc (Suc (calls a)))))))),
                trace := trace a @ [RGet (u, ''profile''), RGet (u, ''foodLog''),
                  RGet (u, ''history''), RGet (u, ''foodHistory''), RGet (u, ''favorites''),
                  RGet (u, ''recentFoods''), RGet (u, ''weightLog''), RGet (u, ''streakData'')]\<rparr>"
  let ?tail = "andThen (getDoc (u, ''recipes'')) (\<lambda>recipesSnap.
     andThen (merge_items saveRecipe recipesSnap) (\<lambda>_.
     andThen (getDoc (u, ''templates'')) (\<lambda>templatesSnap.
     merge_items saveTemplate templatesSnap)))"
  have split: "download_pass u a =
      andThen (hydrate_slots (remote a (u, ''profile'')) (remote a (u, ''foodLog''))
                 (remote a (u, ''history'')) (remote a (u, ''foodHistory''))
                 (remote a (u, ''favorites'')) (remote a (u, ''recentFoods''))
                 (remote a (u, ''weightLog'')) (remote a (u, ''streakData''))) (\<lambda>_. ?tail) ?a1"
    using nf by (simp add: download_pass_def andThen_def getDoc_apply)
  obtain a2 where hyd: "hydrate_slots (remote a (u, ''profile'')) (remote a (u, ''foodLog''))
                 (remote a (u, ''history'')) (remote a (u, ''foodHistory''))
                 (remote a (u, ''favorites'')) (remote a (u, ''recentFoods''))
                 (remote a (u, ''weightLog'')) (remote a (u, ''streakData'')) ?a1 = (Inr (), a2)"
    and "sync_view a2 = sync_view ?a1"
    using hydrate_slots_run by blast
  then have a2: "remote a2 = remote a" "recipes a2 = recipes a" "templates a2 = templates a"
      "faults a2 = faults a" "trace a2 = trace ?a1"
    by (simp_all add: sync_view_def)
  let ?a3 = "a2\<lparr>calls := Suc (calls a2), trace := trace a2 @ [RGet (u, ''recipes'')]\<rparr>"
  let ?a4 = "?a3\<lparr>calls := calls ?a3 + length xs, trace := trace ?a3 @ map SaveRecipe xs,
                 recipes := fold upsert xs (recipes ?a3)\<rparr>"
  let ?a5 = "?a4\<lparr>calls := Suc (calls ?a4), trace := trace ?a4 @ [RGet (u, ''templates'')]\<rparr>"
  let ?a6 = "?a5\<lparr>calls := calls ?a5 + length ys, trace := trace ?a5 @ map SaveTemplate ys,
                 templates := fold upsert ys (templates ?a5)\<rparr>"
  have g1: "getDoc (u, ''recipes'') a2 = (Inr (Some (items_doc (JArr xs) sr)), ?a3)"
    using nf by (simp add: getDoc_apply a2 rdoc)
  have m1: "merge_items saveRecipe (Some (items_doc (JArr xs) sr)) ?a3 = (Inr (), ?a4)"
    unfolding merge_items_doc
    by (rule save_each_saveRecipe) (simp_all add: a2 nf ids)
  have g2: "getDoc (u, ''templates'') ?a4 = (Inr (Some (items_doc (JArr ys) st)), ?a5)"
    using nf by (simp add: getDoc_apply a2 tdoc)
  have m2: "merge_items saveTemplate (Some (items_doc (JArr ys) st)) ?a5 = (Inr (), ?a6)"
    unfolding merge_items_doc
    by (rule save_each_saveTemplate) (simp_all add: a2 nf ids)
  have tail: "?tail a2 = (Inr (), ?a6)"
    by (rule andThen_run, rule g1, rule andThen_run, rule m1, rule andThen_run, rule g2, rule m2)
  have run: "download_pass u a = (Inr (), ?a6)"
    unfolding split by (rule andThen_run, rule hyd, rule tail)
  let ?es = "[RGet (u, ''profile''), RGet (u, ''foodLog''),
                  RGet (u, ''history''), RGet (u, ''foodHistory''), RGet (u, ''favorites''),
                  RGet (u, ''recentFoods''), RGet (u, ''weightLog''), RGet (u, ''streakData''),
                  RGet (u, ''recipes'')] @ map SaveRecipe xs @
             RGet (u, ''templates'') # map SaveTemplate ys"
  have "saved_recipes ?es = xs" and "saved_templates ?es = ys"
    by (simp_all add: saved_append saved_map saved_Cons)
  then show ?thesis
    unfolding run
    by (intro exI [of _ ?a6] exI [of _ ?es]) (simp add: a2)
qed

lemma has_id_not_nullish: "has_id x \<Longrightarrow> \<not> nullish x"
  by (cases x) (simp_all add: has_id_def)

lemma upload_recipes_templates_lands:
  assumes "db a" and "configured a" and "u \<noteq> []" and "\<forall>k. \<not> faults a k"
    and "\<forall>x\<in>set (templates a). \<not> nullish x"
  shows "remote (snd (upload_recipes_templates u a)) (u, ''recipes'') =
           Some (items_doc (JArr (recipes a)) (toISOString (clock a (ticks a))))"
    and "remote (snd (upload_recipes_templates u a)) (u, ''templates'') =
           Some (items_doc (JArr (user_templates (templates a)))
                   (toISOString (clock a (Suc (ticks a)))))"
    and "db (snd (upload_recipes_templates u a))"
    and "configured (snd (upload_recipes_templates u a))"
    and "faults (snd (upload_recipes_templates u a)) = faults a"
    and "recipes (snd (upload_recipes_templates u a)) = recipes a"
    and "templates (snd (upload_recipes_templates u a)) = templates a"
  using assms
  by (simp_all add: upload_recipes_templates_def getAllRecipes_def getAllTemplates_def
      syncRecipesToCloud_def syncTemplatesToCloud_def try_catch_def andThen_def external_def
      new_Date_def setDoc_apply lift_def or_else_def filterM_not_prebuilt user_templates_def
      Let_def)

lemma recipe_steps_save_nothing:
  "list_all (is_recipe_step u) es \<Longrightarrow> saved_recipes es = [] \<and> saved_templates es = []"
proof (induction es)
  case Nil
  show ?case by (simp add: saved_Cons)
next
  case (Cons e es)
  then show ?case
    by (cases e) (simp_all add: saved_Cons)
qed

lemma upsert_member: "x \<in> set xs \<Longrightarrow> distinct (map id_of xs) \<Longrightarrow> upsert x xs = xs"
  by (induction xs) auto

lemma fold_upsert_members:
  "set rs \<subseteq> set xs \<Longrightarrow> distinct (map id_of xs) \<Longrightarrow> fold upsert rs xs = xs"
  by (induction rs) (simp_all add: upsert_member)

lemma cycle_merges:
  assumes "db w" and "configured w" and "u \<noteq> []" and nf: "\<forall>k. \<not> faults w k"
    and ids: "list_all has_id (recipes w)" "list_all has_id (templates w)"
  shows "saved_recipes (new_events w (upload_then_download u w)) = recipes w \<and>
         saved_templates (new_events w (upload_then_download u w)) = user_templates (templates w) \<and>
         recipes (upload_then_download u w) = fold upsert (recipes w) (recipes w) \<and>
         templates (upload_then_download u w) =
           fold upsert (user_templates (templates w)) (templates w) \<and>
         store (upload_then_download u w) LAST_SYNC_TIME =
           Some (JStr (toISOString (clock w (ticks (upload_then_download u w) - 1))))"
proof -
  let ?w1 = "snd (commit_local u w)"
  let ?w2 = "snd (mark_synced ?w1)"
  let ?w3 = "snd (uploadLocalToCloud u w)"
  have committed: "fst (commit_local u w) = Inr ()"
    using nf by (simp add: commit_local_apply)
  have run: "uploadLocalToCloud u w = upload_recipes_templates u ?w2"
    using assms(1,2) committed
    by (cases "commit_local u w") (simp add: uploadLocalToCloud_def andThen_def mark_synced_apply)
  have w2: "db ?w2" "configured ?w2" "faults ?w2 = faults w" "recipes ?w2 = recipes w"
      "templates ?w2 = templates w"
    using assms(1,2) by (simp_all add: commit_local_apply mark_synced_apply)
  have objs: "\<forall>x\<in>set (templates ?w2). \<not> nullish x"
    using ids(2) by (simp add: w2 list_all_iff has_id_not_nullish)
  have nf2: "\<forall>k. \<not> faults ?w2 k"
    using nf by (simp add: w2)
  note lands = upload_recipes_templates_lands [OF w2(1,2) assms(3) nf2 objs]
  from lands obtain sr st where
    w3: "remote ?w3 (u, ''recipes'') = Some (items_doc (JArr (recipes w)) sr)"
        "remote ?w3 (u, ''templates'') = Some (items_doc (JArr (user_templates (templates w))) st)"
        "db ?w3" "configured ?w3" "faults ?w3 = faults w" "recipes ?w3 = recipes w"
        "templates ?w3 = templates w"
    unfolding run w2 by blast
  from uploadLocalToCloud_run [OF assms(1,2), of u] nf obtain es0 where
    es0: "trace ?w3 = trace w @ [RBatch (local_batch u w), SaveLastSyncTime (clock w (ticks w + 9)),
            SyncComplete (clock w (ticks w + 9))] @ es0" "list_all (is_recipe_step u) es0"
    by (auto simp: Let_def)
  have nf3: "\<forall>k. \<not> faults ?w3 k"
    using nf by (simp add: w3)
  have user_ids: "list_all has_id (user_templates (templates w))"
    using ids(2) by (simp add: user_templates_def list_all_iff)
  from download_pass_run [OF nf3 w3(1,2) ids(1) user_ids] obtain b es where
    pass: "download_pass u ?w3 = (Inr (), b)"
    and b: "recipes b = fold upsert (recipes w) (recipes w)"
      "templates b = fold upsert (user_templates (templates w)) (templates w)"
      "trace b = trace ?w3 @ es" "saved_recipes es = recipes w"
      "saved_templates es = user_templates (templates w)"
    unfolding w3 by blast
  let ?a = "upload_then_download u w"
  have a: "?a = snd (mark_synced b)"
    using w3(3,4) by (simp add: upload_then_download_def syncFromCloud_apply pass)
  let ?es = "[RBatch (local_batch u w), SaveLastSyncTime (clock w (ticks w + 9)),
            SyncComplete (clock w (ticks w + 9))] @ es0 @ es @
            [SaveLastSyncTime (clock b (ticks b)), SyncComplete (clock b (ticks b))]"
  have "trace ?a = trace w @ ?es"
    unfolding a by (simp add: mark_synced_apply b es0)
  then have events: "new_events w ?a = ?es"
    by (simp add: new_events_def)
  have "saved_recipes ?es = recipes w" and "saved_templates ?es = user_templates (templates w)"
    using recipe_steps_save_nothing [OF es0(2)] b(4,5) by (simp_all add: saved_append saved_Cons)
  moreover have "recipes ?a = recipes b" and "templates ?a = templates b"
    unfolding a by (simp_all add: mark_synced_apply)
  moreover have "store ?a LAST_SYNC_TIME = Some (JStr (toISOString (clock w (ticks ?a - 1))))"
  proof -
    have "later w ?w3"
      by (rule later_of_stamps [OF alwaysD [OF stamps_uploadLocalToCloud]])
    moreover have "later ?w3 b"
      using alwaysD [OF later_download_pass [of u], of ?w3] pass by simp
    ultimately have "clock b = clock w"
      by (simp add: later_def)
    then show ?thesis
      unfolding a by (simp add: mark_synced_apply)
  qed
  ultimately show ?thesis
    unfolding events by (simp add: b)
qed

lemma cycle_upserts_events:
  "\<exists>rs ts. set rs \<subseteq> set (saved_recipes (new_events w (upload_then_download u w))) \<and>
           set ts \<subseteq> set (saved_templates (new_events w (upload_then_download u w))) \<and>
           recipes (upload_then_download u w) = fold upsert rs (recipes w) \<and>
           templates (upload_then_download u w) = fold upsert ts (templates w)"
proof -
  from cycle_upserts [of w u] obtain es rs ts where
    "trace (upload_then_download u w) = trace w @ es"
    and rest: "set rs \<subseteq> set (saved_recipes es)" "set ts \<subseteq> set (saved_templates es)"
      "recipes (upload_then_download u w) = fold upsert rs (recipes w)"
      "templates (upload_then_download u w) = fold upsert ts (templates w)"
    unfolding upserted_def by blast
  then have "new_events w (upload_then_download u w) = es"
    by (simp add: new_events_def)
  with rest show ?thesis
    by blast
qed

text \<open>
  Claim C3, as amended. With the backend configured, the batch commit succeeding, no day
  change and local values of the expected shapes, bulk upload followed by bulk download has
  these effects.

  \<^item> Every slot other than the last-synced one reads as before the upload (an absent slot reads
    as its default).
  \<^item> The last-synced slot holds the ISO string of a clock reading of the cycle: the reading
    the upload marks its sync with (the tenth of the cycle), or a later one.
  \<^item> No id of the local recipe and template collections is lost, and the collections afterwards
    are the local ones with items that were handed to \<open>saveRecipe\<close> and \<open>saveTemplate\<close>
    upserted by id, one after the other.
  \<^item> If moreover the user id is not empty, no call fails, and every local recipe and template
    has a truthy \<open>id\<close>: the items handed to \<open>saveRecipe\<close> are exactly the local recipes and
    those handed to \<open>saveTemplate\<close> exactly the local templates that are not prebuilt, in
    their order; the collections afterwards are the local ones with these upserted; a
    collection whose ids are pairwise distinct is left as it was; and the last-synced slot
    holds the last clock reading of the cycle, the one the download marks its sync with.
\<close>

theorem upload_then_download_restores:
  assumes "db w" and "configured w" and "\<not> faults w (calls w)"
    and "\<forall>m n. today_key (clock w m) = today_key (clock w n)" and "local_shapes_ok w"
  shows "let a = upload_then_download userId w; es = new_events w a
         in (\<forall>s. s \<noteq> LAST_SYNC_TIME \<longrightarrow> read_slot s a = read_slot s w) \<and>
            (\<exists>k. ticks w + 9 \<le> k \<and> k < ticks a \<and>
                 store a LAST_SYNC_TIME = Some (JStr (toISOString (clock w k)))) \<and>
            ids_kept w a \<and>
            (\<exists>rs ts. set rs \<subseteq> set (saved_recipes es) \<and> set ts \<subseteq> set (saved_templates es) \<and>
                     recipes a = fold upsert rs (recipes w) \<and>
                     templates a = fold upsert ts (templates w)) \<and>
            (userId \<noteq> [] \<and> (\<forall>k. \<not> faults w k) \<and>
             list_all has_id (recipes w) \<and> list_all has_id (templates w) \<longrightarrow>
               saved_recipes es = recipes w \<and>
               saved_templates es = user_templates (templates w) \<and>
               recipes a = fold upsert (recipes w) (recipes w) \<and>
               templates a = fold upsert (user_templates (templates w)) (templates w) \<and>
               (distinct (map id_of (recipes w)) \<longrightarrow> recipes a = recipes w) \<and>
               (distinct (map id_of (templates w)) \<longrightarrow> templates a = templates w) \<and>
               store a LAST_SYNC_TIME = Some (JStr (toISOString (clock w (ticks a - 1)))))"
proof -
  let ?a = "upload_then_download userId w"
  have slots: "\<forall>s. s \<noteq> LAST_SYNC_TIME \<longrightarrow> read_slot s ?a = read_slot s w"
    using cycle_restores [OF assms, of userId] by (simp add: restored_def)
  have exact: "saved_recipes (new_events w ?a) = recipes w \<and>
      saved_templates (new_events w ?a) = user_templates (templates w) \<and>
      recipes ?a = fold upsert (recipes w) (recipes w) \<and>
      templates ?a = fold upsert (user_templates (templates w)) (templates w) \<and>
      (distinct (map id_of (recipes w)) \<longrightarrow> recipes ?a = recipes w) \<and>
      (distinct (map id_of (templates w)) \<longrightarrow> templates ?a = templates w) \<and>
      store ?a LAST_SYNC_TIME = Some (JStr (toISOString (clock w (ticks ?a - 1))))"
    if "userId \<noteq> [] \<and> (\<forall>k. \<not> faults w k) \<and>
        list_all has_id (recipes w) \<and> list_all has_id (templates w)"
  proof -
    from that have pre: "userId \<noteq> []" "\<forall>k. \<not> faults w k" "list_all has_id (recipes w)"
        "list_all has_id (templates w)"
      by simp_all
    note m = cycle_merges [OF assms(1,2) pre]
    have "recipes ?a = recipes w" if "distinct (map id_of (recipes w))"
      using m that by (simp add: fold_upsert_members)
    moreover have "templates ?a = templates w" if "distinct (map id_of (templates w))"
      using m that by (simp add: fold_upsert_members user_templates_def)
    ultimately show ?thesis
      using m by blast
  qed
  show ?thesis
    unfolding Let_def
    using slots cycle_timestamp [OF assms(1-3), of userId] cycle_keeps_ids [of w userId]
      cycle_upserts_events [of w userId] exact
    by blast
qed

lemma shapes_kitchen: "local_shapes_ok w_kitchen"
  by (simp add: local_shapes_ok_def read_slot_def loadFromLocalStorage_def w_kitchen_def
      w_home_def w0_def home_defaults_def)

theorem upload_then_download_restores_witness:
  "read_slot FOOD_LOG (upload_then_download ''u1'' w_kitchen) =
     JArr [JObj [(''food'', JStr ''apple''), (''calories'', JNum 95)]] \<and>
   read_slot USER_PROFILE (upload_then_download ''u1'' w_kitchen) = JObj [(''age'', JNum 30)] \<and>
   read_slot WATER_LOG (upload_then_download ''u1'' w_kitchen) = JNum 0 \<and>
   saved_recipes (new_events w_kitchen (upload_then_download ''u1'' w_kitchen)) =
     [JObj [(''id'', JNum 1), (''name'', JStr ''soup'')]] \<and>
   saved_templates (new_events w_kitchen (upload_then_download ''u1'' w_kitchen)) =
     [JObj [(''id'', JNum 8), (''name'', JStr ''lunch'')]] \<and>
   recipes (upload_then_download ''u1'' w_kitchen) = recipes w_kitchen \<and>
   templates (upload_then_download ''u1'' w_kitchen) = templates w_kitchen \<and>
   store (upload_then_download ''u1'' w_kitchen) LAST_SYNC_TIME =
     Some (JStr ''2025-02-23T12:00:00.000Z'')"
proof -
  let ?a = "upload_then_download ''u1'' w_kitchen"
  have pre: "db w_kitchen" "configured w_kitchen" "\<not> faults w_kitchen (calls w_kitchen)"
    "\<forall>m n. today_key (clock w_kitchen m) = today_key (clock w_kitchen n)"
    by (simp_all add: w_kitchen_def w_home_def w0_def)
  have quiet: "''u1'' \<noteq> [] \<and> (\<forall>k. \<not> faults w_kitchen k) \<and>
      list_all has_id (recipes w_kitchen) \<and> list_all has_id (templates w_kitchen)"
    and apart: "distinct (map id_of (recipes w_kitchen))" "distinct (map id_of (templates w_kitchen))"
    by (simp_all add: w_kitchen_def w_home_def w0_def has_id_def field_def)
  note cycle = upload_then_download_restores [OF pre shapes_kitchen, of "''u1''", unfolded Let_def]
  from cycle have "\<forall>s. s \<noteq> LAST_SYNC_TIME \<longrightarrow> read_slot s ?a = read_slot s w_kitchen"
    by blast
  then have slots: "read_slot FOOD_LOG ?a = read_slot FOOD_LOG w_kitchen"
    "read_slot USER_PROFILE ?a = read_slot USER_PROFILE w_kitchen"
    "read_slot WATER_LOG ?a = read_slot WATER_LOG w_kitchen"
    by simp_all
  from cycle quiet apart
  have merged: "saved_recipes (new_events w_kitchen ?a) = recipes w_kitchen"
    "saved_templates (new_events w_kitchen ?a) = user_templates (templates w_kitchen)"
    "recipes ?a = recipes w_kitchen" "templates ?a = templates w_kitchen"
    "store ?a LAST_SYNC_TIME = Some (JStr (toISOString (clock w_kitchen (ticks ?a - 1))))"
    by blast+
  have noon: "toISOString (clock w_kitchen k) = ''2025-02-23T12:00:00.000Z''" for k
    by (simp add: w_kitchen_def w_home_def w0_def iso_t0)
  have stamp: "store ?a LAST_SYNC_TIME = Some (JStr ''2025-02-23T12:00:00.000Z'')"
    using merged(5) by (simp only: noon)
  have before: "recipes w_kitchen = [JObj [(''id'', JNum 1), (''name'', JStr ''soup'')]]"
    "user_templates (templates w_kitchen) = [JObj [(''id'', JNum 8), (''name'', JStr ''lunch'')]]"
    "read_slot FOOD_LOG w_kitchen = JArr [JObj [(''food'', JStr ''apple''), (''calories'', JNum 95)]]"
    "read_slot USER_PROFILE w_kitchen = JObj [(''age'', JNum 30)]"
    "read_slot WATER_LOG w_kitchen = JNum 0"
    by (simp_all add: w_kitchen_def w_home_def w0_def user_templates_def get_prop_opt_def field_def
        read_slot_def loadFromLocalStorage_def)
  show ?thesis
    by (simp add: slots merged(1-4) stamp before)
qed

lemmas run_defs = upload_then_download_def uploadLocalToCloud_def commit_local_apply
  local_batch_def upload_batch_def mark_synced_apply upload_recipes_templates_def
  getAllRecipes_def getAllTemplates_def syncRecipesToCloud_def syncTemplatesToCloud_def
  syncFromCloud_def download_pass_def hydrate_defs saver_defs if_exists_def only_if_def
  andThen_def try_catch_def pure_def lift_def console_error_def emit_def new_Date_def
  external_def getDoc_apply setDoc_apply save_slot_def saveToLocalStorage_def
  saveRecipe_def saveTemplate_def generated_id_def Let_def

lemmas concrete_defs = w_odd_def w_home_def w0_def home_defaults_def iso_t0 today_t0
  spread_doc_def items_doc_def profileDoc_def foodLogDoc_def day_entry_def
  loadFromLocalStorage_def load_slot_def loadUserProfile_def loadDailyTarget_def
  loadMacroGoals_def loadMicronutrientGoals_def loadPreferences_def loadWeeklyHistory_def
  loadRecentFoods_def loadFavoriteFoods_def loadWeightLog_def loadStreakData_def
  not_prebuilt_def or_else_def field_def without_updatedAt_def get_prop_opt_def
  saveLastSyncTime_def dispatch_sync_complete_def mark_synced_def

lemma cycle_last_sync:
  "store (upload_then_download ''u1'' w_home) LAST_SYNC_TIME =
     Some (JStr ''2025-02-23T12:00:00.000Z'')"
  by (simp add: run_defs concrete_defs)

lemma cycle_exercise_log:
  "store (upload_then_download ''u1'' w_home) EXERCISE_LOG = Some (JArr [])"
  by (simp add: run_defs concrete_defs)

lemma cycle_food_history:
  "store (upload_then_download ''u1'' w_odd) FOOD_HISTORY = Some (JObj [(''apple'', JNum 3)])"
  by (simp add: run_defs concrete_defs)

lemma cycle_favorites:
  "store (upload_then_download ''u1'' w_odd) FAVORITE_FOODS = Some (JArr [])"
  by (simp add: run_defs concrete_defs)

lemma cycle_onboarding:
  "store (upload_then_download ''u1'' w_odd) ONBOARDING = Some (JBool True)"
  by (simp add: run_defs concrete_defs)

text \<open>
  As stated the claim fails. In a browser in use the cycle writes the last-synced slot and
  fills the absent exercise log with its default. With values of other shapes it drops a
  field named \<open>updatedAt\<close> from the food history, turns favorites that are \<open>null\<close> into the
  empty list, and an onboarding flag that is \<open>1\<close> into \<open>true\<close>.
\<close>

theorem upload_then_download_restores_counterexample:
  "store (upload_then_download ''u1'' w_home) LAST_SYNC_TIME \<noteq> store w_home LAST_SYNC_TIME \<and>
   store (upload_then_download ''u1'' w_home) EXERCISE_LOG \<noteq> store w_home EXERCISE_LOG \<and>
   read_slot FOOD_HISTORY (upload_then_download ''u1'' w_odd) \<noteq> read_slot FOOD_HISTORY w_odd \<and>
   read_slot FAVORITE_FOODS (upload_then_download ''u1'' w_odd) \<noteq> read_slot FAVORITE_FOODS w_odd \<and>
   read_slot ONBOARDING (upload_then_download ''u1'' w_odd) \<noteq> read_slot ONBOARDING w_odd"
proof -
  have before: "store w_home LAST_SYNC_TIME = None" "store w_home EXERCISE_LOG = None"
    "read_slot FOOD_HISTORY w_odd = JObj [(''apple'', JNum 3), (''updatedAt'', JStr ''yesterday'')]"
    "read_slot FAVORITE_FOODS w_odd = JNull" "read_slot ONBOARDING w_odd = JNum 1"
    by (simp_all add: w_odd_def w_home_def w0_def read_slot_def loadFromLocalStorage_def)
  have after: "read_slot FOOD_HISTORY (upload_then_download ''u1'' w_odd) = JObj [(''apple'', JNum 3)]"
    "read_slot FAVORITE_FOODS (upload_then_download ''u1'' w_odd) = JArr []"
    "read_slot ONBOARDING (upload_then_download ''u1'' w_odd) = JBool True"
    by (simp_all add: read_slot_def loadFromLocalStorage_def cycle_food_history cycle_favorites
        cycle_onboarding)
  show ?thesis
    by (simp add: before after cycle_last_sync cycle_exercise_log)
qed

end
